(* ===== verification/Prelude.thy ===== *)
theory Prelude
  imports Complex_Main "HOL-Library.Word"
begin

text \<open>
  Shared vocabulary of the development: the error values that model the Python,
  NumPy and TensorFlow exceptions the training script can raise, the element-wise
  clipping of NumPy (\<open>np.clip\<close>), Python's modulo, the shape of a batch of
  flattened examples, the sequencing of fallible steps (\<open>bind_err\<close>) and of steps
  on a state whose effects survive an exception (\<open>io_bind\<close>), and the generic
  lemmas on these that the component theories use. Each component theory imports this one.
\<close>

section \<open>Errors\<close>

text \<open>
  Every exception of the script is fatal (the script catches none), so one error
  type is enough; each constructor names the exception the code raises.
\<close>

datatype error =
    ZeroDivisionError      \<comment> \<open>Python \<open>ii % 0\<close>\<close>
  | ValueError             \<comment> \<open>TensorFlow/NumPy argument checks\<close>
  | IndexError             \<comment> \<open>Python list index out of range\<close>
  | InvalidArgumentError   \<comment> \<open>TensorFlow runtime check failed\<close>
  | ShapeError             \<comment> \<open>NumPy operands of different shape\<close>
  | ConfigError            \<comment> \<open>malformed configuration value\<close>
  | KeyError               \<comment> \<open>Python \<open>config['key']\<close> on a missing key\<close>
  | TypeError              \<comment> \<open>Python operation on a value of the wrong type\<close>
  | UnmodelledValue        \<comment> \<open>a configuration value of a kind the model does not represent\<close>
  | FileExistsError        \<comment> \<open>\<open>os.mkdir\<close> of an existing path\<close>
  | FileNotFoundError      \<comment> \<open>a missing file, or a missing parent directory\<close>
  | NotADirectoryError     \<comment> \<open>a path component that is a regular file\<close>
  | IsADirectoryError      \<comment> \<open>opening a directory as a regular file\<close>
  | SameFileError          \<comment> \<open>\<open>shutil.copy\<close> of a file onto itself\<close>

named_theorems model_simps "characteristic equations of the model, used by evaluation"

section \<open>Model types\<close>

type_synonym example = "real list"     \<comment> \<open>one input image, flattened\<close>
type_synonym batch = "example list"
type_synonym labels = "int list"

text \<open>Two batches have the same shape when they have as many examples and each
  pair of examples as many elements.\<close>

definition same_shape :: "batch \<Rightarrow> batch \<Rightarrow> bool" where
  "same_shape u v \<longleftrightarrow> list_all2 (\<lambda>a b. length a = length b) u v"

definition shape :: "batch \<Rightarrow> nat list" where
  "shape u = map length u"

lemma same_shape_iff_shape: "same_shape u v \<longleftrightarrow> shape u = shape v"
  by (auto simp: same_shape_def shape_def list_all2_conv_all_nth list_eq_iff_nth_eq)

lemma same_shape_refl [simp]: "same_shape u u"
  by (simp add: same_shape_iff_shape)

lemma same_shape_sym: "same_shape u v \<Longrightarrow> same_shape v u"
  by (simp add: same_shape_iff_shape)

lemma same_shape_trans: "same_shape u v \<Longrightarrow> same_shape v w \<Longrightarrow> same_shape u w"
  by (simp add: same_shape_iff_shape)

lemma same_shape_length: "same_shape u v \<Longrightarrow> length u = length v"
  by (simp add: same_shape_def list_all2_lengthD)

section \<open>Element-wise maps over a batch\<close>

text \<open>NumPy's element-wise binary operation on two arrays of equal shape, and the
  ternary one used by the projection step (original, current, gradient).\<close>

definition map2_batch :: "(real \<Rightarrow> real \<Rightarrow> real) \<Rightarrow> batch \<Rightarrow> batch \<Rightarrow> batch" where
  "map2_batch f u v = map2 (map2 f) u v"

definition map3_batch ::
  "(real \<Rightarrow> real \<Rightarrow> real \<Rightarrow> real) \<Rightarrow> batch \<Rightarrow> batch \<Rightarrow> batch \<Rightarrow> batch" where
  "map3_batch f u v w = map2 (\<lambda>a bc. map2 (\<lambda>x yz. f x (fst yz) (snd yz)) a (zip (fst bc) (snd bc))) u (zip v w)"

text \<open>Every element of a batch satisfies a predicate.\<close>

definition all_elems :: "(real \<Rightarrow> bool) \<Rightarrow> batch \<Rightarrow> bool" where
  "all_elems P u \<longleftrightarrow> (\<forall>e\<in>set u. \<forall>r\<in>set e. P r)"

text \<open>Every pair of corresponding elements of two batches satisfies a relation.\<close>

definition all_pairs :: "(real \<Rightarrow> real \<Rightarrow> bool) \<Rightarrow> batch \<Rightarrow> batch \<Rightarrow> bool" where
  "all_pairs R u v \<longleftrightarrow> list_all2 (list_all2 R) u v"

lemma shape_map2_batch [simp]:
  "same_shape u v \<Longrightarrow> shape (map2_batch f u v) = shape u"
  by (auto simp: same_shape_def map2_batch_def shape_def list_all2_conv_all_nth
      intro!: nth_equalityI)

lemma shape_map3_batch [simp]:
  "same_shape u v \<Longrightarrow> same_shape u w \<Longrightarrow> shape (map3_batch f u v w) = shape u"
  by (auto simp: same_shape_def map3_batch_def shape_def list_all2_conv_all_nth
      intro!: nth_equalityI)

lemma shape_map_map [simp]: "shape (map (map f) u) = shape u"
  by (simp add: shape_def comp_def)

lemma all_elems_map_map [simp]: "all_elems P (map (map f) u) \<longleftrightarrow> all_elems (\<lambda>r. P (f r)) u"
  by (simp add: all_elems_def)

lemma all_elems_map2_batch:
  "(\<And>a b. P (f a b)) \<Longrightarrow> all_elems P (map2_batch f u v)"
  by (auto simp: all_elems_def map2_batch_def dest!: set_zip_rightD set_zip_leftD
      elim!: in_set_zipE)

lemma all_elems_map3_batch:
  "(\<And>a b c. P (f a b c)) \<Longrightarrow> all_elems P (map3_batch f u v w)"
  by (auto simp: all_elems_def map3_batch_def elim!: in_set_zipE)

lemma all_pairs_map3_batch:
  assumes "same_shape u v" and "same_shape u w" and "\<And>a b c. R a (f a b c)"
  shows "all_pairs R u (map3_batch f u v w)"
  using assms
  by (auto simp: all_pairs_def same_shape_def map3_batch_def list_all2_conv_all_nth)

lemma all_pairs_map_map:
  assumes "\<And>a. R a (f a)"
  shows "all_pairs R u (map (map f) u)"
  using assms by (simp add: all_pairs_def list_all2_conv_all_nth)

lemma all_pairs_map2_batch:
  assumes "same_shape u v" and "all_elems Q v" and "\<And>a b. Q b \<Longrightarrow> R a (f a b)"
  shows "all_pairs R u (map2_batch f u v)"
  unfolding all_pairs_def
proof (rule list_all2_all_nthI)
  show "length u = length (map2_batch f u v)"
    using assms(1) by (simp add: map2_batch_def same_shape_length)
next
  fix i assume i: "i < length u"
  then have iv: "i < length v" using assms(1) by (simp add: same_shape_length)
  have li: "length (v ! i) = length (u ! i)"
    using assms(1) i by (simp add: same_shape_def list_all2_conv_all_nth)
  have qi: "\<forall>b\<in>set (v ! i). Q b" using assms(2) nth_mem [OF iv] unfolding all_elems_def by blast
  show "list_all2 R (u ! i) (map2_batch f u v ! i)"
    using i iv li qi assms(3) by (auto simp: map2_batch_def list_all2_conv_all_nth)
qed

lemma all_elems_True [simp]: "all_elems (\<lambda>r. True) u"
  by (simp add: all_elems_def)

lemma all_pairs_elems_mp:
  assumes "all_pairs (\<lambda>a b. P a \<longrightarrow> R a b) u v" and "all_elems P u"
  shows "all_pairs R u v"
  unfolding all_pairs_def
proof (rule list_all2_all_nthI)
  show "length u = length v" using assms(1) by (simp add: all_pairs_def list_all2_lengthD)
next
  fix i assume i: "i < length u"
  then have l: "list_all2 (\<lambda>a b. P a \<longrightarrow> R a b) (u ! i) (v ! i)"
    using assms(1) by (simp add: all_pairs_def list_all2_conv_all_nth)
  have "\<forall>r\<in>set (u ! i). P r" using assms(2) nth_mem [OF i] unfolding all_elems_def by blast
  with l show "list_all2 R (u ! i) (v ! i)"
    by (auto simp: list_all2_conv_all_nth)
qed

text \<open>A ternary map whose middle argument is a function of the first, and whose
  value does not depend on the third where that satisfies \<open>P\<close>, is a plain map.\<close>

lemma map3_batch_collapse:
  assumes "same_shape u w" "all_elems Q u" "all_elems P w"
    and "\<And>a b. Q a \<Longrightarrow> P b \<Longrightarrow> f a (h a) b = k a"
  shows "map3_batch f u (map (map h) u) w = map (map k) u"
proof (rule nth_equalityI)
  have l: "length w = length u" using assms(1) by (simp add: same_shape_length)
  then show "length (map3_batch f u (map (map h) u) w) = length (map (map k) u)"
    by (simp add: map3_batch_def)
next
  fix i assume i: "i < length (map3_batch f u (map (map h) u) w)"
  then have iu: "i < length u" and iw: "i < length w" by (auto simp: map3_batch_def)
  have li: "length (w ! i) = length (u ! i)"
    using assms(1) iu by (simp add: same_shape_def list_all2_conv_all_nth)
  have qi: "\<forall>a\<in>set (u ! i). Q a" using assms(2) nth_mem [OF iu] unfolding all_elems_def by blast
  have pi: "\<forall>b\<in>set (w ! i). P b" using assms(3) nth_mem [OF iw] unfolding all_elems_def by blast
  show "map3_batch f u (map (map h) u) w ! i = map (map k) u ! i"
  proof (rule nth_equalityI)
    fix j assume "j < length (map3_batch f u (map (map h) u) w ! i)"
    then have j: "j < length (u ! i)" "j < length (w ! i)" using iu iw li
      by (auto simp: map3_batch_def)
    then show "map3_batch f u (map (map h) u) w ! i ! j = map (map k) u ! i ! j"
      using iu iw qi pi assms(4) nth_mem [OF j(1)] nth_mem [OF j(2)]
      by (simp add: map3_batch_def)
  qed (use iu iw li in \<open>simp add: map3_batch_def\<close>)
qed

lemma map2_batch_const:
  assumes "same_shape u v" "all_elems (\<lambda>b. b = c) v"
  shows "map2_batch f u v = map (map (\<lambda>a. f a c)) u"
proof (rule nth_equalityI)
  show "length (map2_batch f u v) = length (map (map (\<lambda>a. f a c)) u)"
    using assms(1) by (simp add: map2_batch_def same_shape_length)
next
  fix i assume "i < length (map2_batch f u v)"
  then have iu: "i < length u" and iv: "i < length v" by (auto simp: map2_batch_def)
  have li: "length (v ! i) = length (u ! i)"
    using assms(1) iu by (simp add: same_shape_def list_all2_conv_all_nth)
  have ci: "\<forall>b\<in>set (v ! i). b = c" using assms(2) nth_mem [OF iv] unfolding all_elems_def by blast
  show "map2_batch f u v ! i = map (map (\<lambda>a. f a c)) u ! i"
    using iu iv li ci by (auto simp: map2_batch_def intro!: nth_equalityI)
qed

lemma map_map_cong_elems:
  "all_elems P u \<Longrightarrow> (\<And>a. P a \<Longrightarrow> f a = g a) \<Longrightarrow> map (map f) u = map (map g) u"
  by (auto simp: all_elems_def intro!: map_cong)

section \<open>Clipping\<close>

text \<open>\<open>np.clip(v, lo, hi)\<close> and \<open>tf.clip_by_value\<close>: \<open>minimum(maximum(v, lo), hi)\<close>.\<close>

definition clip :: "real \<Rightarrow> real \<Rightarrow> real \<Rightarrow> real" where
  "clip lo hi v = min hi (max lo v)"

lemma clip_bounds [intro]: "lo \<le> hi \<Longrightarrow> lo \<le> clip lo hi v \<and> clip lo hi v \<le> hi"
  by (simp add: clip_def)

lemma clip_le_hi [simp]: "clip lo hi v \<le> hi"
  by (simp add: clip_def)

lemma clip_id [simp]: "lo \<le> v \<Longrightarrow> v \<le> hi \<Longrightarrow> clip lo hi v = v"
  by (simp add: clip_def)

lemma clip_point [simp]: "clip v v w = v"
  by (simp add: clip_def)

text \<open>Clipping is 1-Lipschitz, so it never moves a point further from a point
  inside the interval.\<close>

lemma clip_dist:
  "lo \<le> x \<Longrightarrow> x \<le> hi \<Longrightarrow> \<bar>clip lo hi v - x\<bar> \<le> \<bar>v - x\<bar>"
  by (auto simp: clip_def min_def max_def abs_le_iff)

text \<open>The double projection of the attack: first into the ball
  \<open>[x - \<epsilon>, x + \<epsilon>]\<close>, then into the box \<open>[0, 1]\<close>. With \<open>x\<close> in the box
  and \<open>\<epsilon> \<ge> 0\<close> the result lies in both.\<close>

lemma clip_clip:
  assumes "max lo lo' \<le> min hi hi'"
  shows "clip lo hi (clip lo' hi' v) = clip (max lo lo') (min hi hi') v"
  using assms unfolding clip_def max_def min_def by (auto split: if_splits)

text \<open>\<open>clip\<close> is the projection onto its interval: no point of the interval is
  closer to \<open>v\<close>.\<close>

lemma clip_nearest: "lo \<le> y \<Longrightarrow> y \<le> hi \<Longrightarrow> \<bar>clip lo hi v - v\<bar> \<le> \<bar>y - v\<bar>"
  by (auto simp: clip_def min_def max_def abs_le_iff)

lemma clip_ball_box:
  assumes "0 \<le> x" "x \<le> 1" "0 \<le> eps"
  shows "\<bar>clip 0 1 (clip (x - eps) (x + eps) v) - x\<bar> \<le> eps"
  using assms by (simp add: clip_def min_def max_def abs_le_iff)

section \<open>NumPy reductions\<close>

text \<open>\<open>np.amax\<close>, \<open>np.amin\<close>, \<open>np.median\<close> (the middle of the sorted values, or the
  mean of the two middle ones) and \<open>np.mean\<close> of a non-empty vector.\<close>

definition np_amax :: "real list \<Rightarrow> real" where
  "np_amax xs = Max (set xs)"

definition np_amin :: "real list \<Rightarrow> real" where
  "np_amin xs = Min (set xs)"

definition np_median :: "real list \<Rightarrow> real" where
  "np_median xs =
     (let s = sort xs; n = length s in
      if odd n then s ! (n div 2) else (s ! (n div 2 - 1) + s ! (n div 2)) / 2)"

definition np_mean :: "real list \<Rightarrow> real" where
  "np_mean xs = sum_list xs / real (length xs)"

lemma np_sort_nth_bounds:
  assumes "k < length xs"
  shows "np_amin xs \<le> sort xs ! k \<and> sort xs ! k \<le> np_amax xs"
proof -
  have "sort xs ! k \<in> set xs" using assms by (metis length_sort nth_mem set_sort)
  then show ?thesis by (simp add: np_amin_def np_amax_def)
qed

lemma np_median_bounds:
  assumes "xs \<noteq> []"
  shows "np_amin xs \<le> np_median xs \<and> np_median xs \<le> np_amax xs"
proof (cases "odd (length xs)")
  case True
  have "length xs div 2 < length xs" using assms by simp
  then show ?thesis using True np_sort_nth_bounds by (simp add: np_median_def Let_def)
next
  case False
  have h: "length xs div 2 < length xs" using assms by simp
  then have "length xs div 2 - 1 < length xs" by (metis le_less_trans diff_le_self)
  then show ?thesis using False h np_sort_nth_bounds [of "length xs div 2 - 1" xs]
      np_sort_nth_bounds [of "length xs div 2" xs]
    by (simp add: np_median_def Let_def)
qed

lemma np_mean_bounds:
  assumes "xs \<noteq> []"
  shows "np_amin xs \<le> np_mean xs \<and> np_mean xs \<le> np_amax xs"
proof -
  have n: "0 < real (length xs)" using assms by simp
  have "(\<Sum>x\<leftarrow>xs. x) \<le> (\<Sum>x\<leftarrow>xs. np_amax xs)" by (rule sum_list_mono) (simp add: np_amax_def)
  moreover have "(\<Sum>x\<leftarrow>xs. np_amin xs) \<le> (\<Sum>x\<leftarrow>xs. x)" by (rule sum_list_mono) (simp add: np_amin_def)
  ultimately have "real (length xs) * np_amin xs \<le> sum_list xs" "sum_list xs \<le> real (length xs) * np_amax xs"
    by (simp_all add: sum_list_triv)
  then show ?thesis using n by (simp add: np_mean_def pos_le_divide_eq pos_divide_le_eq mult.commute)
qed

lemma np_amin_le_amax: "xs \<noteq> [] \<Longrightarrow> np_amin xs \<le> np_amax xs"
  by (simp add: np_amin_def np_amax_def)

section \<open>The 64-bit global step\<close>

text \<open>TensorFlow's \<open>global_step\<close> is an \<open>int64\<close> variable.\<close>

type_synonym step64 = "64 word"

lemma uint_of_nat_small: "n < 2 ^ 64 \<Longrightarrow> uint (of_nat n :: step64) = int n"
  by (simp add: unsigned_of_nat take_bit_nat_eq_self)

lemma unat_of_nat_small: "n < 2 ^ 64 \<Longrightarrow> unat (of_nat n :: step64) = n"
  by (simp add: unsigned_of_nat take_bit_nat_eq_self)

lemma sint_of_nat_small: "n < 2 ^ 63 \<Longrightarrow> sint (of_nat n :: step64) = int n"
proof -
  assume n: "n < 2 ^ 63"
  then have u: "uint (of_nat n :: step64) = int n" by (intro uint_of_nat_small) simp
  have "signed_take_bit 63 (int n) = int n"
    using n by (auto simp: signed_take_bit_int_eq_self_iff intro: order.trans [of _ 0])
  then show ?thesis using u by (simp add: sint_uint)
qed

section \<open>Python integers\<close>

text \<open>Python's \<open>a % b\<close>: the floor modulo of \<open>int\<close>, raising on a zero divisor.\<close>

definition py_mod :: "int \<Rightarrow> int \<Rightarrow> error + int" where
  "py_mod a b = (if b = 0 then Inl ZeroDivisionError else Inr (a mod b))"

lemma py_mod_zero [simp]: "py_mod a 0 = Inl ZeroDivisionError"
  by (simp add: py_mod_def)

lemma py_mod_nonzero [simp]: "b \<noteq> 0 \<Longrightarrow> py_mod a b = Inr (a mod b)"
  by (simp add: py_mod_def)

section \<open>Sequencing fallible steps\<close>

text \<open>\<open>bind_err\<close> runs the second step on the result of the first, propagating the
  first error unchanged, as an uncaught exception does.\<close>

definition bind_err :: "error + 'a \<Rightarrow> ('a \<Rightarrow> error + 'b) \<Rightarrow> error + 'b" where
  "bind_err m f = (case m of Inl e \<Rightarrow> Inl e | Inr a \<Rightarrow> f a)"

lemma bind_err_Inl [simp]: "bind_err (Inl e) f = Inl e"
  by (simp add: bind_err_def)

lemma bind_err_Inr [simp]: "bind_err (Inr a) f = f a"
  by (simp add: bind_err_def)

lemma bind_err_eq_Inr:
  "bind_err m f = Inr b \<longleftrightarrow> (\<exists>a. m = Inr a \<and> f a = Inr b)"
  by (cases m) auto

lemma bind_err_assoc:
  "bind_err (bind_err m f) g = bind_err m (\<lambda>a. bind_err (f a) g)"
  by (cases m) auto


lemma bind_err_cong [cong]:
  "m = m' \<Longrightarrow> (\<And>a. m' = Inr a \<Longrightarrow> f a = g a) \<Longrightarrow> bind_err m f = bind_err m' g"
  by (cases m') simp_all

text \<open>A Python list comprehension or loop over a list whose body may raise: the
  first exception, in list order, ends it.\<close>

primrec map_err :: "('a \<Rightarrow> error + 'b) \<Rightarrow> 'a list \<Rightarrow> error + 'b list" where
  "map_err f [] = Inr []"
| "map_err f (x # xs) = bind_err (f x) (\<lambda>y. bind_err (map_err f xs) (\<lambda>ys. Inr (y # ys)))"

lemma map_err_Inr:
  "map_err f xs = Inr ys \<longleftrightarrow> list_all2 (\<lambda>x y. f x = Inr y) xs ys"
proof (induction xs arbitrary: ys)
  case (Cons x xs)
  then show ?case by (cases ys) (auto simp: bind_err_eq_Inr)
qed auto

lemma map_err_length: "map_err f xs = Inr ys \<Longrightarrow> length ys = length xs"
  by (simp add: map_err_Inr list_all2_lengthD)

lemma map_err_total: "(\<And>x. x \<in> set xs \<Longrightarrow> f x = Inr (g x)) \<Longrightarrow> map_err f xs = Inr (map g xs)"
  by (induction xs) auto

section \<open>Effects that survive an exception\<close>

text \<open>A step on a state \<open>'s\<close> (the file system) that may raise returns the state
  it leaves together with its result. An exception does not undo what was done
  before it (a directory created before a later exception stays on disk), so
  \<open>io_bind\<close> passes the state on in both cases; \<open>io_lift\<close> is a step that does
  not touch the state, and \<open>io_catch e\<close> is Python's \<open>try: ... except e: pass\<close>.\<close>

type_synonym ('s, 'a) io = "'s \<Rightarrow> 's \<times> (error + 'a)"

definition io_return :: "'a \<Rightarrow> ('s, 'a) io" where
  "io_return a = (\<lambda>s. (s, Inr a))"

definition io_lift :: "error + 'a \<Rightarrow> ('s, 'a) io" where
  "io_lift r = (\<lambda>s. (s, r))"

definition io_bind :: "('s, 'a) io \<Rightarrow> ('a \<Rightarrow> ('s, 'b) io) \<Rightarrow> ('s, 'b) io" where
  "io_bind m f = (\<lambda>s. case m s of (s', Inl e) \<Rightarrow> (s', Inl e) | (s', Inr a) \<Rightarrow> f a s')"

definition io_catch :: "error \<Rightarrow> ('s, unit) io \<Rightarrow> ('s, unit) io" where
  "io_catch e m = (\<lambda>s. case m s of (s', Inl e') \<Rightarrow> (s', if e' = e then Inr () else Inl e') | r \<Rightarrow> r)"

lemma io_bind_return [simp]: "io_bind (io_return a) f = f a"
  by (simp add: io_bind_def io_return_def)

lemma io_bind_lift_Inr [simp]: "io_bind (io_lift (Inr a)) f = f a"
  by (simp add: io_bind_def io_lift_def)

lemma io_bind_lift_Inl [simp]: "io_bind (io_lift (Inl e)) f = io_lift (Inl e)"
  by (simp add: io_bind_def io_lift_def)

lemma io_lift_apply [simp]: "io_lift r s = (s, r)"
  by (simp add: io_lift_def)

lemma io_return_apply [simp]: "io_return a s = (s, Inr a)"
  by (simp add: io_return_def)

lemma io_bind_Inr: "m s = (s', Inr a) \<Longrightarrow> io_bind m f s = f a s'"
  by (simp add: io_bind_def)

lemma io_bind_Inl: "m s = (s', Inl e) \<Longrightarrow> io_bind m f s = (s', Inl e)"
  by (simp add: io_bind_def)

lemma io_bind_eq_Inr:
  "io_bind m f s = (s'', Inr b) \<longleftrightarrow> (\<exists>s' a. m s = (s', Inr a) \<and> f a s' = (s'', Inr b))"
  by (cases "m s") (auto simp: io_bind_def split: sum.splits)

lemma io_bind_assoc: "io_bind (io_bind m f) g = io_bind m (\<lambda>a. io_bind (f a) g)"
  by (rule ext) (simp add: io_bind_def split: prod.splits sum.splits)

text \<open>A step that does not touch the state, followed by any step: its error is the
  pure error and the state is the one the second step leaves.\<close>

lemma snd_io_bind_lift: "snd (io_bind (io_lift m) f s) = bind_err m (\<lambda>a. snd (f a s))"
  by (cases m) simp_all

text \<open>A property of the state that a step keeps, whether it returns or raises.\<close>

definition io_inv :: "('s \<Rightarrow> bool) \<Rightarrow> ('s, 'a) io \<Rightarrow> bool" where
  "io_inv P m \<longleftrightarrow> (\<forall>s. P s \<longrightarrow> P (fst (m s)))"

lemma io_invD: "io_inv P m \<Longrightarrow> P s \<Longrightarrow> m s = (s', r) \<Longrightarrow> P s'"
  by (metis fst_conv io_inv_def)

lemma io_inv_bind: "io_inv P m \<Longrightarrow> (\<And>a. io_inv P (f a)) \<Longrightarrow> io_inv P (io_bind m f)"
  by (auto simp: io_inv_def io_bind_def split: prod.splits sum.splits)

lemma io_inv_lift [simp]: "io_inv P (io_lift r)"
  by (simp add: io_inv_def)

lemma io_inv_catch: "io_inv P m \<Longrightarrow> io_inv P (io_catch e m)"
  by (auto simp: io_inv_def io_catch_def split: prod.splits sum.splits)

end
