(* ===== verification/Schedule.thy ===== *)
theory Schedule
  imports Prelude
begin

text \<open>
  The learning-rate schedule of \<open>train_robust.py\<close> (lines 48--56): the configured
  \<open>step_size_schedule\<close>, a list of \<open>(step, rate)\<close> pairs, is split into
  \<open>boundaries\<close> (the steps of all pairs but the first, truncated by Python's
  \<open>int\<close>) and \<open>values\<close> (all rates), and handed with the global step, cast to
  \<open>int32\<close>, to TensorFlow's \<open>tf.train.piecewise_constant\<close>. That library function
  is modelled as TensorFlow 1.x implements it: its graph-construction checks raise
  \<open>ValueError\<close> or \<open>IndexError\<close>, and the selection is a \<open>tf.case\<close> with
  \<open>exclusive=True\<close> over the predicates \<open>x <= b[0]\<close>, \<open>x > b[-1]\<close> and
  \<open>b[i] < x <= b[i+1]\<close>, which fails at run time when two predicates hold.
  The abstract contract \<open>lr_spec\<close> (the rate of the number of boundaries strictly
  below the step) is proved equal to it on sorted boundaries.
\<close>

section \<open>Reading the schedule from the configuration\<close>

text \<open>Python's \<open>int(r)\<close> on a number truncates towards zero.\<close>

definition py_int :: "real \<Rightarrow> int" where
  "py_int r = (if 0 \<le> r then \<lfloor>r\<rfloor> else \<lceil>r\<rceil>)"

text \<open>\<open>boundaries = [int(sss[0]) for sss in step_size_schedule]; boundaries =
  boundaries[1:]\<close>. The slice of an empty list is empty, as \<open>drop 1\<close> is.\<close>

definition schedule_boundaries :: "(real \<times> 'v) list \<Rightarrow> int list" where
  "schedule_boundaries sss = drop 1 (map (\<lambda>e. py_int (fst e)) sss)"

text \<open>\<open>values = [sss[1] for sss in step_size_schedule]\<close>.\<close>

definition schedule_values :: "(real \<times> 'v) list \<Rightarrow> 'v list" where
  "schedule_values sss = map snd sss"

section \<open>\<open>tf.train.piecewise_constant\<close>\<close>

text \<open>A Python integer boundary becomes an \<open>int32\<close> tensor when it fits, an
  \<open>int64\<close> one otherwise; an \<open>int64\<close> boundary against the \<open>int32\<close> step is a
  \<open>ValueError\<close>.\<close>

definition fits_int32 :: "int \<Rightarrow> bool" where
  "fits_int32 b \<longleftrightarrow> - (2 ^ 31) \<le> b \<and> b < 2 ^ 31"

text \<open>The predicate/value pairs, in the order the library builds them:
  \<open>(x <= b[0], v[0])\<close>, \<open>(x > b[-1], v[-1])\<close>, then
  \<open>zip(b[:-1], b[1:], v[1:-1])\<close> as \<open>(lo < x <= hi, v)\<close>.\<close>

definition pc_preds :: "int \<Rightarrow> int list \<Rightarrow> 'v list \<Rightarrow> (bool \<times> 'v) list" where
  "pc_preds x bs vs =
     [(x \<le> hd bs, hd vs), (last bs < x, last vs)] @
     map (\<lambda>((lo, hi), v). (lo < x \<and> x \<le> hi, v))
       (zip (zip (butlast bs) (tl bs)) (tl (butlast vs)))"

text \<open>\<open>tf.case(pred_fn_pairs, default, exclusive=True)\<close>: the value of the one
  predicate that holds, the default when none holds, and a run-time
  \<open>InvalidArgumentError\<close> when more than one holds.\<close>

definition tf_case :: "(bool \<times> 'v) list \<Rightarrow> 'v \<Rightarrow> error + 'v" where
  "tf_case pfs d =
     (case filter fst pfs of
        [] \<Rightarrow> Inr d
      | [p] \<Rightarrow> Inr (snd p)
      | _ \<Rightarrow> Inl InvalidArgumentError)"

text \<open>Graph construction: the length check is
  \<open>len(boundaries) != len(values) - 1\<close> on Python integers (written with
  \<open>+ 1\<close> on the other side, since \<open>nat\<close> subtraction would turn \<open>0 - 1\<close> into
  \<open>0\<close>), then the dtype check, then \<open>boundaries[0]\<close>, which raises on an empty
  list. The result is the tensor, a function of the step.\<close>

definition pc_build :: "int list \<Rightarrow> 'v list \<Rightarrow> error + (int \<Rightarrow> error + 'v)" where
  "pc_build bs vs =
     (if length bs + 1 \<noteq> length vs then Inl ValueError
      else if \<not> list_all fits_int32 bs then Inl ValueError
      else if bs = [] then Inl IndexError
      else Inr (\<lambda>x. tf_case (pc_preds x bs vs) (hd vs)))"

definition piecewise_constant :: "int \<Rightarrow> int list \<Rightarrow> 'v list \<Rightarrow> error + 'v" where
  "piecewise_constant x bs vs = bind_err (pc_build bs vs) (\<lambda>f. f x)"

section \<open>The global step and the rate of a training step\<close>

text \<open>\<open>global_step\<close> is an \<open>int64\<close> variable; \<open>tf.cast(global_step, tf.int32)\<close>
  keeps its low 32 bits, read as two's complement.\<close>


definition cast_int32 :: "step64 \<Rightarrow> int" where
  "cast_int32 w = sint (ucast w :: 32 word)"

text \<open>The graph built at lines 50--56 of the script.\<close>

definition schedule_fn :: "(real \<times> 'v) list \<Rightarrow> error + (int \<Rightarrow> error + 'v)" where
  "schedule_fn sss = pc_build (schedule_boundaries sss) (schedule_values sss)"

definition learning_rate :: "step64 \<Rightarrow> (real \<times> 'v) list \<Rightarrow> error + 'v" where
  "learning_rate gs sss = bind_err (schedule_fn sss) (\<lambda>f. f (cast_int32 gs))"

section \<open>The contract\<close>

text \<open>What a piecewise-constant schedule promises: the rate of the interval the
  step falls in, the intervals being \<open>(-\<infinity>, b0], (b0, b1], \<dots>, (b_last, \<infinity>)\<close>;
  its index is the number of boundaries strictly below the step.\<close>

definition lr_spec :: "int \<Rightarrow> int list \<Rightarrow> 'v list \<Rightarrow> 'v" where
  "lr_spec x bs vs = vs ! length (filter (\<lambda>b. b < x) bs)"

section \<open>Proof devices\<close>

text \<open>The interval predicates of \<open>pc_preds\<close> as a recursion over consecutive
  boundaries (proved equal to the \<open>zip\<close> form below).\<close>

fun interval_preds :: "int \<Rightarrow> int list \<Rightarrow> 'v list \<Rightarrow> (bool \<times> 'v) list" where
  "interval_preds x (lo # hi # bs) (v # vs) = (lo < x \<and> x \<le> hi, v) # interval_preds x (hi # bs) vs"
| "interval_preds x _ _ = []"

text \<open>Where two consecutive boundaries descend, \<open>b[i+1] < x <= b[i]\<close>, the
  interval predicates overlap the outer ones; every such pair adds one predicate that
  holds.\<close>

definition descents_at :: "int \<Rightarrow> int list \<Rightarrow> nat" where
  "descents_at x bs = length (filter (\<lambda>(lo, hi). hi < x \<and> x \<le> lo) (zip bs (tl bs)))"

section \<open>Lemmas\<close>

subsection \<open>The interval predicates\<close>


lemma zip_interval_preds:
  "map (\<lambda>((lo, hi), v). (lo < x \<and> x \<le> hi, v)) (zip (zip (butlast bs) (tl bs)) ws) =
   interval_preds x bs ws"
  by (induction x bs ws rule: interval_preds.induct) (auto simp: neq_Nil_conv)

lemma count_below_ge:
  "sorted (b # bs) \<Longrightarrow> x \<le> b \<Longrightarrow> filter (\<lambda>c. c < x) (b # bs) = []"
  by (auto simp: filter_empty_conv)

lemma filter_interval_preds:
  assumes "sorted bs" and "length ws + 1 = length bs"
  shows "filter fst (interval_preds x bs ws) =
           (if hd bs < x \<and> x \<le> last bs
            then [(True, ws ! (length (filter (\<lambda>b. b < x) bs) - 1))] else [])"
  using assms
proof (induction x bs ws rule: interval_preds.induct)
  case (1 x lo hi bs v vs)
  then have s: "sorted (hi # bs)" and l: "length vs + 1 = length (hi # bs)" by auto
  show ?case
  proof (cases "lo < x \<and> x \<le> hi")
    case True
    then have "filter (\<lambda>c. c < x) (hi # bs) = []"
      using s by (intro count_below_ge) auto
    moreover have "hi \<le> last (hi # bs)"
      using s last_in_set [of "hi # bs"] by (auto simp del: last.simps)
    ultimately show ?thesis using True "1.IH" s l by auto
  next
    case False
    show ?thesis
    proof (cases "hi < x")
      case True
      with "1.prems"(1) have "lo < x" by auto
      with True False "1.IH" s l show ?thesis by (auto simp: nth_Cons')
    next
      case hx: False
      with False "1.IH" s l "1.prems"(1) show ?thesis by auto
    qed
  qed
qed (auto simp: Suc_length_conv)

lemma sorted_le_last: "sorted bs \<Longrightarrow> b \<in> set bs \<Longrightarrow> b \<le> last bs"
  by (induction bs) (auto intro: last_in_set)

lemma sorted_hd_le_last: "sorted bs \<Longrightarrow> bs \<noteq> [] \<Longrightarrow> hd bs \<le> last bs"
  by (simp add: sorted_le_last)

lemma count_below_all:
  "sorted bs \<Longrightarrow> bs \<noteq> [] \<Longrightarrow> last bs < x \<Longrightarrow> length (filter (\<lambda>b. b < x) bs) = length bs"
proof -
  assume "sorted bs" "bs \<noteq> []" "last bs < x"
  then have "\<forall>b\<in>set bs. b < x"
    using sorted_le_last by fastforce
  then show ?thesis by (simp add: filter_True)
qed

lemma count_below_between:
  assumes "sorted bs" "bs \<noteq> []" "hd bs < x" "x \<le> last bs"
  shows "0 < length (filter (\<lambda>b. b < x) bs) \<and> length (filter (\<lambda>b. b < x) bs) < length bs"
proof -
  obtain ys y where bs: "bs = ys @ [y]" using assms(2) by (cases bs rule: rev_cases) auto
  have "hd bs \<in> set (filter (\<lambda>b. b < x) bs)" using assms(2,3) by simp
  then have "0 < length (filter (\<lambda>b. b < x) bs)" by (metis length_pos_if_in_set)
  moreover have "length (filter (\<lambda>b. b < x) bs) \<le> length ys"
    using assms(4) bs by simp
  ultimately show ?thesis using bs by simp
qed

lemma nth_tl_butlast:
  "0 < k \<Longrightarrow> k + 1 < length vs \<Longrightarrow> tl (butlast vs) ! (k - 1) = vs ! k"
proof (cases vs)
  case (Cons v vs')
  assume "0 < k" "k + 1 < length vs"
  with Cons have "vs' \<noteq> []" "k - 1 < length vs' - 1" by auto
  with Cons \<open>0 < k\<close> show ?thesis by (simp add: nth_butlast)
qed simp

lemma pc_build_Inr:
  "length vs = length bs + 1 \<Longrightarrow> list_all fits_int32 bs \<Longrightarrow> bs \<noteq> [] \<Longrightarrow>
   pc_build bs vs = Inr (\<lambda>x. tf_case (pc_preds x bs vs) (hd vs))"
  by (simp add: pc_build_def)

lemma pc_preds_filter:
  assumes "sorted bs" "bs \<noteq> []" "length vs = length bs + 1"
  shows "filter fst (pc_preds x bs vs) =
    [(True, vs ! length (filter (\<lambda>b. b < x) bs))]"
proof -
  let ?k = "length (filter (\<lambda>b. b < x) bs)"
  let ?ws = "tl (butlast vs)"
  have lw: "length ?ws + 1 = length bs" using assms(2,3) by simp
  have hl: "hd bs \<le> last bs" using assms(1,2) by (rule sorted_hd_le_last)
  have p: "pc_preds x bs vs = [(x \<le> hd bs, hd vs), (last bs < x, last vs)] @ interval_preds x bs ?ws"
    by (simp add: pc_preds_def zip_interval_preds)
  have fi: "filter fst (interval_preds x bs ?ws) =
      (if hd bs < x \<and> x \<le> last bs then [(True, ?ws ! (?k - 1))] else [])"
    using assms(1) lw by (rule filter_interval_preds)
  consider (lo) "x \<le> hd bs" | (hi) "last bs < x" | (mid) "hd bs < x" "x \<le> last bs"
    by linarith
  then show ?thesis
  proof cases
    case lo
    have "?k = 0" using assms(1,2) lo count_below_ge [of "hd bs" "tl bs" x] by simp
    moreover have "hd vs = vs ! 0" using assms(3) by (cases vs) auto
    ultimately show ?thesis using p fi lo hl by simp
  next
    case hi
    have "?k = length bs" using assms(1,2) hi by (rule count_below_all)
    moreover have "last vs = vs ! length bs"
      using assms(3) last_conv_nth [of vs] by (cases vs) auto
    ultimately show ?thesis using p fi hi hl by simp
  next
    case mid
    have k: "0 < ?k \<and> ?k < length bs" using assms(1,2) mid by (rule count_below_between)
    then have "?ws ! (?k - 1) = vs ! ?k" using assms(3) by (intro nth_tl_butlast) auto
    then show ?thesis using p fi mid by simp
  qed
qed

subsection \<open>Counting the predicates that hold\<close>


lemma interval_preds_count:
  "length ws + 1 = length bs \<Longrightarrow> bs \<noteq> [] \<Longrightarrow>
   of_bool (x \<le> hd bs) + length (filter fst (interval_preds x bs ws)) =
   of_bool (x \<le> last bs) + descents_at x bs"
proof (induction x bs ws rule: interval_preds.induct)
  case (1 x lo hi bs v vs)
  then have "of_bool (x \<le> hi) + length (filter fst (interval_preds x (hi # bs) vs)) =
      of_bool (x \<le> last (hi # bs)) + descents_at x (hi # bs)" by simp
  then show ?case by (auto simp: descents_at_def)
qed (auto simp: descents_at_def Suc_length_conv)

lemma pc_preds_count:
  assumes "bs \<noteq> []" "length vs = length bs + 1"
  shows "length (filter fst (pc_preds x bs vs)) = 1 + descents_at x bs"
proof -
  have lw: "length (tl (butlast vs)) + 1 = length bs" using assms by simp
  have "of_bool (x \<le> hd bs) + length (filter fst (interval_preds x bs (tl (butlast vs)))) =
      of_bool (x \<le> last bs) + descents_at x bs"
    using lw assms(1) by (rule interval_preds_count)
  then show ?thesis by (auto simp: pc_preds_def zip_interval_preds)
qed

lemma tf_case_error_iff:
  "tf_case pfs d = Inl e \<longleftrightarrow> e = InvalidArgumentError \<and> 2 \<le> length (filter fst pfs)"
  by (auto simp: tf_case_def split: list.splits)

lemma uint_ucast_32: "uint (ucast w :: 32 word) = uint w mod 2 ^ 32" for w :: step64
  by (simp add: unsigned_ucast_eq take_bit_eq_mod)

lemma cast_int32_small: "unat w < 2 ^ 31 \<Longrightarrow> cast_int32 w = int (unat w)"
proof -
  assume "unat w < 2 ^ 31"
  then have u: "uint w < 2 ^ 31" by (simp add: nat_int_comparison(2))
  have "uint (ucast w :: 32 word) = uint w" using u by (simp add: uint_ucast_32)
  moreover have "signed_take_bit 31 (uint w) = uint w"
    using u by (auto simp: signed_take_bit_int_eq_self_iff intro: order.trans [of _ 0])
  ultimately show ?thesis
    by (simp add: cast_int32_def sint_uint)
qed

lemma schedule_lengths:
  "sss \<noteq> [] \<Longrightarrow> length (schedule_values sss) = length (schedule_boundaries sss) + 1"
  by (cases sss) (simp_all add: schedule_values_def schedule_boundaries_def)

lemmas schedule_defs = learning_rate_def schedule_fn_def schedule_boundaries_def
  schedule_values_def py_int_def pc_build_def fits_int32_def pc_preds_def tf_case_def

lemma pc_refines:
  assumes "sorted bs" "bs \<noteq> []" "length vs = length bs + 1" "list_all fits_int32 bs"
  shows "piecewise_constant x bs vs = Inr (lr_spec x bs vs)"
proof -
  have "filter fst (pc_preds x bs vs) = [(True, lr_spec x bs vs)]"
    using assms(1-3) by (simp add: pc_preds_filter lr_spec_def)
  then show ?thesis
    using assms by (simp add: piecewise_constant_def pc_build_Inr tf_case_def)
qed

lemma schedule_fn_total:
  assumes "sorted (schedule_boundaries sss)" "2 \<le> length sss"
    and "list_all fits_int32 (schedule_boundaries sss)"
  shows "\<exists>f. schedule_fn sss = Inr f \<and>
           (\<forall>x. f x = Inr (lr_spec x (schedule_boundaries sss) (schedule_values sss)))"
proof -
  have ne: "schedule_boundaries sss \<noteq> []" using assms(2) by (simp add: schedule_boundaries_def)
  moreover have len: "length (schedule_values sss) = length (schedule_boundaries sss) + 1"
    using assms(2) by (intro schedule_lengths) auto
  ultimately show ?thesis
    using assms(1,3) pc_refines [of "schedule_boundaries sss" "schedule_values sss"]
    by (auto simp: schedule_fn_def piecewise_constant_def pc_build_Inr)
qed

section \<open>Properties\<close>

text \<open>C12: on sorted boundaries that fit \<open>int32\<close>, with one more value than
  boundaries, \<open>piecewise_constant\<close> never fails and returns the rate of the
  contract: the value whose index is the number of boundaries strictly below the
  step.\<close>

theorem piecewise_constant_refines:
  assumes "sorted bs" "bs \<noteq> []" "length vs = length bs + 1" "list_all fits_int32 bs"
  shows "piecewise_constant x bs vs = Inr (lr_spec x bs vs)"
  using assms by (rule pc_refines)

theorem piecewise_constant_refines_witness:
  "piecewise_constant 150 [100, 200] [1, 2, 3 :: int] = Inr (lr_spec 150 [100, 200] [1, 2, 3 :: int])
   \<and> lr_spec 150 [100, 200] [1, 2, 3 :: int] = 2"
  using piecewise_constant_refines [of "[100, 200]" "[1, 2, 3 :: int]" 150]
  by (simp add: fits_int32_def lr_spec_def)

text \<open>C21: once the graph is built, selecting the rate fails (with TensorFlow's
  \<open>InvalidArgumentError\<close> of the exclusive \<open>tf.case\<close>) exactly at the steps
  that lie between two consecutive boundaries that descend.\<close>

theorem piecewise_constant_error_iff:
  assumes "bs \<noteq> []" "length vs = length bs + 1" "list_all fits_int32 bs"
  shows "piecewise_constant x bs vs = Inl InvalidArgumentError \<longleftrightarrow>
         (\<exists>(lo, hi) \<in> set (zip bs (tl bs)). hi < x \<and> x \<le> lo)"
proof -
  have "piecewise_constant x bs vs = Inl InvalidArgumentError \<longleftrightarrow> 0 < descents_at x bs"
    using assms
    by (simp add: piecewise_constant_def pc_build_Inr tf_case_error_iff pc_preds_count Suc_le_eq)
  also have "\<dots> \<longleftrightarrow> (\<exists>(lo, hi) \<in> set (zip bs (tl bs)). hi < x \<and> x \<le> lo)"
    by (auto simp: descents_at_def filter_empty_conv)
  finally show ?thesis .
qed

theorem piecewise_constant_error_iff_witness:
  "piecewise_constant 150 [200, 100] [1, 2, 3 :: int] = Inl InvalidArgumentError"
  using piecewise_constant_error_iff [of "[200, 100]" "[1, 2, 3 :: int]" 150]
  by (simp add: fits_int32_def)

text \<open>C6: the rate of a training step, as the script builds it from the
  configured schedule and the global step, is the contract's rate at that step,
  as long as the step is below \<open>2^31\<close> and the schedule's steps after the first
  are sorted and fit \<open>int32\<close>.\<close>

theorem learning_rate_refines:
  assumes "sorted (schedule_boundaries sss)" "2 \<le> length sss"
    and "list_all fits_int32 (schedule_boundaries sss)" "unat gs < 2 ^ 31"
  shows "learning_rate gs sss =
           Inr (lr_spec (int (unat gs)) (schedule_boundaries sss) (schedule_values sss))"
proof -
  have "schedule_boundaries sss \<noteq> []" using assms(2) by (simp add: schedule_boundaries_def)
  moreover have "length (schedule_values sss) = length (schedule_boundaries sss) + 1"
    using assms(2) by (intro schedule_lengths) auto
  ultimately show ?thesis
    using assms pc_refines [of "schedule_boundaries sss" "schedule_values sss"]
    by (simp add: learning_rate_def schedule_fn_def piecewise_constant_def cast_int32_small)
qed

theorem learning_rate_refines_witness:
  "learning_rate 150 [(0, 1), (100, 2), (200, 3 :: int)] = Inr 2"
proof -
  have "learning_rate 150 [(0, 1), (100, 2), (200, 3 :: int)] =
      Inr (lr_spec (int (unat (150 :: step64))) (schedule_boundaries [(0, 1), (100, 2), (200, 3 :: int)])
          (schedule_values [(0, 1), (100, 2), (200, 3 :: int)]))"
    by (rule learning_rate_refines) (simp_all add: schedule_boundaries_def py_int_def fits_int32_def)
  then show ?thesis
    by (simp add: lr_spec_def schedule_boundaries_def schedule_values_def py_int_def)
qed

text \<open>C20: the \<open>int32\<close> cast of the \<open>int64\<close> global step wraps: at step \<open>2^31\<close>
  the step reads as \<open>-2^31\<close>, below every boundary, and a well-formed schedule
  returns to its first rate.\<close>

theorem learning_rate_wraps:
  assumes "sorted (schedule_boundaries sss)" "2 \<le> length sss"
    and "list_all fits_int32 (schedule_boundaries sss)"
  shows "learning_rate (2 ^ 31) sss = Inr (snd (hd sss))"
proof -
  let ?bs = "schedule_boundaries sss" and ?vs = "schedule_values sss"
  have ne: "?bs \<noteq> []" using assms(2) by (simp add: schedule_boundaries_def)
  have len: "length ?vs = length ?bs + 1" using assms(2) by (intro schedule_lengths) auto
  have c: "cast_int32 (2 ^ 31) = - (2 ^ 31)" by (simp add: cast_int32_def)
  have "- (2 ^ 31) \<le> hd ?bs" using assms(3) ne by (cases ?bs) (auto simp: fits_int32_def)
  then have "filter (\<lambda>b. b < - (2 ^ 31)) ?bs = []"
    using assms(1) ne count_below_ge [of "hd ?bs" "tl ?bs"] by simp
  moreover have "piecewise_constant (- (2 ^ 31)) ?bs ?vs = Inr (lr_spec (- (2 ^ 31)) ?bs ?vs)"
    using assms(1) ne len assms(3) by (rule pc_refines)
  ultimately show ?thesis
    using assms(2) c
    by (cases sss) (simp_all add: learning_rate_def schedule_fn_def piecewise_constant_def
        lr_spec_def schedule_values_def)
qed

theorem learning_rate_wraps_witness:
  "learning_rate (2 ^ 31) [(0, 1), (100, 2), (200, 3 :: int)] = Inr 1"
  using learning_rate_wraps [of "[(0, 1), (100, 2), (200, 3 :: int)]"]
  by (simp add: schedule_boundaries_def py_int_def fits_int32_def)

text \<open>C23: building the rate graph (lines 50--56) fails exactly for a schedule
  that is empty (the length check, \<open>ValueError\<close>), for one with a boundary after
  its first entry outside \<open>int32\<close> (the dtype check, \<open>ValueError\<close>), and for a
  single entry, whose boundary slice is empty (\<open>boundaries[0]\<close>,
  \<open>IndexError\<close>); every other schedule builds.\<close>

theorem schedule_fn_error_iff:
  "schedule_fn sss = Inl e \<longleftrightarrow>
     (sss = [] \<and> e = ValueError) \<or>
     (sss \<noteq> [] \<and> \<not> list_all fits_int32 (schedule_boundaries sss) \<and> e = ValueError) \<or>
     (length sss = 1 \<and> e = IndexError)"
  by (cases sss) (auto simp: schedule_fn_def pc_build_def schedule_boundaries_def schedule_values_def)

theorem schedule_fn_error_iff_witness:
  "schedule_fn ([] :: (real \<times> real) list) = Inl ValueError \<and>
   schedule_fn [(0 :: real, 1 :: real)] = Inl IndexError \<and>
   schedule_fn [(0 :: real, 1 :: real), (2 ^ 31, 2)] = Inl ValueError"
  using schedule_fn_error_iff [of "[] :: (real \<times> real) list" ValueError]
    schedule_fn_error_iff [of "[(0 :: real, 1 :: real)]" IndexError]
    schedule_fn_error_iff [of "[(0 :: real, 1 :: real), (2 ^ 31, 2)]" ValueError]
  by (simp_all add: schedule_boundaries_def py_int_def fits_int32_def)

end
