(* ===== verification/Attack.thy ===== *)
theory Attack
  imports Prelude
begin

text \<open>
  The adversary of the script: \<open>LinfWRMAttack(model, epsilon, k, a, random_start,
  loss_func)\<close>, built at lines 62--71 of \<open>train_robust.py\<close> and called as
  \<open>attack.perturb(x_batch, y_batch, sess)\<close> at line 110. Its class lives in
  \<open>attack_utils\<close>, outside the repository's sources, so its body is modelled from
  the specification (section 4.1): a start point (the clean batch, or the clean
  batch plus uniform noise in \<open>[-\<epsilon>, \<epsilon>]\<close>, clipped into \<open>[0, 1]\<close>), then
  exactly \<open>k\<close> steps of signed gradient ascent of size \<open>a\<close>, each projected into
  the \<open>L\<infinity>\<close> ball of radius \<open>\<epsilon>\<close> around the clean batch and clipped into
  \<open>[0, 1]\<close>. The model's gradient is an oracle of the interface type
  \<open>grad_oracle\<close>: the gradient of the selected loss with respect to the input, at
  the current model parameters. The random draw is an explicit input, \<open>noise\<close>.
\<close>

section \<open>Configuration\<close>

datatype loss_kind = Xent | CW

text \<open>\<open>config['loss_func']\<close>: one of \<open>"xent"\<close> and \<open>"cw"\<close>; anything else is a
  configuration error.\<close>

definition parse_loss_func :: "string \<Rightarrow> error + loss_kind" where
  "parse_loss_func s =
     (if s = ''xent'' then Inr Xent else if s = ''cw'' then Inr CW else Inl ConfigError)"

text \<open>The constructor's arguments: \<open>epsilon\<close>, \<open>k\<close>, \<open>a\<close>, \<open>random_start\<close>,
  \<open>loss_func\<close>.\<close>

record attack_cfg =
  epsilon :: real
  num_steps :: nat
  step_size :: real
  random_start :: bool
  loss_func :: loss_kind

text \<open>The model as the attack sees it: the gradient of the chosen loss with
  respect to the input batch, for the given labels.\<close>

type_synonym grad_oracle = "loss_kind \<Rightarrow> batch \<Rightarrow> labels \<Rightarrow> batch"

section \<open>The attack\<close>

text \<open>Start point: \<open>clip(x + noise, 0, 1)\<close> with random start, \<open>clip(x, 0, 1)\<close>
  without. The noise is drawn with the batch's shape; a tape of another shape is a
  NumPy shape error.\<close>

definition init_adv :: "attack_cfg \<Rightarrow> batch \<Rightarrow> batch \<Rightarrow> error + batch" where
  "init_adv cfg x noise =
     (if random_start cfg
      then (if same_shape x noise
            then Inr (map2_batch (\<lambda>xi r. clip 0 1 (xi + r)) x noise)
            else Inl ShapeError)
      else Inr (map (map (clip 0 1)) x))"

text \<open>One ascent step: \<open>x_adv + a * sign(grad)\<close>, clipped into
  \<open>[x - \<epsilon>, x + \<epsilon>]\<close>, then into \<open>[0, 1]\<close>.\<close>

definition step_elem :: "attack_cfg \<Rightarrow> real \<Rightarrow> real \<Rightarrow> real \<Rightarrow> real" where
  "step_elem cfg x0 xc g =
     clip 0 1 (clip (x0 - epsilon cfg) (x0 + epsilon cfg) (xc + step_size cfg * sgn g))"

definition pgd_step ::
  "attack_cfg \<Rightarrow> grad_oracle \<Rightarrow> batch \<Rightarrow> labels \<Rightarrow> batch \<Rightarrow> error + batch" where
  "pgd_step cfg grad x y xa =
     (let g = grad (loss_func cfg) xa y
      in if same_shape xa g then Inr (map3_batch (step_elem cfg) x xa g) else Inl ShapeError)"

text \<open>The \<open>k\<close> iterations, each on the previous one's output.\<close>

fun pgd_loop ::
  "attack_cfg \<Rightarrow> grad_oracle \<Rightarrow> batch \<Rightarrow> labels \<Rightarrow> nat \<Rightarrow> batch \<Rightarrow> error + batch" where
  "pgd_loop cfg grad x y 0 xa = Inr xa"
| "pgd_loop cfg grad x y (Suc n) xa = bind_err (pgd_step cfg grad x y xa) (pgd_loop cfg grad x y n)"

definition perturb ::
  "attack_cfg \<Rightarrow> grad_oracle \<Rightarrow> batch \<Rightarrow> labels \<Rightarrow> batch \<Rightarrow> error + batch" where
  "perturb cfg grad x y noise =
     bind_err (init_adv cfg x noise) (pgd_loop cfg grad x y (num_steps cfg))"

text \<open>The closed form of \<open>t\<close> steps against a gradient that is positive
  everywhere: each step adds \<open>a\<close> until the ball or the box stops it.\<close>

definition saturated :: "attack_cfg \<Rightarrow> nat \<Rightarrow> real \<Rightarrow> real" where
  "saturated cfg t v = min 1 (v + min (of_nat t * step_size cfg) (epsilon cfg))"

text \<open>The feasible set of the specification, the pixel box \<open>[0, 1]\<close> intersected
  with the \<open>\<epsilon>\<close>-ball around the clean value \<open>x0\<close>, and the projection onto it.\<close>

definition proj_feasible :: "real \<Rightarrow> real \<Rightarrow> real \<Rightarrow> real" where
  "proj_feasible eps x0 v = clip (max 0 (x0 - eps)) (min 1 (x0 + eps)) v"

section \<open>Lemmas\<close>

lemma step_elem_box: "0 \<le> step_elem cfg x0 xc g \<and> step_elem cfg x0 xc g \<le> 1"
  by (simp add: step_elem_def clip_bounds)

lemma step_elem_ball:
  "0 \<le> x0 \<Longrightarrow> x0 \<le> 1 \<Longrightarrow> 0 \<le> epsilon cfg \<Longrightarrow> \<bar>step_elem cfg x0 xc g - x0\<bar> \<le> epsilon cfg"
  by (simp add: step_elem_def clip_ball_box)

lemma pgd_step_shape:
  "pgd_step cfg grad x y xa = Inr xa' \<Longrightarrow> same_shape x xa \<Longrightarrow> same_shape x xa'"
  by (auto simp: pgd_step_def Let_def same_shape_iff_shape split: if_splits)

lemma pgd_step_box:
  "pgd_step cfg grad x y xa = Inr xa' \<Longrightarrow> all_elems (\<lambda>r. 0 \<le> r \<and> r \<le> 1) xa'"
  by (auto simp: pgd_step_def Let_def step_elem_box intro!: all_elems_map3_batch split: if_splits)

lemma pgd_step_ball:
  assumes "pgd_step cfg grad x y xa = Inr xa'" "same_shape x xa"
    and "all_elems (\<lambda>r. 0 \<le> r \<and> r \<le> 1) x" "0 \<le> epsilon cfg"
  shows "all_pairs (\<lambda>a b. \<bar>b - a\<bar> \<le> epsilon cfg) x xa'"
proof -
  let ?g = "grad (loss_func cfg) xa y"
  have s: "same_shape xa ?g" and xa': "xa' = map3_batch (step_elem cfg) x xa ?g"
    using assms(1) by (auto simp: pgd_step_def Let_def split: if_splits)
  have "all_pairs (\<lambda>a b. 0 \<le> a \<and> a \<le> 1 \<longrightarrow> \<bar>b - a\<bar> \<le> epsilon cfg) x xa'"
    using xa' assms(2,4) s
    by (auto intro!: all_pairs_map3_batch step_elem_ball intro: same_shape_trans)
  then show ?thesis using assms(3) by (rule all_pairs_elems_mp)
qed

lemma pgd_step_Inr:
  "same_shape xa (grad (loss_func cfg) xa y) \<Longrightarrow>
   pgd_step cfg grad x y xa = Inr (map3_batch (step_elem cfg) x xa (grad (loss_func cfg) xa y))"
  by (simp add: pgd_step_def)

lemma pgd_loop_shape:
  "pgd_loop cfg grad x y n xa = Inr r \<Longrightarrow> same_shape x xa \<Longrightarrow> same_shape x r"
  by (induction n arbitrary: xa) (auto simp: bind_err_eq_Inr dest: pgd_step_shape)

lemma pgd_loop_box:
  "pgd_loop cfg grad x y n xa = Inr r \<Longrightarrow> all_elems (\<lambda>r. 0 \<le> r \<and> r \<le> 1) xa \<Longrightarrow>
   all_elems (\<lambda>r. 0 \<le> r \<and> r \<le> 1) r"
  by (induction n arbitrary: xa) (auto simp: bind_err_eq_Inr dest: pgd_step_box)

lemma pgd_loop_ball:
  assumes "pgd_loop cfg grad x y n xa = Inr r" "same_shape x xa"
    and "all_pairs (\<lambda>a b. \<bar>b - a\<bar> \<le> epsilon cfg) x xa"
    and "all_elems (\<lambda>r. 0 \<le> r \<and> r \<le> 1) x" "0 \<le> epsilon cfg"
  shows "all_pairs (\<lambda>a b. \<bar>b - a\<bar> \<le> epsilon cfg) x r"
  using assms(1-3)
proof (induction n arbitrary: xa)
  case (Suc n)
  then obtain xa' where st: "pgd_step cfg grad x y xa = Inr xa'"
    and lp: "pgd_loop cfg grad x y n xa' = Inr r" by (auto simp: bind_err_eq_Inr)
  have "same_shape x xa'" using st Suc.prems(2) by (rule pgd_step_shape)
  moreover have "all_pairs (\<lambda>a b. \<bar>b - a\<bar> \<le> epsilon cfg) x xa'"
    using st Suc.prems(2) assms(4,5) by (rule pgd_step_ball)
  ultimately show ?case using lp Suc.IH by blast
qed simp

lemma pgd_loop_total:
  assumes "\<And>l u y. same_shape u (grad l u y)" "same_shape x xa"
  shows "\<exists>r. pgd_loop cfg grad x y n xa = Inr r \<and> same_shape x r"
  using assms(2)
proof (induction n arbitrary: xa)
  case (Suc n)
  let ?xa' = "map3_batch (step_elem cfg) x xa (grad (loss_func cfg) xa y)"
  have st: "pgd_step cfg grad x y xa = Inr ?xa'" using assms(1) by (rule pgd_step_Inr)
  then have "same_shape x ?xa'" using Suc.prems by (rule pgd_step_shape)
  with Suc.IH obtain r where "pgd_loop cfg grad x y n ?xa' = Inr r \<and> same_shape x r" by blast
  with st show ?case by simp
qed simp

lemma init_adv_shape: "init_adv cfg x noise = Inr xa \<Longrightarrow> same_shape x xa"
  by (auto simp: init_adv_def same_shape_iff_shape split: if_splits)

lemma init_adv_box: "init_adv cfg x noise = Inr xa \<Longrightarrow> all_elems (\<lambda>r. 0 \<le> r \<and> r \<le> 1) xa"
  by (auto simp: init_adv_def clip_bounds intro: all_elems_map2_batch split: if_splits)

lemma init_adv_ball:
  assumes "init_adv cfg x noise = Inr xa" "all_elems (\<lambda>r. 0 \<le> r \<and> r \<le> 1) x"
    and "0 \<le> epsilon cfg" "random_start cfg \<Longrightarrow> all_elems (\<lambda>r. \<bar>r\<bar> \<le> epsilon cfg) noise"
  shows "all_pairs (\<lambda>a b. \<bar>b - a\<bar> \<le> epsilon cfg) x xa"
proof (cases "random_start cfg")
  case True
  then have s: "same_shape x noise" and xa: "xa = map2_batch (\<lambda>xi r. clip 0 1 (xi + r)) x noise"
    using assms(1) by (auto simp: init_adv_def split: if_splits)
  have "all_pairs (\<lambda>a b. 0 \<le> a \<and> a \<le> 1 \<longrightarrow> \<bar>b - a\<bar> \<le> epsilon cfg) x xa"
    unfolding xa using s assms(4) [OF True]
  proof (rule all_pairs_map2_batch)
    fix a b :: real assume "\<bar>b\<bar> \<le> epsilon cfg"
    then show "0 \<le> a \<and> a \<le> 1 \<longrightarrow> \<bar>clip 0 1 (a + b) - a\<bar> \<le> epsilon cfg"
      using clip_dist [of 0 a 1 "a + b"] by auto
  qed
  then show ?thesis using assms(2) by (rule all_pairs_elems_mp)
next
  case False
  then have "xa = map (map (clip 0 1)) x" using assms(1) by (simp add: init_adv_def)
  then have "all_pairs (\<lambda>a b. 0 \<le> a \<and> a \<le> 1 \<longrightarrow> \<bar>b - a\<bar> \<le> epsilon cfg) x xa"
    using assms(3) by (auto intro!: all_pairs_map_map)
  then show ?thesis using assms(2) by (rule all_pairs_elems_mp)
qed

lemma perturb_Inr_elim:
  assumes "perturb cfg grad x y noise = Inr xa"
  obtains xa0 where "init_adv cfg x noise = Inr xa0"
    and "pgd_loop cfg grad x y (num_steps cfg) xa0 = Inr xa"
  using assms by (auto simp: perturb_def bind_err_eq_Inr)

lemma step_elem_saturated:
  assumes "0 \<le> v" "v \<le> 1" "0 \<le> step_size cfg" "0 \<le> epsilon cfg" "0 < g"
  shows "step_elem cfg v (saturated cfg t v) g = saturated cfg (Suc t) v"
proof -
  have "0 \<le> step_size cfg * of_nat t" using assms(3) by simp
  then show ?thesis using assms
    by (simp add: step_elem_def saturated_def clip_def min_def max_def algebra_simps)
qed

lemma saturated_0: "0 \<le> v \<Longrightarrow> v \<le> 1 \<Longrightarrow> 0 \<le> epsilon cfg \<Longrightarrow> saturated cfg 0 v = clip 0 1 v"
  by (simp add: saturated_def clip_def)

lemma pgd_loop_saturated:
  assumes "\<And>l u y. same_shape u (grad l u y) \<and> all_elems (\<lambda>r. 0 < r) (grad l u y)"
    and "all_elems (\<lambda>r. 0 \<le> r \<and> r \<le> 1) x" "0 \<le> epsilon cfg" "0 \<le> step_size cfg"
  shows "pgd_loop cfg grad x y n (map (map (saturated cfg t)) x) =
           Inr (map (map (saturated cfg (t + n))) x)"
proof (induction n arbitrary: t)
  case (Suc n)
  let ?xa = "map (map (saturated cfg t)) x"
  let ?g = "grad (loss_func cfg) ?xa y"
  have g: "same_shape ?xa ?g" "all_elems (\<lambda>r. 0 < r) ?g" using assms(1) by auto
  then have "same_shape x ?g" by (simp add: same_shape_iff_shape)
  then have "map3_batch (step_elem cfg) x ?xa ?g = map (map (saturated cfg (Suc t))) x"
    using assms(2) g(2)
  proof (rule map3_batch_collapse)
    fix a b :: real assume "0 \<le> a \<and> a \<le> 1" "0 < b"
    then show "step_elem cfg a (saturated cfg t a) b = saturated cfg (Suc t) a"
      using assms(3,4) by (simp add: step_elem_saturated)
  qed
  then have "pgd_step cfg grad x y ?xa = Inr (map (map (saturated cfg (Suc t))) x)"
    using g(1) by (simp add: pgd_step_Inr)
  then show ?case using Suc.IH [of "Suc t"] by simp
qed simp

lemma pgd_loop_fixed:
  assumes "\<And>l u y. same_shape u (grad l u y)" "epsilon cfg = 0"
  shows "pgd_loop cfg grad x y n (map (map (clip 0 1)) x) = Inr (map (map (clip 0 1)) x)"
proof (induction n)
  case (Suc n)
  let ?xa = "map (map (clip 0 1)) x"
  let ?g = "grad (loss_func cfg) ?xa y"
  have g: "same_shape ?xa ?g" using assms(1) by auto
  then have "same_shape x ?g" by (simp add: same_shape_iff_shape)
  then have "map3_batch (step_elem cfg) x ?xa ?g = ?xa"
    by (rule map3_batch_collapse [where Q = "\<lambda>_. True" and P = "\<lambda>_. True"])
       (simp_all add: step_elem_def assms(2))
  with g Suc.IH show ?case by (simp add: pgd_step_Inr)
qed simp

lemma perturb_within_ball:
  assumes "perturb cfg grad x y noise = Inr xa"
    and "all_elems (\<lambda>r. 0 \<le> r \<and> r \<le> 1) x" "0 \<le> epsilon cfg"
    and "random_start cfg \<Longrightarrow> all_elems (\<lambda>r. \<bar>r\<bar> \<le> epsilon cfg) noise"
  shows "all_pairs (\<lambda>a b. \<bar>b - a\<bar> \<le> epsilon cfg) x xa"
proof -
  obtain xa0 where i: "init_adv cfg x noise = Inr xa0"
    and l: "pgd_loop cfg grad x y (num_steps cfg) xa0 = Inr xa"
    using assms(1) by (rule perturb_Inr_elim)
  have s0: "same_shape x xa0" using i by (rule init_adv_shape)
  have b0: "all_pairs (\<lambda>a b. \<bar>b - a\<bar> \<le> epsilon cfg) x xa0"
    using i assms(2-4) by (rule init_adv_ball)
  show ?thesis using l s0 b0 assms(2,3) by (rule pgd_loop_ball)
qed

lemma perturb_returns:
  assumes "\<And>l u y. same_shape u (grad l u y)"
    and "random_start cfg \<Longrightarrow> same_shape x noise"
  shows "\<exists>xa. perturb cfg grad x y noise = Inr xa \<and> same_shape x xa"
proof -
  obtain xa0 where i: "init_adv cfg x noise = Inr xa0"
    using assms(2) by (cases "random_start cfg") (auto simp: init_adv_def)
  have "same_shape x xa0" using i by (rule init_adv_shape)
  then obtain r where "pgd_loop cfg grad x y (num_steps cfg) xa0 = Inr r \<and> same_shape x r"
    using assms(1) pgd_loop_total by blast
  with i show ?thesis by (auto simp: perturb_def)
qed

text \<open>The element step of the attack, a signed-gradient step clipped first
  into the \<open>\<epsilon>\<close>-ball and then into \<open>[0, 1]\<close>, is the projected gradient step:
  for a clean value in \<open>[0, 1]\<close> and \<open>\<epsilon> \<ge> 0\<close> it equals the projection of the
  step onto the feasible set, the point of that set nearest to the step.\<close>

lemma step_elem_projection:
  assumes "0 \<le> x0" "x0 \<le> 1" "0 \<le> epsilon cfg"
  shows "step_elem cfg x0 xc g = proj_feasible (epsilon cfg) x0 (xc + step_size cfg * sgn g) \<and>
    (\<forall>y. max 0 (x0 - epsilon cfg) \<le> y \<and> y \<le> min 1 (x0 + epsilon cfg) \<longrightarrow>
         \<bar>step_elem cfg x0 xc g - (xc + step_size cfg * sgn g)\<bar> \<le> \<bar>y - (xc + step_size cfg * sgn g)\<bar>)"
proof -
  have "max 0 (x0 - epsilon cfg) \<le> min 1 (x0 + epsilon cfg)" using assms by simp
  then have e: "step_elem cfg x0 xc g = proj_feasible (epsilon cfg) x0 (xc + step_size cfg * sgn g)"
    by (simp add: step_elem_def proj_feasible_def clip_clip)
  then show ?thesis by (simp add: proj_feasible_def clip_nearest)
qed

section \<open>Properties\<close>

text \<open>C13: every element of an adversarial batch the attack returns lies in the
  valid input range \<open>[0, 1]\<close>, whatever the clean batch, the noise and the
  gradients.\<close>

theorem perturb_in_box:
  assumes "perturb cfg grad x y noise = Inr xa"
  shows "all_elems (\<lambda>r. 0 \<le> r \<and> r \<le> 1) xa"
proof -
  obtain xa0 where i: "init_adv cfg x noise = Inr xa0"
    and l: "pgd_loop cfg grad x y (num_steps cfg) xa0 = Inr xa"
    using assms by (rule perturb_Inr_elim)
  from i have "all_elems (\<lambda>r. 0 \<le> r \<and> r \<le> 1) xa0" by (rule init_adv_box)
  with l show ?thesis by (rule pgd_loop_box)
qed

theorem perturb_in_box_witness:
  "perturb \<lparr>epsilon = 1/10, num_steps = 1, step_size = 1/10, random_start = False, loss_func = Xent\<rparr>
     (\<lambda>l u y. map (map (\<lambda>_. 1)) u) [[1/2, 19/20]] [0] [] = Inr [[3/5, 1]] \<and>
   all_elems (\<lambda>r. 0 \<le> r \<and> r \<le> 1) [[3/5, 1 :: real]]"
proof -
  have e: "perturb \<lparr>epsilon = 1/10, num_steps = 1, step_size = 1/10, random_start = False, loss_func = Xent\<rparr>
     (\<lambda>l u y. map (map (\<lambda>_. 1)) u) [[1/2, 19/20]] [0] [] = Inr [[3/5, 1]]"
    by (simp add: perturb_def init_adv_def pgd_step_def step_elem_def clip_def map3_batch_def
        same_shape_def)
  show ?thesis using e perturb_in_box [OF e] by simp
qed

text \<open>C7: on a clean batch in \<open>[0, 1]\<close>, with \<open>\<epsilon> \<ge> 0\<close> and, under random
  start, noise within \<open>[-\<epsilon>, \<epsilon>]\<close>, every element of the adversarial batch is
  within \<open>\<epsilon>\<close> of the clean element at the same position.\<close>

theorem perturb_linf_bound:
  assumes "perturb cfg grad x y noise = Inr xa"
    and "all_elems (\<lambda>r. 0 \<le> r \<and> r \<le> 1) x" "0 \<le> epsilon cfg"
    and "random_start cfg \<Longrightarrow> all_elems (\<lambda>r. \<bar>r\<bar> \<le> epsilon cfg) noise"
  shows "all_pairs (\<lambda>a b. \<bar>b - a\<bar> \<le> epsilon cfg) x xa"
  using assms by (rule perturb_within_ball)

theorem perturb_linf_bound_witness:
  "all_pairs (\<lambda>a b. \<bar>b - a\<bar> \<le> 1/10) [[1/2, 19/20]] [[3/5, 1 :: real]]"
proof -
  have e: "perturb \<lparr>epsilon = 1/10, num_steps = 1, step_size = 1/10, random_start = False, loss_func = Xent\<rparr>
     (\<lambda>l u y. map (map (\<lambda>_. 1)) u) [[1/2, 19/20]] [0] [] = Inr [[3/5, 1]]"
    by (simp add: perturb_def init_adv_def pgd_step_def step_elem_def clip_def map3_batch_def
        same_shape_def)
  have "all_pairs (\<lambda>a b. \<bar>b - a\<bar> \<le> epsilon \<lparr>epsilon = 1/10, num_steps = 1, step_size = 1/10,
          random_start = False, loss_func = Xent\<rparr>) [[1/2, 19/20]] [[3/5, 1]]"
    by (rule perturb_linf_bound [OF e]) (simp_all add: all_elems_def)
  then show ?thesis by simp
qed

text \<open>C29: with \<open>\<epsilon> = 0\<close> (so that random-start noise is zero) no perturbation is
  possible: whatever \<open>k\<close>, the step size and the gradients, the attack returns the
  clean batch clipped into \<open>[0, 1]\<close>.\<close>

theorem perturb_eps_zero:
  assumes "\<And>l u y. same_shape u (grad l u y)" "epsilon cfg = 0"
    and "random_start cfg \<Longrightarrow> same_shape x noise \<and> all_elems (\<lambda>r. r = 0) noise"
  shows "perturb cfg grad x y noise = Inr (map (map (clip 0 1)) x)"
proof -
  have "init_adv cfg x noise = Inr (map (map (clip 0 1)) x)"
    using assms(3) by (auto simp: init_adv_def map2_batch_const)
  then show ?thesis using pgd_loop_fixed [OF assms(1,2)] by (simp add: perturb_def)
qed

theorem perturb_eps_zero_witness:
  "perturb \<lparr>epsilon = 0, num_steps = 5, step_size = 1/10, random_start = True, loss_func = Xent\<rparr>
     (\<lambda>l u y. map (map (\<lambda>_. 1)) u) [[1/2, 3/2]] [0] [[0, 0]] = Inr [[1/2, 1]]"
proof -
  have "perturb \<lparr>epsilon = 0, num_steps = 5, step_size = 1/10, random_start = True, loss_func = Xent\<rparr>
     (\<lambda>l u y. map (map (\<lambda>_. 1)) u) [[1/2, 3/2]] [0] [[0, 0]] = Inr (map (map (clip 0 1)) [[1/2, 3/2]])"
    by (rule perturb_eps_zero) (simp_all add: same_shape_iff_shape shape_def all_elems_def)
  then show ?thesis by (simp add: clip_def)
qed

text \<open>C30: against gradients that are positive everywhere and without random start,
  \<open>k\<close> steps of size \<open>a\<close> move every clean element \<open>v\<close> of \<open>[0, 1]\<close> to
  \<open>min 1 (v + min (k * a) \<epsilon>)\<close>: each step is exactly \<open>a\<close> in the gradient's sign
  until the \<open>\<epsilon>\<close>-ball or the box stops it.\<close>

theorem perturb_saturates:
  assumes "\<And>l u y. same_shape u (grad l u y) \<and> all_elems (\<lambda>r. 0 < r) (grad l u y)"
    and "\<not> random_start cfg" "all_elems (\<lambda>r. 0 \<le> r \<and> r \<le> 1) x"
    and "0 \<le> epsilon cfg" "0 \<le> step_size cfg"
  shows "perturb cfg grad x y noise = Inr (map (map (saturated cfg (num_steps cfg))) x)"
proof -
  have "map (map (clip 0 1)) x = map (map (saturated cfg 0)) x"
    using assms(3) by (rule map_map_cong_elems) (simp add: saturated_0 assms(4))
  then have "init_adv cfg x noise = Inr (map (map (saturated cfg 0)) x)"
    using assms(2) by (simp add: init_adv_def)
  then show ?thesis
    using pgd_loop_saturated [OF assms(1,3-5), where y = y and n = "num_steps cfg" and t = 0]
    by (simp add: perturb_def)
qed

theorem perturb_saturates_witness:
  "perturb \<lparr>epsilon = 3/10, num_steps = 4, step_size = 1/10, random_start = False, loss_func = Xent\<rparr>
     (\<lambda>l u y. map (map (\<lambda>_. 2)) u) [[0, 1/2, 9/10]] [0] [] = Inr [[3/10, 4/5, 1]]"
proof -
  define c where "c = \<lparr>epsilon = 3/10, num_steps = 4, step_size = 1/10, random_start = False,
    loss_func = Xent\<rparr>"
  have "perturb c (\<lambda>l u y. map (map (\<lambda>_. 2)) u) [[0, 1/2, 9/10]] [0] [] =
     Inr (map (map (saturated c (num_steps c))) [[0, 1/2, 9/10]])"
    by (rule perturb_saturates) (simp_all add: c_def same_shape_iff_shape shape_def all_elems_def)
  then show ?thesis by (simp add: c_def saturated_def)
qed


end
