(* ===== verification/Checkpoint.thy ===== *)
theory Checkpoint
  imports Prelude
begin

text \<open>
  Checkpoints of \<open>train_robust.py\<close>: the output directory
  \<open>config['model_dir'] + '_robust_e_' + str(config['epsilon'])\<close> (line 75), the
  saver \<open>tf.train.Saver(max_to_keep=None)\<close> (line 85), and the periodic
  \<open>saver.save(sess, os.path.join(model_dir, 'checkpoint'), global_step=global_step)\<close>
  (lines 143--146). TensorFlow's \<open>Saver.save\<close> reads the step variable and writes
  the checkpoint under the prefix \<open>"%s-%d" % (save_path, step)\<close>; with
  \<open>max_to_keep=None\<close> it deletes none of the earlier ones. The file system is a
  map from checkpoint prefixes to what was saved: the trainable state (model
  parameters and optimiser slots, a type parameter \<open>'p\<close>) and the global step.
  Resuming reads the step back from the prefix's suffix after its last \<open>-\<close>.
\<close>

section \<open>Names\<close>

text \<open>Python's \<open>str\<close>/\<open>%d\<close> of a natural number: its decimal digits.\<close>

definition digit_char :: "nat \<Rightarrow> char" where
  "digit_char d = char_of (48 + d)"

fun show_nat :: "nat \<Rightarrow> string" where
  "show_nat n = (if n < 10 then [digit_char n] else show_nat (n div 10) @ [digit_char (n mod 10)])"

text \<open>\<open>"%d"\<close> of a Python integer, with its sign.\<close>

definition fmt_d :: "int \<Rightarrow> string" where
  "fmt_d i = (if i < 0 then ''-'' @ show_nat (nat (- i)) else show_nat (nat i))"

text \<open>\<open>posixpath.join(a, b)\<close> for two components.\<close>

definition os_path_join :: "string \<Rightarrow> string \<Rightarrow> string" where
  "os_path_join a b =
     (if take 1 b = ''/'' then b
      else if a = [] \<or> last a = CHR ''/'' then a @ b
      else a @ ''/'' @ b)"

text \<open>Line 75; \<open>str(config['epsilon'])\<close> is taken as given, since Python's float
  printing is not modelled.\<close>

definition model_dir_of :: "string \<Rightarrow> string \<Rightarrow> string" where
  "model_dir_of base eps_str = base @ ''_robust_e_'' @ eps_str"

text \<open>The prefix \<open>saver.save\<close> writes under at lines 144--146.\<close>

definition checkpoint_prefix :: "string \<Rightarrow> int \<Rightarrow> string" where
  "checkpoint_prefix model_dir step = os_path_join model_dir ''checkpoint'' @ ''-'' @ fmt_d step"

section \<open>The store\<close>

type_synonym 'p ckpt_store = "string \<rightharpoonup> 'p \<times> step64"

text \<open>\<open>saver.save\<close>: the step variable is read as a signed 64-bit integer and
  the whole state is written under its prefix; no earlier checkpoint is removed.\<close>

definition saver_save :: "'p ckpt_store \<Rightarrow> string \<Rightarrow> 'p \<Rightarrow> step64 \<Rightarrow> 'p ckpt_store" where
  "saver_save st model_dir p gs = st(checkpoint_prefix model_dir (sint gs) \<mapsto> (p, gs))"

text \<open>Resuming (from the specification: restore the saved state and the step
  counter): \<open>saver.restore\<close> of a prefix, and the step read back from the prefix
  as \<open>int(prefix.split('-')[-1])\<close>.\<close>

definition saver_restore :: "'p ckpt_store \<Rightarrow> string \<Rightarrow> ('p \<times> step64) option" where
  "saver_restore st prefix = st prefix"

definition is_digit :: "char \<Rightarrow> bool" where
  "is_digit c \<longleftrightarrow> 48 \<le> (of_char c :: nat) \<and> (of_char c :: nat) \<le> 57"

fun parse_digits :: "nat \<Rightarrow> string \<Rightarrow> nat option" where
  "parse_digits acc [] = Some acc"
| "parse_digits acc (c # cs) =
     (if is_digit c then parse_digits (10 * acc + (of_char c - 48)) cs else None)"

definition parse_nat :: "string \<Rightarrow> nat option" where
  "parse_nat s = (if s = [] then None else parse_digits 0 s)"

definition last_field :: "string \<Rightarrow> string" where
  "last_field s = rev (takeWhile (\<lambda>c. c \<noteq> CHR ''-'') (rev s))"

definition step_of_prefix :: "string \<Rightarrow> nat option" where
  "step_of_prefix prefix = parse_nat (last_field prefix)"

section \<open>Lemmas\<close>

declare show_nat.simps [simp del]

lemma digit_char_is_digit: "d < 10 \<Longrightarrow> is_digit (digit_char d)"
  by (simp add: digit_char_def is_digit_def)

lemma of_char_digit_char: "d < 10 \<Longrightarrow> of_char (digit_char d) = 48 + d"
  by (simp add: digit_char_def)

lemma parse_digits_append:
  "parse_digits acc (xs @ ys) = (case parse_digits acc xs of None \<Rightarrow> None | Some a \<Rightarrow> parse_digits a ys)"
  by (induction acc xs rule: parse_digits.induct) auto

lemma show_nat_nonempty: "show_nat n \<noteq> []"
  by (subst show_nat.simps) simp

lemma parse_digits_show_nat: "parse_digits 0 (show_nat n) = Some n"
proof (induction n rule: show_nat.induct)
  case (1 n)
  show ?case
  proof (cases "n < 10")
    case True
    then show ?thesis
      by (subst show_nat.simps) (simp add: digit_char_is_digit of_char_digit_char)
  next
    case False
    then have "parse_digits 0 (show_nat (n div 10)) = Some (n div 10)" using "1.IH" by simp
    then show ?thesis using False
      by (subst show_nat.simps)
         (simp add: parse_digits_append digit_char_is_digit of_char_digit_char)
  qed
qed

lemma dash_not_digit_char: "d < 10 \<Longrightarrow> CHR ''-'' \<noteq> digit_char d"
proof
  assume "d < 10" "CHR ''-'' = digit_char d"
  then have "(of_char (CHR ''-'') :: nat) = 48 + d" by (metis of_char_digit_char)
  then show False by simp
qed

lemma show_nat_no_dash: "CHR ''-'' \<notin> set (show_nat n)"
proof (induction n rule: show_nat.induct)
  case (1 n)
  then show ?case by (subst show_nat.simps) (auto simp: dash_not_digit_char)
qed

lemma parse_nat_show_nat: "parse_nat (show_nat n) = Some n"
  by (simp add: parse_nat_def show_nat_nonempty parse_digits_show_nat)

lemma last_field_dash_show_nat: "last_field (a @ CHR ''-'' # show_nat n) = show_nat n"
proof -
  have "\<And>c. c \<in> set (rev (show_nat n)) \<Longrightarrow> c \<noteq> CHR ''-''" using show_nat_no_dash by auto
  then have "takeWhile (\<lambda>c. c \<noteq> CHR ''-'') (rev (show_nat n) @ CHR ''-'' # rev a) = rev (show_nat n)"
    by (subst takeWhile_append2) auto
  then show ?thesis by (simp add: last_field_def)
qed

lemma step_of_prefix_nonneg:
  "0 \<le> i \<Longrightarrow> step_of_prefix (checkpoint_prefix d i) = Some (nat i)"
proof -
  assume "0 \<le> i"
  then have "checkpoint_prefix d i = os_path_join d ''checkpoint'' @ ''-'' @ show_nat (nat i)"
    by (simp add: checkpoint_prefix_def fmt_d_def)
  then show ?thesis by (simp add: step_of_prefix_def last_field_dash_show_nat parse_nat_show_nat)
qed

lemma show_nat_inj: "show_nat m = show_nat n \<Longrightarrow> m = n"
  by (metis option.inject parse_nat_show_nat)

lemma show_nat_hd_digit: "hd (show_nat n) \<noteq> CHR ''-''"
  using show_nat_no_dash [of n] show_nat_nonempty [of n] by (metis list.set_sel(1))

lemma fmt_d_hd: "hd (fmt_d i) = CHR ''-'' \<longleftrightarrow> i < 0"
  using show_nat_hd_digit by (simp add: fmt_d_def)

lemma fmt_d_inj: "fmt_d i = fmt_d j \<Longrightarrow> i = j"
proof -
  assume e: "fmt_d i = fmt_d j"
  then have s: "i < 0 \<longleftrightarrow> j < 0" by (metis fmt_d_hd)
  show "i = j"
  proof (cases "i < 0")
    case True
    then show ?thesis using e s by (auto simp: fmt_d_def dest!: show_nat_inj)
  next
    case False
    then show ?thesis using e s by (auto simp: fmt_d_def dest!: show_nat_inj)
  qed
qed

section \<open>Properties\<close>

text \<open>C18: the step a resumed run reads back from a checkpoint's name is the step
  it was saved at, whatever the model directory (which may itself contain dashes,
  as \<open>str(1e-05)\<close> does).\<close>

theorem checkpoint_step_roundtrip:
  assumes "0 \<le> i"
  shows "step_of_prefix (checkpoint_prefix model_dir i) = Some (nat i)"
  using assms by (rule step_of_prefix_nonneg)

theorem checkpoint_step_roundtrip_witness:
  "step_of_prefix (checkpoint_prefix (model_dir_of ''models/yale'' ''1e-05'') 1200) = Some 1200"
  using checkpoint_step_roundtrip [of 1200 "model_dir_of ''models/yale'' ''1e-05''"] by simp

text \<open>C27: two saves under the same directory write the same prefix only for the
  same step, so with \<open>max_to_keep=None\<close> no checkpoint overwrites another.\<close>

theorem checkpoint_prefix_inj:
  "checkpoint_prefix model_dir i = checkpoint_prefix model_dir j \<longleftrightarrow> i = j"
  by (auto simp: checkpoint_prefix_def dest: fmt_d_inj)

end
