(* ===== verification/DataSubset.thy ===== *)
theory DataSubset
  imports Prelude "HOL-Library.Multiset"
begin

text \<open>
  The dataset provider: \<open>YALE_TRAIN = data_loader.DataSubset(train_data,
  train_label)\<close> (line 41) and \<open>YALE_TRAIN.get_next_batch(batch_size)\<close> (line 106).
  The module \<open>data_loader\<close> is outside the repository's sources; the provider is
  modelled from the specification: fixed-size batches taken in order from a
  permutation of the examples, and, when fewer than a batch remain, a new pass
  over a fresh permutation. The permutations are random draws of the provider;
  they are inputs of the model.
\<close>

section \<open>State and operations\<close>

record data_subset =
  ds_xs :: "example list"
  ds_ys :: labels
  cur_order :: "nat list"
  batch_start :: nat

text \<open>Construction (line 41): the examples, their labels, the first order.\<close>

definition data_subset_new :: "example list \<Rightarrow> labels \<Rightarrow> nat list \<Rightarrow> data_subset" where
  "data_subset_new xs ys order = \<lparr>ds_xs = xs, ds_ys = ys, cur_order = order, batch_start = 0\<rparr>"

text \<open>One batch: a batch larger than the dataset is a \<open>ValueError\<close>; when the
  rest of the pass is shorter than a batch, the pass restarts on the permutation
  \<open>perm\<close>; then the next \<open>bs\<close> indices of the order are served.\<close>

definition get_next_batch ::
  "nat \<Rightarrow> nat list \<Rightarrow> data_subset \<Rightarrow> error + (batch \<times> labels \<times> data_subset)" where
  "get_next_batch bs perm d =
     (let n = length (ds_xs d) in
      if n < bs then Inl ValueError
      else
        let d' = (if n - batch_start d < bs then d\<lparr>cur_order := perm, batch_start := 0\<rparr> else d);
            idx = take bs (drop (batch_start d') (cur_order d'))
        in Inr (map (\<lambda>i. ds_xs d ! i) idx, map (\<lambda>i. ds_ys d ! i) idx,
                d'\<lparr>batch_start := batch_start d' + bs\<rparr>))"

text \<open>The provider's side of successive iterations of the loop: line 106 called
  once per permutation draw in \<open>ps\<close>, collecting the batches served.\<close>

fun get_batches ::
  "nat \<Rightarrow> nat list list \<Rightarrow> data_subset \<Rightarrow> error + ((batch \<times> labels) list \<times> data_subset)" where
  "get_batches bs [] d = Inr ([], d)"
| "get_batches bs (p # ps) d =
     bind_err (get_next_batch bs p d) (\<lambda>(xb, yb, d').
       bind_err (get_batches bs ps d') (\<lambda>(bats, d''). Inr ((xb, yb) # bats, d'')))"

text \<open>Well-formed provider state: one label per example, the order a permutation
  of the example indices, the cursor inside the pass.\<close>

definition ds_valid :: "data_subset \<Rightarrow> bool" where
  "ds_valid d \<longleftrightarrow>
     length (ds_ys d) = length (ds_xs d) \<and>
     mset (cur_order d) = mset [0..<length (ds_xs d)] \<and>
     batch_start d \<le> length (ds_xs d)"

section \<open>Lemmas\<close>

lemma perm_indices:
  "mset ord = mset [0..<n] \<Longrightarrow> distinct ord \<and> set ord = {..<n} \<and> length ord = n"
proof -
  assume m: "mset ord = mset [0..<n]"
  have "distinct ord" using mset_eq_imp_distinct_iff [OF m] by simp
  moreover have "set ord = {..<n}" using mset_eq_setD [OF m] by (simp add: atLeast_upt)
  moreover have "length ord = n" using mset_eq_length [OF m] by simp
  ultimately show ?thesis by blast
qed

lemma get_next_batch_Inr:
  assumes "bs \<le> length (ds_xs d)"
  shows "get_next_batch bs perm d =
    (let d' = (if length (ds_xs d) - batch_start d < bs
               then d\<lparr>cur_order := perm, batch_start := 0\<rparr> else d);
         idx = take bs (drop (batch_start d') (cur_order d'))
     in Inr (map (\<lambda>i. ds_xs d ! i) idx, map (\<lambda>i. ds_ys d ! i) idx,
             d'\<lparr>batch_start := batch_start d' + bs\<rparr>))"
  using assms by (simp add: get_next_batch_def Let_def)

lemma get_next_batch_cases:
  assumes "ds_valid d" "bs \<le> length (ds_xs d)"
  obtains s ord where "get_next_batch bs perm d =
      Inr (map (\<lambda>i. ds_xs d ! i) (take bs (drop s ord)), map (\<lambda>i. ds_ys d ! i) (take bs (drop s ord)),
           d\<lparr>cur_order := ord, batch_start := s + bs\<rparr>)"
    and "s + bs \<le> length (ds_xs d)"
    and "ord = cur_order d \<or> ord = perm"
proof (cases "length (ds_xs d) - batch_start d < bs")
  case True
  then show ?thesis using assms that [of 0 perm] by (simp add: get_next_batch_Inr Let_def)
next
  case False
  moreover have "batch_start d \<le> length (ds_xs d)" using assms(1) by (simp add: ds_valid_def)
  ultimately have "batch_start d + bs \<le> length (ds_xs d)" by linarith
  then show ?thesis using assms False that [of "batch_start d" "cur_order d"]
    by (simp add: get_next_batch_Inr Let_def)
qed

lemma get_next_batch_props:
  assumes "ds_valid d" "mset perm = mset [0..<length (ds_xs d)]"
    and "get_next_batch bs perm d = Inr (xb, yb, d')"
  shows "ds_valid d' \<and> ds_xs d' = ds_xs d \<and> ds_ys d' = ds_ys d \<and>
         length xb = bs \<and> set xb \<subseteq> set (ds_xs d)"
proof -
  have bs: "bs \<le> length (ds_xs d)"
    using assms(3) by (auto simp: get_next_batch_def Let_def split: if_splits)
  obtain s ord where e: "get_next_batch bs perm d =
      Inr (map (\<lambda>i. ds_xs d ! i) (take bs (drop s ord)), map (\<lambda>i. ds_ys d ! i) (take bs (drop s ord)),
           d\<lparr>cur_order := ord, batch_start := s + bs\<rparr>)"
    and le: "s + bs \<le> length (ds_xs d)" and o: "ord = cur_order d \<or> ord = perm"
    using assms(1) bs by (rule get_next_batch_cases)
  have "mset ord = mset [0..<length (ds_xs d)]" using o assms(1,2) by (auto simp: ds_valid_def)
  then have p: "distinct ord \<and> set ord = {..<length (ds_xs d)} \<and> length ord = length (ds_xs d)"
    by (rule perm_indices)
  have x: "xb = map (\<lambda>i. ds_xs d ! i) (take bs (drop s ord))"
    and d': "d' = d\<lparr>cur_order := ord, batch_start := s + bs\<rparr>" using assms(3) e by simp_all
  have "set (take bs (drop s ord)) \<subseteq> {..<length (ds_xs d)}"
    using p set_take_subset set_drop_subset by fastforce
  then have "set xb \<subseteq> set (ds_xs d)" using x by auto
  moreover have "length xb = bs" using x p le by simp
  moreover have "ds_valid d'" using d' assms(1,2) le o by (auto simp: ds_valid_def)
  ultimately show ?thesis using d' by simp
qed

lemma get_next_batch_exists:
  "ds_valid d \<Longrightarrow> bs \<le> length (ds_xs d) \<Longrightarrow> \<exists>xb yb d'. get_next_batch bs perm d = Inr (xb, yb, d')"
  by (erule get_next_batch_cases) auto

text \<open>Within a pass, successive batches are consecutive slices of the order.\<close>

lemma get_batches_slices:
  assumes "get_batches bs ps d = Inr (bats, d')"
    and "batch_start d + length ps * bs \<le> length (ds_xs d)"
  shows "concat (map fst bats) = map (\<lambda>i. ds_xs d ! i) (take (length ps * bs) (drop (batch_start d) (cur_order d))) \<and>
         concat (map snd bats) = map (\<lambda>i. ds_ys d ! i) (take (length ps * bs) (drop (batch_start d) (cur_order d))) \<and>
         ds_xs d' = ds_xs d \<and> ds_ys d' = ds_ys d \<and> cur_order d' = cur_order d \<and>
         batch_start d' = batch_start d + length ps * bs"
  using assms
proof (induction ps arbitrary: d bats d')
  case (Cons p ps)
  let ?d1 = "d\<lparr>batch_start := batch_start d + bs\<rparr>"
  have le: "bs \<le> length (ds_xs d)" and nr: "\<not> length (ds_xs d) - batch_start d < bs"
    using Cons.prems(2) by auto
  then have g: "get_next_batch bs p d =
      Inr (map (\<lambda>i. ds_xs d ! i) (take bs (drop (batch_start d) (cur_order d))),
           map (\<lambda>i. ds_ys d ! i) (take bs (drop (batch_start d) (cur_order d))), ?d1)"
    by (simp add: get_next_batch_Inr Let_def)
  obtain rest d2 where r: "get_batches bs ps ?d1 = Inr (rest, d2)"
    and b: "bats = (map (\<lambda>i. ds_xs d ! i) (take bs (drop (batch_start d) (cur_order d))),
                    map (\<lambda>i. ds_ys d ! i) (take bs (drop (batch_start d) (cur_order d)))) # rest"
    and d': "d' = d2"
    using Cons.prems(1) g by (auto simp: bind_err_eq_Inr split: prod.splits)
  have "batch_start ?d1 + length ps * bs \<le> length (ds_xs ?d1)" using Cons.prems(2) by simp
  note ih = Cons.IH [OF r this]
  have t: "take (bs + length ps * bs) (drop (batch_start d) (cur_order d)) =
        take bs (drop (batch_start d) (cur_order d)) @
        take (length ps * bs) (drop (batch_start d + bs) (cur_order d))"
    by (simp add: take_add add.commute)
  show ?case using ih b d' t by simp
qed simp

lemma mset_nth_perm:
  assumes "mset ord = mset [0..<length xs]"
  shows "mset (map (\<lambda>i. xs ! i) (take k ord)) \<subseteq># mset xs"
proof -
  have "mset (map (\<lambda>i. xs ! i) (take k ord)) \<subseteq># mset (map (\<lambda>i. xs ! i) ord)"
    by (metis append_take_drop_id map_append mset_append mset_subset_eq_add_left)
  also have "mset (map (\<lambda>i. xs ! i) ord) = mset (map (\<lambda>i. xs ! i) [0..<length xs])"
    using assms by (simp add: mset_map)
  also have "map (\<lambda>i. xs ! i) [0..<length xs] = xs" by (rule map_nth)
  finally show ?thesis .
qed

section \<open>Properties\<close>

text \<open>C14: a batch fetched from a well-formed provider with a fresh permutation of
  the examples leaves the provider well-formed, over the same examples and labels.\<close>

theorem get_next_batch_valid:
  assumes "ds_valid d" "mset perm = mset [0..<length (ds_xs d)]"
    and "get_next_batch bs perm d = Inr (xb, yb, d')"
  shows "ds_valid d' \<and> ds_xs d' = ds_xs d \<and> ds_ys d' = ds_ys d"
  using get_next_batch_props [OF assms] by blast

theorem get_next_batch_valid_witness:
  "get_next_batch 2 [2, 0, 1] (data_subset_new [[0], [1/2], [1]] [0, 1, 2] [1, 2, 0]) =
     Inr ([[1/2], [1]], [1, 2], \<lparr>ds_xs = [[0], [1/2], [1]], ds_ys = [0, 1, 2],
          cur_order = [1, 2, 0], batch_start = 2\<rparr>) \<and>
   ds_valid \<lparr>ds_xs = [[0], [1/2], [1]], ds_ys = [0, 1, 2], cur_order = [1, 2, 0], batch_start = 2\<rparr>"
proof -
  have e: "get_next_batch 2 [2, 0, 1] (data_subset_new [[0], [1/2], [1]] [0, 1, 2] [1, 2, 0]) =
     Inr ([[1/2], [1]], [1, 2], \<lparr>ds_xs = [[0], [1/2], [1]], ds_ys = [0, 1, 2],
          cur_order = [1, 2, 0], batch_start = 2\<rparr>)"
    by (simp add: get_next_batch_def data_subset_new_def)
  have "ds_valid (data_subset_new [[0], [1/2], [1]] [0, 1, 2] [1, 2, 0])"
    by (simp add: ds_valid_def data_subset_new_def)
  moreover have "mset [2, 0, 1] = mset [0..<length (ds_xs (data_subset_new [[0], [1/2], [1]] [0, 1, 2] [1, 2, 0]))]"
    by (simp add: data_subset_new_def upt_rec)
  ultimately show ?thesis using e get_next_batch_valid by blast
qed

text \<open>C15: a well-formed provider serves a batch no larger than the dataset as
  exactly \<open>bs\<close> distinct examples of the dataset, each with its own label, and
  refuses a larger one with \<open>ValueError\<close>.\<close>

theorem get_next_batch_serves:
  assumes "ds_valid d" "mset perm = mset [0..<length (ds_xs d)]"
  shows "(bs \<le> length (ds_xs d) \<longrightarrow>
           (\<exists>idx d'. get_next_batch bs perm d =
                       Inr (map (\<lambda>i. ds_xs d ! i) idx, map (\<lambda>i. ds_ys d ! i) idx, d') \<and>
                     length idx = bs \<and> distinct idx \<and> set idx \<subseteq> {..<length (ds_xs d)})) \<and>
         (length (ds_xs d) < bs \<longrightarrow> get_next_batch bs perm d = Inl ValueError)"
proof (intro conjI impI)
  assume bs: "bs \<le> length (ds_xs d)"
  obtain s ord where e: "get_next_batch bs perm d =
      Inr (map (\<lambda>i. ds_xs d ! i) (take bs (drop s ord)), map (\<lambda>i. ds_ys d ! i) (take bs (drop s ord)),
           d\<lparr>cur_order := ord, batch_start := s + bs\<rparr>)"
    and le: "s + bs \<le> length (ds_xs d)" and o: "ord = cur_order d \<or> ord = perm"
    using assms(1) bs by (rule get_next_batch_cases)
  have "mset ord = mset [0..<length (ds_xs d)]" using o assms by (auto simp: ds_valid_def)
  then have p: "distinct ord \<and> set ord = {..<length (ds_xs d)} \<and> length ord = length (ds_xs d)"
    by (rule perm_indices)
  have "length (take bs (drop s ord)) = bs" using p le by simp
  moreover have "distinct (take bs (drop s ord))" using p by (simp add: distinct_take distinct_drop)
  moreover have "set (take bs (drop s ord)) \<subseteq> {..<length (ds_xs d)}"
    using p set_take_subset set_drop_subset by fastforce
  ultimately show "\<exists>idx d'. get_next_batch bs perm d =
      Inr (map (\<lambda>i. ds_xs d ! i) idx, map (\<lambda>i. ds_ys d ! i) idx, d') \<and>
      length idx = bs \<and> distinct idx \<and> set idx \<subseteq> {..<length (ds_xs d)}"
    using e by blast
next
  assume "length (ds_xs d) < bs"
  then show "get_next_batch bs perm d = Inl ValueError" by (simp add: get_next_batch_def)
qed

theorem get_next_batch_serves_witness:
  "get_next_batch 2 [2, 0, 1] \<lparr>ds_xs = [[0], [1/2], [1]], ds_ys = [0, 1, 2], cur_order = [1, 2, 0],
      batch_start = 2\<rparr> = Inr ([[1], [0]], [2, 0], \<lparr>ds_xs = [[0], [1/2], [1]], ds_ys = [0, 1, 2],
      cur_order = [2, 0, 1], batch_start = 2\<rparr>) \<and>
   get_next_batch 4 [2, 0, 1] \<lparr>ds_xs = [[0], [1/2], [1]], ds_ys = [0, 1, 2], cur_order = [1, 2, 0],
      batch_start = 2\<rparr> = Inl ValueError"
proof -
  let ?d = "\<lparr>ds_xs = [[0], [1/2], [1 :: real]], ds_ys = [0, 1, 2 :: int], cur_order = [1, 2, 0],
      batch_start = 2\<rparr>"
  have v: "ds_valid ?d" "mset [2, 0, 1] = mset [0..<length (ds_xs ?d)]"
    by (simp_all add: ds_valid_def upt_rec)
  have "get_next_batch 4 [2, 0, 1] ?d = Inl ValueError"
    using get_next_batch_serves [OF v, of 4] by simp
  moreover have "get_next_batch 2 [2, 0, 1] ?d = Inr ([[1], [0]], [2, 0], ?d\<lparr>cur_order := [2, 0, 1]\<rparr>)"
    by (simp add: get_next_batch_def)
  ultimately show ?thesis by simp
qed


text \<open>C16: the provider cycles through its examples epoch by epoch: from the start of
  a pass of a well-formed provider, the batches of successive iterations that fit in
  the pass are consecutive slices of the pass's order, each example with its own
  label, so within a pass no example is served more often than it occurs in the
  dataset, and the cursor has advanced by the number of examples served.\<close>

theorem get_batches_epoch:
  assumes "ds_valid d" "batch_start d = 0" "length ps * bs \<le> length (ds_xs d)"
    and "get_batches bs ps d = Inr (bats, d')"
  shows "concat (map fst bats) = map (\<lambda>i. ds_xs d ! i) (take (length ps * bs) (cur_order d)) \<and>
         concat (map snd bats) = map (\<lambda>i. ds_ys d ! i) (take (length ps * bs) (cur_order d)) \<and>
         mset (concat (map fst bats)) \<subseteq># mset (ds_xs d) \<and>
         cur_order d' = cur_order d \<and> batch_start d' = length ps * bs"
proof -
  have s: "concat (map fst bats) = map (\<lambda>i. ds_xs d ! i) (take (length ps * bs) (cur_order d)) \<and>
         concat (map snd bats) = map (\<lambda>i. ds_ys d ! i) (take (length ps * bs) (cur_order d)) \<and>
         cur_order d' = cur_order d \<and> batch_start d' = length ps * bs"
    using get_batches_slices [OF assms(4)] assms(2,3) by simp
  moreover have "mset (map (\<lambda>i. ds_xs d ! i) (take (length ps * bs) (cur_order d))) \<subseteq># mset (ds_xs d)"
    using assms(1) by (intro mset_nth_perm) (simp add: ds_valid_def)
  ultimately show ?thesis by simp
qed

theorem get_batches_epoch_witness:
  "get_batches 1 [[0, 1, 2], [0, 1, 2]] (data_subset_new [[0], [1/2], [1]] [0, 1, 2] [2, 0, 1]) =
     Inr ([([[1]], [2]), ([[0]], [0])],
          \<lparr>ds_xs = [[0], [1/2], [1]], ds_ys = [0, 1, 2], cur_order = [2, 0, 1], batch_start = 2\<rparr>) \<and>
   mset [[1], [0 :: real]] \<subseteq># mset [[0], [1/2], [1]]"
proof -
  let ?d = "data_subset_new [[0], [1/2], [1 :: real]] [0, 1, 2] [2, 0, 1]"
  have e: "get_batches 1 [[0, 1, 2], [0, 1, 2]] ?d =
     Inr ([([[1]], [2]), ([[0]], [0])],
          \<lparr>ds_xs = [[0], [1/2], [1]], ds_ys = [0, 1, 2], cur_order = [2, 0, 1], batch_start = 2\<rparr>)"
    by (simp add: get_next_batch_def data_subset_new_def)
  have "ds_valid ?d" "batch_start ?d = 0" "length [[0, 1, 2], [0, 1, 2 :: nat]] * 1 \<le> length (ds_xs ?d)"
    by (simp_all add: ds_valid_def data_subset_new_def upt_rec)
  from get_batches_epoch [OF this e] show ?thesis using e by (simp add: data_subset_new_def)
qed
end
