(* ===== verification/EpsSchedule.thy ===== *)
theory EpsSchedule
  imports Prelude
begin

text \<open>
  Line 95 of \<open>train_robust.py\<close>:
  \<open>eps_step = np.linspace(0, config['epsilon'], config['num_schedule_steps'])\<close>.
  NumPy's \<open>linspace(start, stop, num)\<close> with the default \<open>endpoint=True\<close> refuses a
  negative \<open>num\<close> with \<open>ValueError\<close>, returns no sample for \<open>num = 0\<close> and
  \<open>[start]\<close> for \<open>num = 1\<close>, and otherwise \<open>start + i * step\<close> for
  \<open>step = (stop - start) / (num - 1)\<close>, its last sample set to \<open>stop\<close>. The script
  computes this schedule before training and never reads it.
\<close>

section \<open>Definition\<close>

definition linspace :: "real \<Rightarrow> real \<Rightarrow> int \<Rightarrow> error + real list" where
  "linspace start stop num =
     (if num < 0 then Inl ValueError
      else let n = nat num in
        if n = 0 then Inr []
        else if n = 1 then Inr [start]
        else Inr (map (\<lambda>i. start + real i * ((stop - start) / real (n - 1))) [0..<n - 1] @ [stop]))"

section \<open>Lemmas\<close>

lemma linspace_Inr: "0 \<le> num \<Longrightarrow> \<exists>ys. linspace start stop num = Inr ys"
  by (simp add: linspace_def Let_def)

lemma linspace_many:
  assumes "2 \<le> num"
  shows "linspace start stop num =
    Inr (map (\<lambda>i. start + real i * ((stop - start) / real (nat num - 1))) [0..<nat num])"
proof -
  define m where "m = nat num - 1"
  have nm: "nat num = Suc m" "0 < m" using assms by (simp_all add: m_def nat_diff_distrib')
  let ?f = "\<lambda>i. start + real i * ((stop - start) / real m)"
  have "real m * ((stop - start) / real m) = stop - start" using nm(2) by simp
  then have "?f m = stop" by simp
  then have "map ?f [0..<Suc m] = map ?f [0..<m] @ [stop]" by simp
  then show ?thesis using nm assms by (simp add: linspace_def Let_def)
qed

lemma linspace_sample_bounds:
  assumes "0 \<le> stop" "i \<le> n - 1" "n - 1 \<noteq> (0 :: nat)"
  shows "0 \<le> real i * (stop / real (n - 1)) \<and> real i * (stop / real (n - 1)) \<le> stop"
proof -
  have h: "real i / real (n - 1) \<le> 1" using assms(2,3) by simp
  have "real i * (stop / real (n - 1)) = stop * (real i / real (n - 1))" by simp
  also have "\<dots> \<le> stop * 1" using h assms(1) by (rule mult_left_mono)
  finally show ?thesis using assms(1) by simp
qed

section \<open>Properties\<close>

text \<open>C28: for at least two steps and \<open>\<epsilon> \<ge> 0\<close>, the epsilon schedule of line 95 has
  \<open>num_schedule_steps\<close> evenly spaced values from 0 to \<open>\<epsilon>\<close>, both included, all
  within \<open>[0, \<epsilon>]\<close>; a negative count raises \<open>ValueError\<close>, and a single step gives
  \<open>[0]\<close> rather than \<open>[\<epsilon>]\<close>.\<close>

theorem eps_schedule_linspace:
  assumes "0 \<le> eps"
  shows "(2 \<le> num \<longrightarrow>
           (\<exists>ys. linspace 0 eps num = Inr ys \<and> length ys = nat num \<and> hd ys = 0 \<and> last ys = eps \<and>
                 (\<forall>i < nat num. ys ! i = real i * (eps / real (nat num - 1))) \<and>
                 (\<forall>e\<in>set ys. 0 \<le> e \<and> e \<le> eps))) \<and>
         (num < 0 \<longrightarrow> linspace 0 eps num = Inl ValueError) \<and>
         linspace 0 eps 1 = Inr [0] \<and> linspace 0 eps 0 = Inr []"
proof (intro conjI impI)
  assume n: "2 \<le> num"
  let ?ys = "map (\<lambda>i. 0 + real i * ((eps - 0) / real (nat num - 1))) [0..<nat num]"
  have e: "linspace 0 eps num = Inr ?ys" using n by (rule linspace_many)
  have nz: "nat num - 1 \<noteq> 0" using n by simp
  show "\<exists>ys. linspace 0 eps num = Inr ys \<and> length ys = nat num \<and> hd ys = 0 \<and> last ys = eps \<and>
                 (\<forall>i < nat num. ys ! i = real i * (eps / real (nat num - 1))) \<and>
                 (\<forall>e\<in>set ys. 0 \<le> e \<and> e \<le> eps)"
  proof (intro exI conjI)
    show "linspace 0 eps num = Inr ?ys" by (rule e)
    show "length ?ys = nat num" by simp
    show "hd ?ys = 0" using n by (simp add: hd_map upt_conv_Cons)
    show "last ?ys = eps" using n nz by (simp add: last_map)
    show "\<forall>i < nat num. ?ys ! i = real i * (eps / real (nat num - 1))" by simp
    show "\<forall>e\<in>set ?ys. 0 \<le> e \<and> e \<le> eps"
    proof
      fix e assume "e \<in> set ?ys"
      then obtain i where "i < nat num" "e = real i * (eps / real (nat num - 1))" by auto
      then show "0 \<le> e \<and> e \<le> eps" using linspace_sample_bounds [OF assms _ nz, of i] by simp
    qed
  qed
qed (simp_all add: linspace_def)

theorem eps_schedule_linspace_witness:
  "linspace 0 (1/10) 3 = Inr [0, 1/20, 1/10] \<and> linspace 0 (1/10) (-1) = Inl ValueError \<and>
   linspace 0 (1/10) 1 = Inr [0] \<and> linspace 0 (1/10) 0 = Inr []"
  using eps_schedule_linspace [of "1/10" 3] by (simp add: linspace_def upt_rec)

end
