(* ===== verification/Driver.thy ===== *)
theory Driver
  imports Schedule Attack Checkpoint DataSubset EpsSchedule
begin

text \<open>
  The training driver of \<open>train_robust.py\<close>: the configuration read at lines
  26--36, 48--49 and 62--75, and the main loop of lines 97--152. Each iteration
  \<open>ii\<close> of \<open>for ii in range(max_num_training_steps)\<close> fetches a batch (line 106),
  computes its adversarial version with the current parameters (line 110), prints
  accuracies and perturbation sizes every \<open>num_output_steps\<close> iterations (lines
  122--133), writes summaries and the test accuracy every \<open>num_summary_steps\<close>
  iterations (lines 135--140), saves a checkpoint every \<open>num_checkpoint_steps\<close>
  iterations (lines 143--146), and finally runs one Adam step on the adversarial
  batch at the scheduled learning rate, which increments the \<open>int64\<close> global step
  (line 150). The model is the interface \<open>model_iface\<close> (gradients, accuracy,
  cross-entropy, the Adam update); the random draws of the attack and of the
  provider are inputs (\<open>run_env\<close>), and so are the durations the script measures
  with \<open>timer()\<close> around the attack (lines 109--113) and the update (lines 149--152),
  which it accumulates in \<open>training_time\<close> for the examples-per-second line.
\<close>

section \<open>Configuration, model interface, state\<close>

record train_config =
  max_num_training_steps :: int
  num_output_steps :: int
  num_summary_steps :: int
  num_checkpoint_steps :: int
  training_batch_size :: nat
  step_size_schedule :: "(real \<times> real) list"
  weight_decay :: real
  attack :: attack_cfg
  model_dir :: string
  num_schedule_steps :: int

text \<open>What the script asks of \<open>Model\<close> and of \<open>AdamOptimizer(lr).minimize(xent +
  weight_decay * weight_decay_loss, global_step)\<close>, as functions of the trainable
  state \<open>'p\<close> (weights and optimiser slots).\<close>

record 'p model_iface =
  grad_of :: "'p \<Rightarrow> grad_oracle"
  accuracy_of :: "'p \<Rightarrow> batch \<Rightarrow> labels \<Rightarrow> real"
  xent_of :: "'p \<Rightarrow> batch \<Rightarrow> labels \<Rightarrow> real"
  adam_step :: "'p \<Rightarrow> real \<Rightarrow> real \<Rightarrow> batch \<Rightarrow> labels \<Rightarrow> 'p"

text \<open>The inputs of a run besides the configuration: the model, the test set, the
  attack's noise for iteration \<open>ii\<close> (drawn with the batch's shape), the
  provider's reshuffle permutation for iteration \<open>ii\<close>, and the measured
  durations \<open>end - start\<close> of the attack and of the update of iteration \<open>ii\<close>.\<close>

record 'p run_env =
  model :: "'p model_iface"
  test_x :: batch
  test_y :: labels
  noise_of :: "nat \<Rightarrow> batch \<Rightarrow> batch"
  perm_of :: "nat \<Rightarrow> nat list"
  attack_time :: "nat \<Rightarrow> real"
  train_time :: "nat \<Rightarrow> real"

text \<open>What the loop prints and logs.\<close>

datatype event =
    OutputLine nat real real real real real real
      \<comment> \<open>step, nat. and adv. accuracy, max, min, median and mean of the per-example perturbations\<close>
  | Throughput nat real                  \<comment> \<open>step, examples per second (line 131)\<close>
  | Summary int "(string \<times> real) list"   \<comment> \<open>global step, the tagged scalars of the summary\<close>
  | TestAccuracy real
  | Saved string                         \<comment> \<open>checkpoint prefix\<close>

record 'p train_state =
  params :: 'p
  global_step :: step64
  data :: data_subset
  ckpts :: "'p ckpt_store"
  log :: "event list"
  training_time :: real

text \<open>Lines 97--101: a fresh session; the variables are initialised (the
  parameters \<open>p0\<close>, the global step 0), nothing is logged yet and
  \<open>training_time = 0.0\<close>.\<close>

definition init_state :: "'p \<Rightarrow> data_subset \<Rightarrow> 'p ckpt_store \<Rightarrow> 'p train_state" where
  "init_state p0 d st =
     \<lparr>params = p0, global_step = 0, data = d, ckpts = st, log = [], training_time = 0\<rparr>"

section \<open>One iteration\<close>

text \<open>Line 126: \<open>np.amax(np.absolute(x_batch_adv - x_batch), axis=(1,2,3))\<close>,
  the largest absolute change of each example; NumPy raises on operands of
  different shape and on an empty example. Line 127 then takes \<open>np.amax\<close> of this
  vector, which raises on an empty batch.\<close>

definition max_diff :: "batch \<Rightarrow> batch \<Rightarrow> error + real list" where
  "max_diff xadv x =
     (if \<not> same_shape xadv x then Inl ShapeError
      else if x = [] \<or> [] \<in> set x then Inl ValueError
      else Inr (map2 (\<lambda>a b. Max (set (map2 (\<lambda>u v. \<bar>u - v\<bar>) a b))) xadv x))"

text \<open>Lines 122--133, on the log and \<open>training_time\<close>: the examples-per-second
  value \<open>num_output_steps * batch_size / training_time\<close> is a float division,
  which raises \<open>ZeroDivisionError\<close> on \<open>0.0\<close>; then \<open>training_time\<close> is reset.\<close>

definition output_step ::
  "'p run_env \<Rightarrow> train_config \<Rightarrow> nat \<Rightarrow> 'p \<Rightarrow> batch \<Rightarrow> batch \<Rightarrow> labels \<Rightarrow> event list \<Rightarrow>
   real \<Rightarrow> error + event list \<times> real" where
  "output_step E cfg ii p xb xadv yb lg tt =
     bind_err (py_mod (int ii) (num_output_steps cfg)) (\<lambda>r.
       if r = 0 then
         bind_err (max_diff xadv xb) (\<lambda>md.
           let lg1 = lg @ [OutputLine ii (accuracy_of (model E) p xb yb) (accuracy_of (model E) p xadv yb)
                             (np_amax md) (np_amin md) (np_median md) (np_mean md)]
           in if ii \<noteq> 0 then
                (if tt = 0 then Inl ZeroDivisionError
                 else Inr (lg1 @ [Throughput ii (real_of_int (num_output_steps cfg) *
                                                 real (training_batch_size cfg) / tt)], 0))
              else Inr (lg1, tt))
       else Inr (lg, tt))"

text \<open>Lines 86--91: \<open>merge_all\<close> of the four scalar summaries, evaluated on the fed
  batch: the accuracy twice and the cross-entropy over the batch size twice (a float
  division in TensorFlow; a zero batch size gives \<open>inf\<close> there and \<open>0\<close> in the
  reals).\<close>

definition merged_summaries :: "real \<Rightarrow> real \<Rightarrow> nat \<Rightarrow> (string \<times> real) list" where
  "merged_summaries acc xent bs =
     [(''accuracy adv train'', acc), (''accuracy adv'', acc),
      (''xent adv train'', xent / real bs), (''xent adv'', xent / real bs)]"

text \<open>Lines 135--140: the merged summaries on the adversarial batch, tagged with
  \<open>global_step.eval()\<close>, then the test accuracy.\<close>

definition summary_step ::
  "'p run_env \<Rightarrow> train_config \<Rightarrow> nat \<Rightarrow> 'p \<Rightarrow> step64 \<Rightarrow> batch \<Rightarrow> labels \<Rightarrow> event list \<Rightarrow>
   error + event list" where
  "summary_step E cfg ii p gs xadv yb lg =
     bind_err (py_mod (int ii) (num_summary_steps cfg)) (\<lambda>r.
       if r = 0 then
         Inr (lg @ [Summary (sint gs) (merged_summaries (accuracy_of (model E) p xadv yb)
                      (xent_of (model E) p xadv yb) (training_batch_size cfg)),
                    TestAccuracy (accuracy_of (model E) p (test_x E) (test_y E))])
       else Inr lg)"

text \<open>Lines 143--146.\<close>

definition checkpoint_step ::
  "train_config \<Rightarrow> nat \<Rightarrow> 'p train_state \<Rightarrow> error + 'p train_state" where
  "checkpoint_step cfg ii s =
     bind_err (py_mod (int ii) (num_checkpoint_steps cfg)) (\<lambda>r.
       if r = 0 then
         Inr (s\<lparr>ckpts := saver_save (ckpts s) (model_dir cfg) (params s) (global_step s),
                log := log s @ [Saved (checkpoint_prefix (model_dir cfg) (sint (global_step s)))]\<rparr>)
       else Inr s)"

text \<open>Lines 149--152: \<open>sess.run(train_step)\<close> evaluates the learning rate at the
  current global step, applies one Adam update and increments the global step; its
  duration is added to \<open>training_time\<close>.\<close>

definition train_step ::
  "'p run_env \<Rightarrow> train_config \<Rightarrow> (int \<Rightarrow> error + real) \<Rightarrow> nat \<Rightarrow> batch \<Rightarrow> labels \<Rightarrow>
   'p train_state \<Rightarrow> error + 'p train_state" where
  "train_step E cfg lr_fn ii xadv yb s =
     bind_err (lr_fn (cast_int32 (global_step s))) (\<lambda>lr.
       Inr (s\<lparr>params := adam_step (model E) (params s) lr (weight_decay cfg) xadv yb,
              global_step := global_step s + 1,
              training_time := training_time s + train_time E ii\<rparr>))"

text \<open>Lines 104--152, one iteration, in the order of the source.\<close>

definition train_iteration ::
  "'p run_env \<Rightarrow> train_config \<Rightarrow> (int \<Rightarrow> error + real) \<Rightarrow> nat \<Rightarrow> 'p train_state \<Rightarrow>
   error + 'p train_state" where
  "train_iteration E cfg lr_fn ii s =
     bind_err (get_next_batch (training_batch_size cfg) (perm_of E ii) (data s)) (\<lambda>(xb, yb, d').
     bind_err (perturb (attack cfg) (grad_of (model E) (params s)) xb yb (noise_of E ii xb)) (\<lambda>xadv.
     bind_err (output_step E cfg ii (params s) xb xadv yb (log s) (training_time s + attack_time E ii))
       (\<lambda>(lg1, tt).
     bind_err (summary_step E cfg ii (params s) (global_step s) xadv yb lg1) (\<lambda>lg2.
     bind_err (checkpoint_step cfg ii (s\<lparr>data := d', log := lg2, training_time := tt\<rparr>)) (\<lambda>s3.
     train_step E cfg lr_fn ii xadv yb s3)))))"

section \<open>The loop and the run\<close>

fun train_loop ::
  "'p run_env \<Rightarrow> train_config \<Rightarrow> (int \<Rightarrow> error + real) \<Rightarrow> nat list \<Rightarrow> 'p train_state \<Rightarrow>
   error + 'p train_state" where
  "train_loop E cfg lr_fn [] s = Inr s"
| "train_loop E cfg lr_fn (ii # iis) s =
     bind_err (train_iteration E cfg lr_fn ii s) (train_loop E cfg lr_fn iis)"

text \<open>The learning-rate graph is built before the session starts (line 53), so a
  malformed schedule stops the run before any iteration; so does a negative
  \<open>num_schedule_steps\<close> at line 95, whose schedule is otherwise unused.\<close>

definition run_training :: "'p run_env \<Rightarrow> train_config \<Rightarrow> 'p train_state \<Rightarrow> error + 'p train_state" where
  "run_training E cfg s0 =
     bind_err (schedule_fn (step_size_schedule cfg)) (\<lambda>lr_fn.
     bind_err (linspace 0 (epsilon (attack cfg)) (num_schedule_steps cfg)) (\<lambda>eps_step.
       train_loop E cfg lr_fn [0..<nat (max_num_training_steps cfg)] s0))"

text \<open>An event obeys the perturbation budget \<open>eps\<close> when it is not an output line,
  or when the statistics of line 127 it prints are ordered as minimum, median and
  mean between 0 and the maximum, and the maximum is at most \<open>eps\<close>.\<close>

fun md_within :: "real \<Rightarrow> event \<Rightarrow> bool" where
  "md_within eps (OutputLine ii na aa mx mn med mean) =
     (0 \<le> mn \<and> mn \<le> med \<and> med \<le> mx \<and> mn \<le> mean \<and> mean \<le> mx \<and> mx \<le> eps)"
| "md_within eps _ = True"

section \<open>A concrete run\<close>

text \<open>A two-example dataset, a model whose parameter counts its updates, two
  iterations with every cadence 1; the witnesses below evaluate it.\<close>

definition example_env :: "nat run_env" where
  "example_env =
     \<lparr>model = \<lparr>grad_of = (\<lambda>p l u y. map (map (\<lambda>_. 1)) u), accuracy_of = (\<lambda>p x y. 1),
                xent_of = (\<lambda>p x y. 0), adam_step = (\<lambda>p lr wd x y. p + 1)\<rparr>,
      test_x = [[0]], test_y = [0], noise_of = (\<lambda>_ x. x), perm_of = (\<lambda>_. [0, 1]),
      attack_time = (\<lambda>_. 1), train_time = (\<lambda>_. 1)\<rparr>"

definition example_cfg :: "int \<Rightarrow> train_config" where
  "example_cfg out =
     \<lparr>max_num_training_steps = 2, num_output_steps = out, num_summary_steps = 1,
      num_checkpoint_steps = 1, training_batch_size = 1,
      step_size_schedule = [(0, 1/10), (100, 1/100)], weight_decay = 0,
      attack = \<lparr>epsilon = 1/10, num_steps = 1, step_size = 1/10, random_start = False,
                loss_func = Xent\<rparr>,
      model_dir = ''m'', num_schedule_steps = 3\<rparr>"

definition example_data :: data_subset where
  "example_data = data_subset_new [[1/2], [1/4]] [0, 1] [0, 1]"

lemmas run_eval_defs = example_env_def example_cfg_def example_data_def run_training_def
  schedule_fn_def pc_build_def schedule_boundaries_def schedule_values_def py_int_def fits_int32_def
  init_state_def data_subset_new_def train_iteration_def get_next_batch_def perturb_def init_adv_def
  pgd_step_def step_elem_def clip_def map3_batch_def same_shape_def output_step_def max_diff_def
  summary_step_def checkpoint_step_def train_step_def pc_preds_def tf_case_def cast_int32_def upt_rec
  linspace_def np_amax_def np_amin_def np_median_def np_mean_def merged_summaries_def Let_def comp_def

section \<open>Lemmas\<close>

lemma train_loop_append:
  "train_loop E cfg f (xs @ ys) s = bind_err (train_loop E cfg f xs s) (train_loop E cfg f ys)"
proof (induction xs arbitrary: s)
  case (Cons ii xs)
  then show ?case by (cases "train_iteration E cfg f ii s") (simp_all add: bind_err_assoc)
qed simp

lemma output_step_log:
  "output_step E cfg ii p xb xadv yb lg tt = Inr (lg', tt') \<Longrightarrow> \<exists>new. lg' = lg @ new"
  by (auto simp: output_step_def py_mod_def bind_err_eq_Inr Let_def split: if_splits)

lemma summary_step_log:
  "summary_step E cfg ii p gs xadv yb lg = Inr lg' \<Longrightarrow> \<exists>new. lg' = lg @ new"
  by (auto simp: summary_step_def py_mod_def split: if_splits)

lemma checkpoint_step_Inr:
  "checkpoint_step cfg ii s = Inr s' \<longleftrightarrow>
   num_checkpoint_steps cfg \<noteq> 0 \<and>
   s' = (if int ii mod num_checkpoint_steps cfg = 0
         then s\<lparr>ckpts := saver_save (ckpts s) (model_dir cfg) (params s) (global_step s),
                log := log s @ [Saved (checkpoint_prefix (model_dir cfg) (sint (global_step s)))]\<rparr>
         else s)"
  by (auto simp: checkpoint_step_def py_mod_def)

lemma checkpoint_step_data_log:
  "checkpoint_step cfg ii s = Inr s' \<Longrightarrow>
   data s' = data s \<and> (log s' = log s \<or> (\<exists>p. log s' = log s @ [Saved p]))"
  by (auto simp: checkpoint_step_def py_mod_def split: if_splits)

lemma train_step_Inr:
  "train_step E cfg f ii xadv yb s = Inr s' \<longleftrightarrow>
   (\<exists>lr. f (cast_int32 (global_step s)) = Inr lr \<and>
         s' = s\<lparr>params := adam_step (model E) (params s) lr (weight_decay cfg) xadv yb,
                global_step := global_step s + 1,
                training_time := training_time s + train_time E ii\<rparr>)"
  by (auto simp: train_step_def bind_err_eq_Inr)

text \<open>What a successful iteration did, stage by stage.\<close>

lemma train_iteration_Inr:
  assumes "train_iteration E cfg f ii s = Inr s'"
  obtains xb yb d' xadv lg1 tt lg2 s3 where
    "get_next_batch (training_batch_size cfg) (perm_of E ii) (data s) = Inr (xb, yb, d')"
    "perturb (attack cfg) (grad_of (model E) (params s)) xb yb (noise_of E ii xb) = Inr xadv"
    "output_step E cfg ii (params s) xb xadv yb (log s) (training_time s + attack_time E ii) = Inr (lg1, tt)"
    "summary_step E cfg ii (params s) (global_step s) xadv yb lg1 = Inr lg2"
    "checkpoint_step cfg ii (s\<lparr>data := d', log := lg2, training_time := tt\<rparr>) = Inr s3"
    "train_step E cfg f ii xadv yb s3 = Inr s'"
  using assms by (auto simp: train_iteration_def bind_err_eq_Inr split: prod.splits)

lemma train_iteration_global_step:
  "train_iteration E cfg f ii s = Inr s' \<Longrightarrow> global_step s' = global_step s + 1"
  by (erule train_iteration_Inr) (auto simp: checkpoint_step_Inr train_step_Inr split: if_splits)

lemma train_iteration_ckpts:
  assumes "train_iteration E cfg f ii s = Inr s'"
  shows "num_checkpoint_steps cfg \<noteq> 0 \<and>
    ckpts s' = (if int ii mod num_checkpoint_steps cfg = 0
                then saver_save (ckpts s) (model_dir cfg) (params s) (global_step s) else ckpts s)"
  using assms by (rule train_iteration_Inr) (auto simp: checkpoint_step_Inr train_step_Inr split: if_splits)

text \<open>The update of an iteration: the Adam step of line 150 runs on the adversarial
  version of the iteration's batch, computed with the parameters before the update,
  at the rate of the current global step.\<close>

lemma train_iteration_update:
  assumes "train_iteration E cfg f ii s = Inr s'"
  shows "\<exists>xb yb d' xadv lr.
    get_next_batch (training_batch_size cfg) (perm_of E ii) (data s) = Inr (xb, yb, d') \<and>
    perturb (attack cfg) (grad_of (model E) (params s)) xb yb (noise_of E ii xb) = Inr xadv \<and>
    f (cast_int32 (global_step s)) = Inr lr \<and>
    params s' = adam_step (model E) (params s) lr (weight_decay cfg) xadv yb \<and> data s' = d'"
  using assms by (rule train_iteration_Inr) (auto simp: checkpoint_step_Inr train_step_Inr split: if_splits)

lemma train_loop_global_step:
  "train_loop E cfg f xs s = Inr s' \<Longrightarrow> global_step s' = global_step s + of_nat (length xs)"
  by (induction xs arbitrary: s) (auto simp: bind_err_eq_Inr dest!: train_iteration_global_step)

lemma train_loop_Cons_Inr:
  "train_loop E cfg f (ii # iis) s = Inr s' \<longleftrightarrow>
   (\<exists>s1. train_iteration E cfg f ii s = Inr s1 \<and> train_loop E cfg f iis s1 = Inr s')"
  by (simp add: bind_err_eq_Inr)

lemma train_loop_append_Inr:
  "train_loop E cfg f (xs @ ys) s = Inr s' \<longleftrightarrow>
   (\<exists>s1. train_loop E cfg f xs s = Inr s1 \<and> train_loop E cfg f ys s1 = Inr s')"
  by (simp add: train_loop_append bind_err_eq_Inr)

text \<open>Saves at later iterations leave the checkpoint of another step alone: the
  frame of the checkpoint store over a stretch of the loop.\<close>

lemma train_loop_ckpt_frame:
  assumes "train_loop E cfg f [a..<b] s = Inr s'" "global_step s = of_nat a" "b \<le> 2 ^ 63"
    and "\<And>j. a \<le> j \<Longrightarrow> j < b \<Longrightarrow> checkpoint_prefix (model_dir cfg) (int j) \<noteq> P"
  shows "ckpts s' P = ckpts s P"
  using assms
proof (induction "b - a" arbitrary: a s)
  case 0
  then show ?case by simp
next
  case (Suc n)
  then have ab: "a < b" by simp
  then obtain s1 where it: "train_iteration E cfg f a s = Inr s1"
    and lp: "train_loop E cfg f [Suc a..<b] s1 = Inr s'"
    using Suc.prems(1) by (auto simp: upt_conv_Cons bind_err_eq_Inr)
  have "sint (global_step s) = int a" using Suc.prems(2,3) ab by (simp add: sint_of_nat_small)
  then have "ckpts s1 P = ckpts s P"
    using train_iteration_ckpts [OF it] Suc.prems(4) [of a] ab by (auto simp: saver_save_def)
  moreover have "global_step s1 = of_nat (Suc a)"
    using train_iteration_global_step [OF it] Suc.prems(2) by simp
  moreover have "ckpts s' P = ckpts s1 P"
    using Suc.hyps(1) [of "Suc a" s1] Suc.hyps(2) lp calculation(2) Suc.prems(3,4) by simp
  ultimately show ?case by simp
qed

lemma checkpoint_prefix_eq_iff:
  "checkpoint_prefix d i = checkpoint_prefix d j \<longleftrightarrow> i = j"
  by (auto simp: checkpoint_prefix_def dest: fmt_d_inj)

text \<open>The checkpoints written over a stretch of the loop: one per iteration that is
  a multiple of the cadence, named by that iteration's step.\<close>

lemma train_loop_ckpt_dom:
  assumes "train_loop E cfg f [a..<b] s = Inr s'" "global_step s = of_nat a" "b \<le> 2 ^ 63"
  shows "dom (ckpts s') = dom (ckpts s) \<union>
    {checkpoint_prefix (model_dir cfg) (int i) | i. a \<le> i \<and> i < b \<and> int i mod num_checkpoint_steps cfg = 0}"
  using assms
proof (induction b arbitrary: s')
  case (Suc b)
  show ?case
  proof (cases "a \<le> b")
    case True
    then obtain s1 where l1: "train_loop E cfg f [a..<b] s = Inr s1"
      and it: "train_iteration E cfg f b s1 = Inr s'"
      using Suc.prems(1) by (auto simp: train_loop_append_Inr bind_err_eq_Inr)
    have ih: "dom (ckpts s1) = dom (ckpts s) \<union>
      {checkpoint_prefix (model_dir cfg) (int i) | i. a \<le> i \<and> i < b \<and> int i mod num_checkpoint_steps cfg = 0}"
      using Suc.IH [OF l1 Suc.prems(2)] Suc.prems(3) by simp
    have "global_step s1 = of_nat b"
      using train_loop_global_step [OF l1] Suc.prems(2) True by (simp add: of_nat_diff)
    then have "sint (global_step s1) = int b" using Suc.prems(3) by (simp add: sint_of_nat_small)
    then have "dom (ckpts s') = dom (ckpts s1) \<union>
        (if int b mod num_checkpoint_steps cfg = 0 then {checkpoint_prefix (model_dir cfg) (int b)} else {})"
      using train_iteration_ckpts [OF it] by (auto simp: saver_save_def)
    then show ?thesis using ih True by (auto simp: less_Suc_eq)
  next
    case False
    then show ?thesis using Suc.prems(1) by auto
  qed
qed simp

subsection \<open>Logged perturbation sizes\<close>

lemma max_diff_le:
  assumes "max_diff xadv xb = Inr md" "all_pairs (\<lambda>a b. \<bar>b - a\<bar> \<le> eps) xb xadv"
  shows "md \<noteq> [] \<and> list_all (\<lambda>m. 0 \<le> m \<and> m \<le> eps) md"
proof -
  have md: "md = map2 (\<lambda>a b. Max (set (map2 (\<lambda>u v. \<bar>u - v\<bar>) a b))) xadv xb"
    and ne: "xb \<noteq> []" "[] \<notin> set xb" and sh: "same_shape xadv xb"
    using assms(1) by (auto simp: max_diff_def split: if_splits)
  have p: "list_all2 (list_all2 (\<lambda>a b. \<bar>b - a\<bar> \<le> eps)) xb xadv"
    using assms(2) by (simp add: all_pairs_def)
  have "md \<noteq> []" using md ne(1) sh by (auto simp: same_shape_def dest: list_all2_lengthD)
  moreover have "list_all (\<lambda>m. 0 \<le> m \<and> m \<le> eps) md" unfolding list_all_length
  proof (intro allI impI)
    fix k assume "k < length md"
    then have k: "k < length xb" "k < length xadv" using md p by (auto dest: list_all2_lengthD)
    have pk: "list_all2 (\<lambda>a b. \<bar>b - a\<bar> \<le> eps) (xb ! k) (xadv ! k)"
      using p k by (simp add: list_all2_conv_all_nth)
    have "xb ! k \<noteq> []" using ne(2) k nth_mem by metis
    then have nz: "map2 (\<lambda>u v. \<bar>u - v\<bar>) (xadv ! k) (xb ! k) \<noteq> []"
      using pk by (auto dest: list_all2_lengthD)
    have "\<forall>t\<in>set (map2 (\<lambda>u v. \<bar>u - v\<bar>) (xadv ! k) (xb ! k)). t \<le> eps"
      using pk by (auto simp: list_all2_conv_all_nth in_set_conv_nth abs_minus_commute)
    then have le: "Max (set (map2 (\<lambda>u v. \<bar>u - v\<bar>) (xadv ! k) (xb ! k))) \<le> eps"
      using nz by (simp add: Max_le_iff)
    obtain t where t: "t \<in> set (map2 (\<lambda>u v. \<bar>u - v\<bar>) (xadv ! k) (xb ! k))"
      using nz by (meson list.set_sel(1))
    have "0 \<le> t" using t by auto
    moreover have "t \<le> Max (set (map2 (\<lambda>u v. \<bar>u - v\<bar>) (xadv ! k) (xb ! k)))"
      using t by simp
    ultimately have "0 \<le> Max (set (map2 (\<lambda>u v. \<bar>u - v\<bar>) (xadv ! k) (xb ! k)))" by linarith
    then show "0 \<le> md ! k \<and> md ! k \<le> eps" using le md k by simp
  qed
  ultimately show ?thesis ..
qed

text \<open>The statistics of a non-empty vector of perturbation sizes in \<open>[0, eps]\<close>
  obey the budget.\<close>

lemma stats_within:
  assumes "md \<noteq> []" "list_all (\<lambda>m. 0 \<le> m \<and> m \<le> eps) md"
  shows "md_within eps (OutputLine ii na aa (np_amax md) (np_amin md) (np_median md) (np_mean md))"
proof -
  have "np_amax md \<le> eps" "0 \<le> np_amin md"
    using assms by (auto simp: np_amax_def np_amin_def list_all_iff)
  then show ?thesis
    using np_median_bounds [OF assms(1)] np_mean_bounds [OF assms(1)] by simp
qed

lemma output_step_within:
  assumes "output_step E cfg ii p xb xadv yb lg tt = Inr (lg', tt')"
    and "all_pairs (\<lambda>a b. \<bar>b - a\<bar> \<le> eps) xb xadv" "list_all (md_within eps) lg"
  shows "list_all (md_within eps) lg'"
  using assms stats_within max_diff_le [OF _ assms(2)]
  by (auto simp: output_step_def py_mod_def bind_err_eq_Inr Let_def split: if_splits)

lemma summary_step_within:
  "summary_step E cfg ii p gs xadv yb lg = Inr lg' \<Longrightarrow> list_all (md_within eps) lg \<Longrightarrow>
   list_all (md_within eps) lg'"
  by (auto simp: summary_step_def py_mod_def split: if_splits)

text \<open>One iteration from a well-formed provider over clean data in \<open>[0, 1]\<close>
  keeps the provider well-formed and every logged perturbation within \<open>\<epsilon>\<close>.\<close>

lemma train_iteration_within:
  assumes it: "train_iteration E cfg f ii s = Inr s'"
    and v: "ds_valid (data s)" and pm: "mset (perm_of E ii) = mset [0..<length (ds_xs (data s))]"
    and box: "all_elems (\<lambda>r. 0 \<le> r \<and> r \<le> 1) (ds_xs (data s))"
    and eps: "0 \<le> epsilon (attack cfg)"
    and nz_all: "\<And>x. random_start (attack cfg) \<Longrightarrow> all_elems (\<lambda>r. \<bar>r\<bar> \<le> epsilon (attack cfg)) (noise_of E ii x)"
    and lg: "list_all (md_within (epsilon (attack cfg))) (log s)"
  shows "ds_valid (data s') \<and> ds_xs (data s') = ds_xs (data s) \<and>
         list_all (md_within (epsilon (attack cfg))) (log s')"
  using it
proof (rule train_iteration_Inr)
  fix xb yb d' xadv lg1 tt lg2 s3
  assume b: "get_next_batch (training_batch_size cfg) (perm_of E ii) (data s) = Inr (xb, yb, d')"
    and p: "perturb (attack cfg) (grad_of (model E) (params s)) xb yb (noise_of E ii xb) = Inr xadv"
    and o: "output_step E cfg ii (params s) xb xadv yb (log s) (training_time s + attack_time E ii) = Inr (lg1, tt)"
    and su: "summary_step E cfg ii (params s) (global_step s) xadv yb lg1 = Inr lg2"
    and c: "checkpoint_step cfg ii (s\<lparr>data := d', log := lg2, training_time := tt\<rparr>) = Inr s3"
    and t: "train_step E cfg f ii xadv yb s3 = Inr s'"
  have bp: "ds_valid d' \<and> ds_xs d' = ds_xs (data s) \<and> set xb \<subseteq> set (ds_xs (data s))"
    using get_next_batch_props [OF v pm b] by blast
  then have xbox: "all_elems (\<lambda>r. 0 \<le> r \<and> r \<le> 1) xb" using box by (auto simp: all_elems_def)
  have ap: "all_pairs (\<lambda>a b. \<bar>b - a\<bar> \<le> epsilon (attack cfg)) xb xadv"
    using p xbox eps nz_all [of xb] by (rule perturb_within_ball)
  have "list_all (md_within (epsilon (attack cfg))) lg1" using o ap lg by (rule output_step_within)
  then have "list_all (md_within (epsilon (attack cfg))) lg2"
    using su by (rule summary_step_within [rotated])
  then have "data s3 = d' \<and> list_all (md_within (epsilon (attack cfg))) (log s3)"
    using checkpoint_step_data_log [OF c] by auto
  moreover have "data s' = data s3 \<and> log s' = log s3" using t by (auto simp: train_step_Inr)
  ultimately show ?thesis using bp by simp
qed

lemma train_loop_within:
  assumes "train_loop E cfg f xs s = Inr s'" "ds_valid (data s)"
    and "\<And>ii. mset (perm_of E ii) = mset [0..<length (ds_xs (data s))]"
    and "all_elems (\<lambda>r. 0 \<le> r \<and> r \<le> 1) (ds_xs (data s))" "0 \<le> epsilon (attack cfg)"
    and "\<And>ii x. random_start (attack cfg) \<Longrightarrow> all_elems (\<lambda>r. \<bar>r\<bar> \<le> epsilon (attack cfg)) (noise_of E ii x)"
    and "list_all (md_within (epsilon (attack cfg))) (log s)"
  shows "list_all (md_within (epsilon (attack cfg))) (log s') \<and> ds_valid (data s') \<and>
         ds_xs (data s') = ds_xs (data s)"
  using assms
proof (induction xs arbitrary: s)
  case (Cons ii xs)
  then obtain s1 where it: "train_iteration E cfg f ii s = Inr s1"
    and lp: "train_loop E cfg f xs s1 = Inr s'" by (auto simp: bind_err_eq_Inr)
  have "ds_valid (data s1) \<and> ds_xs (data s1) = ds_xs (data s) \<and>
        list_all (md_within (epsilon (attack cfg))) (log s1)"
    using it Cons.prems(2-7) by (rule train_iteration_within)
  then show ?case using Cons.IH [OF lp] Cons.prems(3-6) by simp
qed simp

subsection \<open>The examples-per-second line\<close>

lemma output_step_time:
  "output_step E cfg ii p xb xadv yb lg tt = Inr (lg', tt') \<Longrightarrow>
   tt' = (if ii \<noteq> 0 \<and> int ii mod num_output_steps cfg = 0 then 0 else tt)"
  by (auto simp: output_step_def py_mod_def bind_err_eq_Inr Let_def split: if_splits)

lemma output_step_throughput:
  "output_step E cfg ii p xb xadv yb lg tt = Inr (lg', tt') \<Longrightarrow> ii \<noteq> 0 \<Longrightarrow>
   int ii mod num_output_steps cfg = 0 \<Longrightarrow>
   \<exists>new. lg' = lg @ new \<and>
     Throughput ii (real_of_int (num_output_steps cfg) * real (training_batch_size cfg) / tt) \<in> set new"
  by (auto simp: output_step_def py_mod_def bind_err_eq_Inr Let_def split: if_splits)

lemma train_iteration_time:
  assumes "train_iteration E cfg f ii s = Inr s'"
  shows "training_time s' =
    (if ii \<noteq> 0 \<and> int ii mod num_output_steps cfg = 0 then 0 else training_time s + attack_time E ii) +
    train_time E ii"
  using assms
proof (rule train_iteration_Inr)
  fix xb yb d' xadv lg1 tt lg2 s3
  assume o: "output_step E cfg ii (params s) xb xadv yb (log s) (training_time s + attack_time E ii) = Inr (lg1, tt)"
    and c: "checkpoint_step cfg ii (s\<lparr>data := d', log := lg2, training_time := tt\<rparr>) = Inr s3"
    and t: "train_step E cfg f ii xadv yb s3 = Inr s'"
  have "training_time s3 = tt" using c by (auto simp: checkpoint_step_Inr)
  then show ?thesis using output_step_time [OF o] t by (auto simp: train_step_Inr)
qed

lemma train_iteration_throughput:
  assumes "train_iteration E cfg f ii s = Inr s'" "ii \<noteq> 0" "int ii mod num_output_steps cfg = 0"
  shows "\<exists>new. log s' = log s @ new \<and>
    Throughput ii (real_of_int (num_output_steps cfg) * real (training_batch_size cfg) /
                   (training_time s + attack_time E ii)) \<in> set new"
  using assms(1)
proof (rule train_iteration_Inr)
  fix xb yb d' xadv lg1 tt lg2 s3
  assume o: "output_step E cfg ii (params s) xb xadv yb (log s) (training_time s + attack_time E ii) = Inr (lg1, tt)"
    and su: "summary_step E cfg ii (params s) (global_step s) xadv yb lg1 = Inr lg2"
    and c: "checkpoint_step cfg ii (s\<lparr>data := d', log := lg2, training_time := tt\<rparr>) = Inr s3"
    and t: "train_step E cfg f ii xadv yb s3 = Inr s'"
  obtain new1 where n1: "lg1 = log s @ new1"
    and th: "Throughput ii (real_of_int (num_output_steps cfg) * real (training_batch_size cfg) /
                   (training_time s + attack_time E ii)) \<in> set new1"
    using output_step_throughput [OF o assms(2,3)] by blast
  obtain new2 where "lg2 = lg1 @ new2" using summary_step_log [OF su] by blast
  moreover have "log s3 = lg2 \<or> (\<exists>p. log s3 = lg2 @ [Saved p])"
    using checkpoint_step_data_log [OF c] by simp
  then obtain new3 where "log s3 = lg2 @ new3" by auto
  moreover have "log s' = log s3" using t by (auto simp: train_step_Inr)
  ultimately show ?thesis using n1 th by auto
qed

lemma train_loop_time:
  assumes "train_loop E cfg f [a..<b] s = Inr s'"
    and "\<forall>j. a \<le> j \<longrightarrow> j < b \<longrightarrow> j = 0 \<or> int j mod num_output_steps cfg \<noteq> 0"
  shows "training_time s' = training_time s + (\<Sum>j = a..<b. attack_time E j + train_time E j)"
  using assms
proof (induction b arbitrary: s')
  case (Suc b)
  show ?case
  proof (cases "a \<le> b")
    case True
    then obtain s1 where l1: "train_loop E cfg f [a..<b] s = Inr s1"
      and it: "train_iteration E cfg f b s1 = Inr s'"
      using Suc.prems(1) by (auto simp: train_loop_append_Inr bind_err_eq_Inr)
    have "training_time s1 = training_time s + (\<Sum>j = a..<b. attack_time E j + train_time E j)"
      using Suc.IH [OF l1] Suc.prems(2) by auto
    moreover have "b = 0 \<or> int b mod num_output_steps cfg \<noteq> 0" using Suc.prems(2) True by auto
    ultimately show ?thesis using train_iteration_time [OF it] True by auto
  next
    case False
    then show ?thesis using Suc.prems(1) by simp
  qed
qed simp

lemma dvd_window:
  assumes "(k :: nat) dvd r" "r < j" "j < r + k"
  shows "\<not> k dvd j"
proof
  assume "k dvd j"
  then have "k dvd j - r" using assms(1) by (rule dvd_diff_nat)
  moreover have "0 < j - r" "j - r < k" using assms(2,3) by simp_all
  ultimately show False by (auto dest: dvd_imp_le)
qed

lemma window_sum_first:
  fixes a t :: "nat \<Rightarrow> real"
  shows "(\<Sum>j = 0..<k. a j + t j) + a k = (\<Sum>j = 0..<k. t j) + (\<Sum>j = Suc 0..<Suc k. a j) + a 0"
proof -
  have "(\<Sum>j = 0..<Suc k. a j) = (\<Sum>j = 0..<k. a j) + a k" by simp
  moreover have "(\<Sum>j = 0..<Suc k. a j) = a 0 + (\<Sum>j = Suc 0..<Suc k. a j)"
    by (rule sum.atLeast_Suc_lessThan) simp
  ultimately show ?thesis by (simp add: sum.distrib)
qed

lemma window_sum_later:
  fixes a t :: "nat \<Rightarrow> real"
  assumes "r < i"
  shows "t r + (\<Sum>j = Suc r..<i. a j + t j) + a i = (\<Sum>j = r..<i. t j) + (\<Sum>j = Suc r..<Suc i. a j)"
proof -
  have "(\<Sum>j = r..<i. t j) = t r + (\<Sum>j = Suc r..<i. t j)" using assms by (rule sum.atLeast_Suc_lessThan)
  moreover have "(\<Sum>j = Suc r..<Suc i. a j) = (\<Sum>j = Suc r..<i. a j) + a i"
    using assms by (simp add: sum.atLeastLessThan_Suc)
  ultimately show ?thesis by (simp add: sum.distrib)
qed

lemma int_mod_dvd: "num_output_steps cfg = int k \<Longrightarrow> int j mod num_output_steps cfg = 0 \<longleftrightarrow> k dvd j"
  by (simp flip: of_nat_mod add: dvd_eq_mod_eq_0)

subsection \<open>Iterations that cannot fail\<close>

lemma output_step_returns:
  "num_output_steps cfg \<noteq> 0 \<Longrightarrow> max_diff xadv xb = Inr md \<Longrightarrow> 0 < tt \<Longrightarrow>
   \<exists>lg' tt'. output_step E cfg ii p xb xadv yb lg tt = Inr (lg', tt') \<and> 0 \<le> tt'"
  by (simp add: output_step_def Let_def)

lemma summary_step_returns:
  "num_summary_steps cfg \<noteq> 0 \<Longrightarrow> \<exists>lg'. summary_step E cfg ii p gs xadv yb lg = Inr lg'"
  by (simp add: summary_step_def)

lemma checkpoint_step_returns:
  "num_checkpoint_steps cfg \<noteq> 0 \<Longrightarrow> \<exists>s'. checkpoint_step cfg ii s = Inr s'"
  by (simp add: checkpoint_step_Inr)

lemma train_step_returns:
  assumes "\<forall>x. \<exists>r. f x = Inr r"
  shows "\<exists>s'. train_step E cfg f ii xadv yb s = Inr s' \<and> data s' = data s \<and>
              training_time s' = training_time s + train_time E ii"
proof -
  obtain lr where "f (cast_int32 (global_step s)) = Inr lr" using assms by blast
  then show ?thesis by (simp add: train_step_def)
qed

lemma max_diff_returns:
  "same_shape xb xadv \<Longrightarrow> xb \<noteq> [] \<Longrightarrow> [] \<notin> set xb \<Longrightarrow> \<exists>md. max_diff xadv xb = Inr md"
  by (simp add: max_diff_def same_shape_sym)

text \<open>Time is measured as non-negative durations, the attack's as positive: then
  \<open>training_time\<close> is positive at every examples-per-second line.\<close>

lemma train_iteration_returns:
  assumes f: "\<forall>x. \<exists>r. f x = Inr r"
    and c: "num_output_steps cfg \<noteq> 0" "num_summary_steps cfg \<noteq> 0" "num_checkpoint_steps cfg \<noteq> 0"
    and v: "ds_valid (data s)" and pm: "mset (perm_of E ii) = mset [0..<length (ds_xs (data s))]"
    and bs: "0 < training_batch_size cfg" "training_batch_size cfg \<le> length (ds_xs (data s))"
    and ne: "\<forall>e\<in>set (ds_xs (data s)). e \<noteq> []"
    and g: "\<And>p l u y. same_shape u (grad_of (model E) p l u y)"
    and n: "\<And>ii x. same_shape x (noise_of E ii x)"
    and tm: "0 \<le> training_time s" "0 < attack_time E ii" "0 \<le> train_time E ii"
  shows "\<exists>s'. train_iteration E cfg f ii s = Inr s' \<and> ds_valid (data s') \<and>
             ds_xs (data s') = ds_xs (data s) \<and> 0 \<le> training_time s'"
proof -
  obtain xb yb d' where b: "get_next_batch (training_batch_size cfg) (perm_of E ii) (data s) = Inr (xb, yb, d')"
    using get_next_batch_exists [OF v bs(2)] by blast
  have bp: "ds_valid d' \<and> ds_xs d' = ds_xs (data s) \<and> length xb = training_batch_size cfg \<and>
            set xb \<subseteq> set (ds_xs (data s))"
    using get_next_batch_props [OF v pm b] by blast
  obtain xadv where p: "perturb (attack cfg) (grad_of (model E) (params s)) xb yb (noise_of E ii xb) = Inr xadv"
    and sh: "same_shape xb xadv"
    using perturb_returns [of "grad_of (model E) (params s)" "attack cfg" xb "noise_of E ii xb" yb] g n
    by blast
  have "xb \<noteq> []" using bp bs(1) by auto
  moreover have "[] \<notin> set xb" using bp ne by auto
  ultimately obtain md where "max_diff xadv xb = Inr md" using sh by (blast dest: max_diff_returns)
  moreover have "0 < training_time s + attack_time E ii" using tm(1,2) by simp
  ultimately obtain lg1 tt where
    o: "output_step E cfg ii (params s) xb xadv yb (log s) (training_time s + attack_time E ii) = Inr (lg1, tt)"
    and tt: "0 \<le> tt"
    using c(1) by (blast dest: output_step_returns)
  obtain lg2 where su: "summary_step E cfg ii (params s) (global_step s) xadv yb lg1 = Inr lg2"
    using c(2) by (blast dest: summary_step_returns)
  obtain s3 where ck: "checkpoint_step cfg ii (s\<lparr>data := d', log := lg2, training_time := tt\<rparr>) = Inr s3"
    using c(3) by (blast dest: checkpoint_step_returns)
  have "data s3 = d' \<and> training_time s3 = tt" using ck by (auto simp: checkpoint_step_Inr)
  moreover obtain s' where t: "train_step E cfg f ii xadv yb s3 = Inr s'" and "data s' = data s3"
    and "training_time s' = training_time s3 + train_time E ii"
    using train_step_returns [OF f] by blast
  ultimately show ?thesis
    using b p o su ck bp tt tm(3) by (auto simp: train_iteration_def)
qed

lemma train_loop_returns:
  assumes f: "\<forall>x. \<exists>r. f x = Inr r"
    and c: "num_output_steps cfg \<noteq> 0" "num_summary_steps cfg \<noteq> 0" "num_checkpoint_steps cfg \<noteq> 0"
    and v: "ds_valid (data s)" and pm: "\<And>ii. mset (perm_of E ii) = mset [0..<length (ds_xs (data s))]"
    and bs: "0 < training_batch_size cfg" "training_batch_size cfg \<le> length (ds_xs (data s))"
    and ne: "\<forall>e\<in>set (ds_xs (data s)). e \<noteq> []"
    and g: "\<And>p l u y. same_shape u (grad_of (model E) p l u y)"
    and n: "\<And>ii x. same_shape x (noise_of E ii x)"
    and tm: "0 \<le> training_time s" "\<And>ii. 0 < attack_time E ii" "\<And>ii. 0 \<le> train_time E ii"
  shows "\<exists>s'. train_loop E cfg f xs s = Inr s'"
  using v pm bs ne tm(1)
proof (induction xs arbitrary: s)
  case (Cons ii xs)
  obtain s1 where it: "train_iteration E cfg f ii s = Inr s1" and "ds_valid (data s1)"
    and "ds_xs (data s1) = ds_xs (data s)" and "0 \<le> training_time s1"
    using train_iteration_returns [OF f c Cons.prems(1) Cons.prems(2) Cons.prems(3,4,5) g n
        Cons.prems(6) tm(2,3)] by blast
  then obtain s' where "train_loop E cfg f xs s1 = Inr s'"
    using Cons.IH [of s1] Cons.prems by auto
  then show ?case using it by simp
qed simp

section \<open>Properties\<close>

text \<open>C10: a run that completes has advanced the \<open>int64\<close> global step exactly
  once per iteration: it ends at \<open>max_num_training_steps\<close>, modulo \<open>2^64\<close>.\<close>

theorem run_training_global_step:
  assumes "run_training E cfg (init_state p0 d st) = Inr s'"
  shows "global_step s' = of_nat (nat (max_num_training_steps cfg))"
  using assms
  by (auto simp: run_training_def bind_err_eq_Inr init_state_def dest!: train_loop_global_step)

theorem run_training_global_step_witness:
  "\<exists>s'. run_training example_env (example_cfg 1) (init_state 0 example_data Map.empty) = Inr s' \<and>
        global_step s' = 2"
proof -
  obtain s' where r: "run_training example_env (example_cfg 1) (init_state 0 example_data Map.empty) = Inr s'"
    by (simp add: run_eval_defs)
  have "global_step s' = of_nat (nat (max_num_training_steps (example_cfg 1)))"
    using r by (rule run_training_global_step)
  then show ?thesis using r by (auto simp: example_cfg_def)
qed

text \<open>C8: in a completed run of at most \<open>2^63\<close> iterations, the checkpoint
  saved at iteration \<open>i\<close> (a multiple of \<open>num_checkpoint_steps\<close>) holds exactly
  the parameters and the global step \<open>i\<close> that the run reached after its first
  \<open>i\<close> iterations, and the step read back from its name is \<open>i\<close>: resuming from
  it continues the same run, no later save overwrote it.\<close>

theorem run_training_checkpoint_resume:
  assumes run: "run_training E cfg s0 = Inr s'" and gs0: "global_step s0 = 0"
    and i: "i < nat (max_num_training_steps cfg)" and n: "nat (max_num_training_steps cfg) \<le> 2 ^ 63"
    and m: "int i mod num_checkpoint_steps cfg = 0"
  shows "\<exists>f si. schedule_fn (step_size_schedule cfg) = Inr f \<and>
           train_loop E cfg f [0..<i] s0 = Inr si \<and> global_step si = of_nat i \<and>
           saver_restore (ckpts s') (checkpoint_prefix (model_dir cfg) (int i)) =
             Some (params si, global_step si) \<and>
           step_of_prefix (checkpoint_prefix (model_dir cfg) (int i)) = Some i"
proof -
  let ?n = "nat (max_num_training_steps cfg)" and ?P = "checkpoint_prefix (model_dir cfg) (int i)"
  obtain f where f: "schedule_fn (step_size_schedule cfg) = Inr f"
    and lp: "train_loop E cfg f [0..<?n] s0 = Inr s'"
    using run by (auto simp: run_training_def bind_err_eq_Inr)
  have "[0..<?n] = [0..<i] @ [i..<?n]" using upt_add_eq_append [of 0 i "?n - i"] i by simp
  also have "[i..<?n] = i # [Suc i..<?n]" using i by (simp add: upt_conv_Cons)
  finally have "[0..<?n] = [0..<i] @ i # [Suc i..<?n]" .
  then obtain si s1 where lpi: "train_loop E cfg f [0..<i] s0 = Inr si"
    and it: "train_iteration E cfg f i si = Inr s1"
    and rest: "train_loop E cfg f [Suc i..<?n] s1 = Inr s'"
    using lp by (auto simp: train_loop_append_Inr bind_err_eq_Inr)
  have gsi: "global_step si = of_nat i" using train_loop_global_step [OF lpi] gs0 by simp
  then have "sint (global_step si) = int i" using i n by (simp add: sint_of_nat_small)
  then have s1P: "ckpts s1 ?P = Some (params si, global_step si)"
    using train_iteration_ckpts [OF it] m by (simp add: saver_save_def)
  have "global_step s1 = of_nat (Suc i)" using train_iteration_global_step [OF it] gsi by simp
  with rest n have "ckpts s' ?P = ckpts s1 ?P"
    by (intro train_loop_ckpt_frame) (auto simp: checkpoint_prefix_eq_iff)
  then show ?thesis
    using f lpi gsi s1P step_of_prefix_nonneg [of "int i"] by (simp add: saver_restore_def)
qed

theorem run_training_checkpoint_resume_witness:
  "\<exists>s'. run_training example_env (example_cfg 1) (init_state 0 example_data Map.empty) = Inr s' \<and>
     saver_restore (ckpts s') (checkpoint_prefix ''m'' 1) = Some (1, 1) \<and>
     step_of_prefix (checkpoint_prefix ''m'' 1) = Some 1"
proof -
  obtain s' where r: "run_training example_env (example_cfg 1) (init_state 0 example_data Map.empty) = Inr s'"
    by (simp add: run_eval_defs)
  have "\<exists>f si. schedule_fn (step_size_schedule (example_cfg 1)) = Inr f \<and>
     train_loop example_env (example_cfg 1) f [0..<1] (init_state 0 example_data Map.empty) = Inr si \<and>
     global_step si = of_nat 1 \<and>
     saver_restore (ckpts s') (checkpoint_prefix (model_dir (example_cfg 1)) (int 1)) =
       Some (params si, global_step si) \<and>
     step_of_prefix (checkpoint_prefix (model_dir (example_cfg 1)) (int 1)) = Some 1"
    by (rule run_training_checkpoint_resume [OF r]) (simp_all add: init_state_def example_cfg_def)
  then obtain f si where f: "schedule_fn (step_size_schedule (example_cfg 1)) = Inr f"
    and lp: "train_loop example_env (example_cfg 1) f [0..<1] (init_state 0 example_data Map.empty) = Inr si"
    and rs: "saver_restore (ckpts s') (checkpoint_prefix ''m'' 1) = Some (params si, global_step si)"
    and st: "step_of_prefix (checkpoint_prefix ''m'' 1) = Some 1" and g: "global_step si = 1"
    by (auto simp: example_cfg_def)
  have "schedule_fn (step_size_schedule (example_cfg 1)) =
      Inr (\<lambda>x. tf_case (pc_preds x [100] [1/10, 1/100]) (1/10))"
    by (simp add: example_cfg_def schedule_fn_def pc_build_def schedule_boundaries_def
        schedule_values_def py_int_def fits_int32_def)
  with f have "f = (\<lambda>x. tf_case (pc_preds x [100] [1/10, 1/100]) (1/10))" by simp
  with lp have "params si = 1" by (auto simp: run_eval_defs)
  then show ?thesis using r rs st g by auto
qed

text \<open>C26: the examples-per-second line printed at iteration \<open>i\<close> (a non-zero multiple
  of \<open>num_output_steps = k\<close>) divides \<open>k * batch_size\<close> by the time measured since
  the previous line: the \<open>k\<close> updates of iterations \<open>i-k..i-1\<close> and the \<open>k\<close> attacks
  of iterations \<open>i-k+1..i\<close>, except for the first line, at \<open>i = k\<close>, whose window
  also holds the attack of iteration 0, since \<open>training_time\<close> is reset only when a
  line is printed at \<open>ii \<noteq> 0\<close>.\<close>

theorem run_training_throughput:
  assumes run: "run_training E cfg (init_state p0 d st) = Inr s'"
    and k: "num_output_steps cfg = int k" "0 < k"
    and i: "i < nat (max_num_training_steps cfg)" "k \<le> i" "k dvd i"
  shows "\<exists>f si si1 new. schedule_fn (step_size_schedule cfg) = Inr f \<and>
    train_loop E cfg f [0..<i] (init_state p0 d st) = Inr si \<and>
    train_loop E cfg f [0..<Suc i] (init_state p0 d st) = Inr si1 \<and> log si1 = log si @ new \<and>
    Throughput i (real k * real (training_batch_size cfg) /
      ((\<Sum>j = i - k..<i. train_time E j) + (\<Sum>j = Suc (i - k)..<Suc i. attack_time E j) +
       (if i = k then attack_time E 0 else 0))) \<in> set new"
proof -
  let ?n = "nat (max_num_training_steps cfg)" and ?s0 = "init_state p0 d st"
  let ?W = "(\<Sum>j = i - k..<i. train_time E j) + (\<Sum>j = Suc (i - k)..<Suc i. attack_time E j) +
       (if i = k then attack_time E 0 else 0)"
  obtain f where f: "schedule_fn (step_size_schedule cfg) = Inr f"
    and lp: "train_loop E cfg f [0..<?n] ?s0 = Inr s'"
    using run by (auto simp: run_training_def bind_err_eq_Inr)
  have "[0..<?n] = [0..<i] @ [i] @ [Suc i..<?n]"
    using upt_add_eq_append [of 0 i "?n - i"] i(1) by (simp add: upt_conv_Cons)
  then obtain si s1 where lpi: "train_loop E cfg f [0..<i] ?s0 = Inr si"
    and it: "train_iteration E cfg f i si = Inr s1"
    using lp by (auto simp: train_loop_append_Inr bind_err_eq_Inr)
  have lp1: "train_loop E cfg f [0..<Suc i] ?s0 = Inr s1" using lpi it by (simp add: train_loop_append_Inr)
  have nz: "i \<noteq> 0" and m: "int i mod num_output_steps cfg = 0" using k i by (auto simp: int_mod_dvd)
  obtain new where n: "log s1 = log si @ new"
    and th: "Throughput i (real_of_int (num_output_steps cfg) * real (training_batch_size cfg) /
                   (training_time si + attack_time E i)) \<in> set new"
    using train_iteration_throughput [OF it nz m] by blast
  have "training_time si + attack_time E i = ?W"
  proof (cases "i = k")
    case True
    have "\<forall>j. 0 \<le> j \<longrightarrow> j < i \<longrightarrow> j = 0 \<or> int j mod num_output_steps cfg \<noteq> 0"
      using True k by (auto simp: int_mod_dvd dest: dvd_imp_le)
    then have "training_time si = (\<Sum>j = 0..<i. attack_time E j + train_time E j)"
      using train_loop_time [OF lpi] by (simp add: init_state_def)
    then show ?thesis using True window_sum_first [of "attack_time E" "train_time E" k] by simp
  next
    case False
    define r where "r = i - k"
    have r: "k dvd r" "0 < r" "r < i" "i = r + k"
      using False i(2,3) k(2) by (auto simp: r_def dvd_diff_nat elim!: dvdE)
    have "[0..<i] = [0..<r] @ [r] @ [Suc r..<i]"
      using upt_add_eq_append [of 0 r "i - r"] r(3) by (simp add: upt_conv_Cons)
    then obtain sr sr1 where itr: "train_iteration E cfg f r sr = Inr sr1"
      and lr: "train_loop E cfg f [Suc r..<i] sr1 = Inr si"
      using lpi by (auto simp: train_loop_append_Inr bind_err_eq_Inr)
    have "training_time sr1 = train_time E r"
      using train_iteration_time [OF itr] r(1,2) k(1) by (simp add: int_mod_dvd)
    moreover have "\<forall>j. Suc r \<le> j \<longrightarrow> j < i \<longrightarrow> j = 0 \<or> int j mod num_output_steps cfg \<noteq> 0"
      using r k(1) dvd_window [of k r] by (auto simp: int_mod_dvd)
    ultimately have "training_time si = train_time E r + (\<Sum>j = Suc r..<i. attack_time E j + train_time E j)"
      using train_loop_time [OF lr] by simp
    then show ?thesis
      using False window_sum_later [OF r(3), of "train_time E" "attack_time E"] by (simp add: r_def)
  qed
  then show ?thesis using f lpi lp1 n th k(1) by auto
qed

theorem run_training_throughput_witness:
  "\<exists>s' f si si1 new.
    run_training example_env (example_cfg 1) (init_state 0 example_data Map.empty) = Inr s' \<and>
    schedule_fn (step_size_schedule (example_cfg 1)) = Inr f \<and>
    train_loop example_env (example_cfg 1) f [0..<1] (init_state 0 example_data Map.empty) = Inr si \<and>
    train_loop example_env (example_cfg 1) f [0..<2] (init_state 0 example_data Map.empty) = Inr si1 \<and>
    log si1 = log si @ new \<and> Throughput 1 (1/3) \<in> set new"
proof -
  obtain s' where r: "run_training example_env (example_cfg 1) (init_state 0 example_data Map.empty) = Inr s'"
    by (simp add: run_eval_defs)
  have "\<exists>f si si1 new. schedule_fn (step_size_schedule (example_cfg 1)) = Inr f \<and>
    train_loop example_env (example_cfg 1) f [0..<1] (init_state 0 example_data Map.empty) = Inr si \<and>
    train_loop example_env (example_cfg 1) f [0..<Suc 1] (init_state 0 example_data Map.empty) = Inr si1 \<and>
    log si1 = log si @ new \<and>
    Throughput 1 (real 1 * real (training_batch_size (example_cfg 1)) /
      ((\<Sum>j = 1 - 1..<1. train_time example_env j) + (\<Sum>j = Suc (1 - 1)..<Suc 1. attack_time example_env j) +
       (if (1::nat) = 1 then attack_time example_env 0 else 0))) \<in> set new"
    by (rule run_training_throughput [OF r]) (simp_all add: example_cfg_def)
  then show ?thesis using r by (simp add: example_cfg_def example_env_def numeral_2_eq_2)
qed

text \<open>C11: a completed run of at most \<open>2^63\<close> iterations from a fresh session has
  written exactly one checkpoint per iteration \<open>i\<close> that is a multiple of
  \<open>num_checkpoint_steps\<close>, under the name of step \<open>i\<close>, besides those already in the
  directory: with \<open>max_to_keep=None\<close> none is lost.\<close>

theorem run_training_checkpoints:
  assumes "run_training E cfg (init_state p0 d st) = Inr s'"
    and "nat (max_num_training_steps cfg) \<le> 2 ^ 63"
  shows "dom (ckpts s') = dom st \<union>
    {checkpoint_prefix (model_dir cfg) (int i) | i.
       i < nat (max_num_training_steps cfg) \<and> int i mod num_checkpoint_steps cfg = 0}"
proof -
  obtain f where "train_loop E cfg f [0..<nat (max_num_training_steps cfg)] (init_state p0 d st) = Inr s'"
    using assms(1) by (auto simp: run_training_def bind_err_eq_Inr)
  from train_loop_ckpt_dom [OF this _ assms(2)] show ?thesis by (simp add: init_state_def)
qed

theorem run_training_checkpoints_witness:
  "\<exists>s'. run_training example_env (example_cfg 1) (init_state 0 example_data Map.empty) = Inr s' \<and>
     dom (ckpts s') = {checkpoint_prefix ''m'' 0, checkpoint_prefix ''m'' 1}"
proof -
  obtain s' where r: "run_training example_env (example_cfg 1) (init_state 0 example_data Map.empty) = Inr s'"
    by (simp add: run_eval_defs)
  have "dom (ckpts s') = {checkpoint_prefix ''m'' (int i) | i. i < 2}"
    using run_training_checkpoints [OF r] by (simp add: example_cfg_def)
  also have "\<dots> = {checkpoint_prefix ''m'' 0, checkpoint_prefix ''m'' 1}"
    by (auto simp: less_2_cases_iff intro: exI [of _ 0] exI [of _ 1])
  finally have "dom (ckpts s') = {checkpoint_prefix ''m'' 0, checkpoint_prefix ''m'' 1}" .
  then show ?thesis using r by blast
qed
end
