(* ===== verification/OutputDir.thy ===== *)
theory OutputDir
  imports Prelude "HOL-Library.AList"
begin

text \<open>
  The output directory of \<open>train_robust.py\<close>: lines 76--77,
  \<open>if not os.path.exists(model_dir): os.makedirs(model_dir)\<close>, and line 93,
  \<open>shutil.copy('config.json', model_dir)\<close>, on a model of the file system in the
  style of the Unix file-system theory of the Isabelle distribution. A path is the
  list of its components; the file system maps paths to directories and to regular
  files with their contents. \<open>os.makedirs\<close>, \<open>os.mkdir\<close> and \<open>shutil.copy\<close> are
  modelled as CPython implements them (\<open>os.py\<close>, \<open>shutil.py\<close>), with the errors of
  the system calls underneath: a path is resolved from the root component by
  component, a missing component raising \<open>FileNotFoundError\<close> and a regular file
  \<open>NotADirectoryError\<close>. Links, permissions, \<open>..\<close> and other processes acting on
  the same directories are not modelled.
\<close>

section \<open>Paths and the file system\<close>

datatype fnode = FDir | FFile string

type_synonym path = "string list"
type_synonym fsys = "(path \<times> fnode) list"

text \<open>A path string is read as its components between \<open>/\<close>; an empty component
  (from \<open>//\<close> or a trailing \<open>/\<close>) and \<open>.\<close> name no directory of their own. The
  root of the model is the working directory the script runs in; a leading \<open>/\<close> is
  not distinguished.\<close>

fun split_slash :: "string \<Rightarrow> string list" where
  "split_slash [] = [[]]"
| "split_slash (c # cs) =
     (let r = split_slash cs in if c = CHR ''/'' then [] # r else (c # hd r) # tl r)"

definition path_of :: "string \<Rightarrow> path" where
  "path_of s = filter (\<lambda>c. c \<noteq> [] \<and> c \<noteq> ''.'') (split_slash s)"

definition fs_get :: "fsys \<Rightarrow> path \<Rightarrow> fnode option" where
  "fs_get fs p = map_of fs p"

definition fs_put :: "path \<Rightarrow> fnode \<Rightarrow> fsys \<Rightarrow> fsys" where
  "fs_put p n fs = AList.update p n fs"

text \<open>The invariant of a file system: the root is a directory, and so is the
  parent of every other entry.\<close>

definition fs_wf :: "fsys \<Rightarrow> bool" where
  "fs_wf fs \<longleftrightarrow> fs_get fs [] = Some FDir \<and>
     list_all (\<lambda>p. p = [] \<or> fs_get fs (butlast p) = Some FDir) (map fst fs)"

definition os_path_exists :: "fsys \<Rightarrow> path \<Rightarrow> bool" where
  "os_path_exists fs p \<longleftrightarrow> fs_get fs p \<noteq> None"

definition os_path_isdir :: "fsys \<Rightarrow> path \<Rightarrow> bool" where
  "os_path_isdir fs p \<longleftrightarrow> fs_get fs p = Some FDir"

text \<open>Resolving the directory \<open>q\<close>: every component from the root down must be a
  directory; the first that is missing raises \<open>ENOENT\<close>, the first that is a
  regular file \<open>ENOTDIR\<close>.\<close>

definition path_walk :: "fsys \<Rightarrow> path \<Rightarrow> error + unit" where
  "path_walk fs q =
     (case find (\<lambda>i. fs_get fs (take i q) \<noteq> Some FDir) [0..<Suc (length q)] of
        None \<Rightarrow> Inr ()
      | Some i \<Rightarrow> (case fs_get fs (take i q) of
                     Some (FFile c) \<Rightarrow> Inl NotADirectoryError
                   | _ \<Rightarrow> Inl FileNotFoundError))"

section \<open>\<open>os.mkdir\<close> and \<open>os.makedirs\<close>\<close>

text \<open>\<open>mkdir(2)\<close>: the parent is resolved, then an existing entry raises
  \<open>EEXIST\<close>.\<close>

definition os_mkdir :: "path \<Rightarrow> (fsys, unit) io" where
  "os_mkdir p =
     (\<lambda>fs. case path_walk fs (butlast p) of
             Inl e \<Rightarrow> (fs, Inl e)
           | Inr u \<Rightarrow> if os_path_exists fs p then (fs, Inl FileExistsError)
                     else (fs_put p FDir fs, Inr ()))"

text \<open>\<open>os.makedirs(name)\<close> with \<open>exist_ok=False\<close>: when the head of the path is
  not there, it is made first (a \<open>FileExistsError\<close> from that call is ignored),
  then the path itself is made with \<open>os.mkdir\<close>, whose error is raised.\<close>

function os_makedirs :: "path \<Rightarrow> (fsys, unit) io" where
  "os_makedirs p =
     io_bind (\<lambda>fs. if butlast p \<noteq> [] \<and> \<not> os_path_exists fs (butlast p)
                   then io_catch FileExistsError (os_makedirs (butlast p)) fs
                   else (fs, Inr ()))
       (\<lambda>u. os_mkdir p)"
  by pat_completeness auto

termination
  by (relation "measure length") (auto simp: butlast_conv_take)

text \<open>Lines 76--77.\<close>

definition ensure_dir :: "path \<Rightarrow> (fsys, unit) io" where
  "ensure_dir p = (\<lambda>fs. if os_path_exists fs p then (fs, Inr ()) else os_makedirs p fs)"

section \<open>\<open>shutil.copy\<close>\<close>

text \<open>\<open>open(p, 'rb')\<close> and the contents it reads; Python refuses a directory.\<close>

definition open_read :: "fsys \<Rightarrow> path \<Rightarrow> error + string" where
  "open_read fs p =
     bind_err (path_walk fs (butlast p)) (\<lambda>u.
       case fs_get fs p of
         None \<Rightarrow> Inl FileNotFoundError
       | Some FDir \<Rightarrow> Inl IsADirectoryError
       | Some (FFile c) \<Rightarrow> Inr c)"

text \<open>\<open>open(p, 'wb')\<close> and writing \<open>c\<close>: a regular file is created or truncated.\<close>

definition open_write :: "path \<Rightarrow> string \<Rightarrow> (fsys, unit) io" where
  "open_write p c =
     (\<lambda>fs. case path_walk fs (butlast p) of
             Inl e \<Rightarrow> (fs, Inl e)
           | Inr u \<Rightarrow> if fs_get fs p = Some FDir then (fs, Inl IsADirectoryError)
                     else (fs_put p (FFile c) fs, Inr ()))"

text \<open>\<open>shutil.copy(src, dst)\<close>: into \<open>dst/basename(src)\<close> when \<open>dst\<close> is a
  directory; then \<open>copyfile\<close>: \<open>SameFileError\<close> when both name one existing file,
  else the source is opened for reading and the destination for writing. The
  permission bits \<open>copymode\<close> copies are not modelled.\<close>

definition shutil_copy :: "path \<Rightarrow> path \<Rightarrow> (fsys, unit) io" where
  "shutil_copy src dst0 =
     (\<lambda>fs. let dst = (if os_path_isdir fs dst0 then dst0 @ [last src] else dst0) in
       if os_path_exists fs src \<and> dst = src then (fs, Inl SameFileError)
       else case open_read fs src of
              Inl e \<Rightarrow> (fs, Inl e)
            | Inr c \<Rightarrow> open_write dst c fs)"

text \<open>The path the copy of line 93 reads.\<close>

definition config_path :: path where
  "config_path = path_of ''config.json''"

text \<open>A working directory holding \<open>config.json\<close>, a directory \<open>models\<close> and a
  regular file \<open>notes\<close>.\<close>

definition example_fs :: fsys where
  "example_fs = [([], FDir), ([''config.json''], FFile ''{}''), ([''models''], FDir), ([''notes''], FFile ''x'')]"

section \<open>Lemmas\<close>

lemma fs_get_put [simp]: "fs_get (fs_put p n fs) q = (if q = p then Some n else fs_get fs q)"
  by (simp add: fs_get_def fs_put_def update_conv')

lemma list_all_keys: "list_all P (map fst fs) \<longleftrightarrow> (\<forall>p. fs_get fs p \<noteq> None \<longrightarrow> P p)"
  by (fastforce simp: list_all_iff fs_get_def dest: weak_map_of_SomeI map_of_SomeD)

lemma fs_wf_iff:
  "fs_wf fs \<longleftrightarrow> fs_get fs [] = Some FDir \<and>
     (\<forall>p. fs_get fs p \<noteq> None \<longrightarrow> p \<noteq> [] \<longrightarrow> fs_get fs (butlast p) = Some FDir)"
  by (auto simp: fs_wf_def list_all_keys)

lemma fs_wf_parent: "fs_wf fs \<Longrightarrow> fs_get fs p = Some n \<Longrightarrow> p \<noteq> [] \<Longrightarrow> fs_get fs (butlast p) = Some FDir"
  by (simp add: fs_wf_iff)

text \<open>Every proper ancestor of an entry is a directory.\<close>

lemma fs_wf_ancestors:
  assumes "fs_wf fs" "fs_get fs p \<noteq> None" "i < length p"
  shows "fs_get fs (take i p) = Some FDir"
  using assms(2,3)
proof (induction p arbitrary: i rule: rev_induct)
  case (snoc x xs)
  have xs: "fs_get fs xs = Some FDir"
    using fs_wf_parent [OF assms(1)] snoc.prems(1) by fastforce
  show ?case
  proof (cases "i < length xs")
    case True
    then show ?thesis using snoc.IH xs by simp
  next
    case False
    then have "i = length xs" using snoc.prems(2) by simp
    then show ?thesis using xs by simp
  qed
qed simp

lemma path_walk_dirs:
  assumes "\<And>i. i \<le> length q \<Longrightarrow> fs_get fs (take i q) = Some FDir"
  shows "path_walk fs q = Inr ()"
proof -
  have "find (\<lambda>i. fs_get fs (take i q) \<noteq> Some FDir) [0..<Suc (length q)] = None"
    using assms by (auto simp: find_None_iff less_Suc_eq_le simp del: upt_Suc)
  then show ?thesis by (simp add: path_walk_def del: upt_Suc)
qed

lemma path_walk_Inr:
  assumes "path_walk fs q = Inr u" "i \<le> length q"
  shows "fs_get fs (take i q) = Some FDir"
proof (rule ccontr)
  assume "fs_get fs (take i q) \<noteq> Some FDir"
  then have "find (\<lambda>i. fs_get fs (take i q) \<noteq> Some FDir) [0..<Suc (length q)] \<noteq> None"
    using assms(2) by (auto simp: find_None_iff less_Suc_eq_le simp del: upt_Suc)
  then show False using assms(1) by (auto simp: path_walk_def split: option.splits fnode.splits simp del: upt_Suc)
qed

text \<open>A directory resolves when it exists.\<close>

lemma path_walk_isdir:
  assumes "fs_wf fs" "fs_get fs q = Some FDir"
  shows "path_walk fs q = Inr ()"
proof (rule path_walk_dirs)
  fix i assume "i \<le> length q"
  then show "fs_get fs (take i q) = Some FDir"
    using fs_wf_ancestors [OF assms(1)] assms(2) by (cases "i = length q") auto
qed


declare os_makedirs.simps [simp del]

lemma path_walk_parent:
  "fs_wf fs \<Longrightarrow> fs_get fs p = Some n \<Longrightarrow> p \<noteq> [] \<Longrightarrow> path_walk fs (butlast p) = Inr ()"
  by (rule path_walk_isdir) (auto dest: fs_wf_parent)

text \<open>Adding an entry under a directory keeps the invariant, unless it turns a
  directory into a regular file.\<close>

lemma fs_wf_put:
  assumes "fs_wf fs" "p \<noteq> []" "fs_get fs (butlast p) = Some FDir" "n = FDir \<or> fs_get fs p \<noteq> Some FDir"
  shows "fs_wf (fs_put p n fs)"
  unfolding fs_wf_iff
proof (intro conjI allI impI)
  show "fs_get (fs_put p n fs) [] = Some FDir" using assms(1,2) by (simp add: fs_wf_iff)
  fix q assume q: "fs_get (fs_put p n fs) q \<noteq> None" "q \<noteq> []"
  show "fs_get (fs_put p n fs) (butlast q) = Some FDir"
  proof (cases "q = p")
    case True
    have "butlast p \<noteq> p" using assms(2) by (metis append_butlast_last_id append_self_conv not_Cons_self2)
    then show ?thesis using True assms(3) by simp
  next
    case False
    then have "fs_get fs (butlast q) = Some FDir" using q assms(1) by (auto simp: fs_wf_iff)
    then show ?thesis using assms(4) by auto
  qed
qed

lemma path_walk_Inr_dir: "path_walk fs q = Inr u \<Longrightarrow> fs_get fs q = Some FDir"
  using path_walk_Inr [of fs q u "length q"] by simp





lemma open_write_wf: "io_inv fs_wf (open_write p c)"
  unfolding io_inv_def
proof (intro allI impI)
  fix fs assume w: "fs_wf fs"
  show "fs_wf (fst (open_write p c fs))"
  proof (cases "path_walk fs (butlast p)")
    case (Inr u)
    then have d: "fs_get fs (butlast p) = Some FDir" by (rule path_walk_Inr_dir)
    show ?thesis
    proof (cases "fs_get fs p = Some FDir")
      case False
      then have "p \<noteq> []" using w by (auto simp: fs_wf_iff)
      then show ?thesis using Inr False w d by (simp add: open_write_def fs_wf_put)
    qed (simp add: open_write_def Inr w)
  qed (simp add: open_write_def w)
qed

lemma shutil_copy_wf: "io_inv fs_wf (shutil_copy src dst)"
  using open_write_wf by (auto simp: io_inv_def shutil_copy_def Let_def split: sum.splits)



text \<open>The proper prefixes of \<open>xs @ [x]\<close> are those of \<open>xs\<close>, and no prefix of
  \<open>xs\<close> is \<open>xs @ [x]\<close>.\<close>

lemma take_snoc_le: "i \<le> length xs \<Longrightarrow> take i (xs @ [x]) = take i xs"
  by simp

lemma take_ne_snoc: "take i xs \<noteq> xs @ [x]"
proof
  assume "take i xs = xs @ [x]"
  then have "length (take i xs) = Suc (length xs)" by simp
  then show False by simp
qed

lemma os_makedirs_creates:
  assumes "fs_wf fs" "\<not> os_path_exists fs p"
    and "\<forall>i < length p. \<forall>c. fs_get fs (take i p) \<noteq> Some (FFile c)"
  shows "\<exists>fs'. os_makedirs p fs = (fs', Inr ()) \<and> fs_wf fs' \<and>
           (\<forall>i \<le> length p. fs_get fs' (take i p) = Some FDir) \<and>
           (\<forall>q. (\<forall>i \<le> length p. q \<noteq> take i p) \<longrightarrow> fs_get fs' q = fs_get fs q)"
  using assms
proof (induction p arbitrary: fs rule: rev_induct)
  case Nil
  then show ?case by (simp add: fs_wf_iff os_path_exists_def)
next
  case (snoc x xs)
  let ?p = "xs @ [x]"
  let ?c = "\<lambda>fs. xs \<noteq> [] \<and> \<not> os_path_exists fs xs"
  let ?h = "\<lambda>fs. if ?c fs then io_catch FileExistsError (os_makedirs xs) fs else (fs, Inr ())"
  have nf: "\<forall>c. fs_get fs (take i xs) \<noteq> Some (FFile c)" if "i \<le> length xs" for i
    using snoc.prems(3) [rule_format, of i] that by simp
  obtain fs1 where h: "?h fs = (fs1, Inr ())" and w1: "fs_wf fs1"
    and pre1: "\<forall>i \<le> length xs. fs_get fs1 (take i xs) = Some FDir"
    and fr1: "\<forall>q. (\<forall>i \<le> length xs. q \<noteq> take i xs) \<longrightarrow> fs_get fs1 q = fs_get fs q"
  proof (cases "?c fs")
    case True
    have "\<forall>i < length xs. \<forall>c. fs_get fs (take i xs) \<noteq> Some (FFile c)" using nf by simp
    then obtain fs1 where "os_makedirs xs fs = (fs1, Inr ())" "fs_wf fs1"
      "\<forall>i \<le> length xs. fs_get fs1 (take i xs) = Some FDir"
      "\<forall>q. (\<forall>i \<le> length xs. q \<noteq> take i xs) \<longrightarrow> fs_get fs1 q = fs_get fs q"
      using snoc.IH [OF snoc.prems(1)] True by auto
    then show ?thesis using True by (intro that) (auto simp: io_catch_def)
  next
    case False
    have d: "fs_get fs xs = Some FDir"
    proof (cases "xs = []")
      case True
      then show ?thesis using snoc.prems(1) by (simp add: fs_wf_iff)
    next
      case ne: False
      then obtain n where n: "fs_get fs xs = Some n" using False by (auto simp: os_path_exists_def)
      then show ?thesis using nf [of "length xs"] by (cases n) auto
    qed
    have anc: "\<forall>i \<le> length xs. fs_get fs (take i xs) = Some FDir"
    proof (intro allI impI)
      fix i assume "i \<le> length xs"
      then consider "i < length xs" | "i = length xs" by fastforce
      then show "fs_get fs (take i xs) = Some FDir"
        by cases (use fs_wf_ancestors [OF snoc.prems(1)] d in auto)
    qed
    have "?h fs = (fs, Inr ())" using False by (simp only: if_not_P) simp
    then show ?thesis using snoc.prems(1) anc by (rule that) simp
  qed
  have d1: "fs_get fs1 xs = Some FDir" using pre1 [rule_format, of "length xs"] by simp
  have "\<forall>i \<le> length xs. ?p \<noteq> take i xs" using take_ne_snoc by metis
  then have "fs_get fs1 ?p = fs_get fs ?p" using fr1 by blast
  then have ne: "\<not> os_path_exists fs1 ?p" using snoc.prems(2) by (simp add: os_path_exists_def)
  have "os_makedirs ?p = io_bind ?h (\<lambda>u. os_mkdir ?p)"
    by (subst os_makedirs.simps) (simp only: butlast_snoc)
  then have "os_makedirs ?p fs = io_bind ?h (\<lambda>u. os_mkdir ?p) fs" by simp
  also have "\<dots> = os_mkdir ?p fs1" by (rule io_bind_Inr) (fact h)
  also have "\<dots> = (fs_put ?p FDir fs1, Inr ())"
    using path_walk_isdir [OF w1 d1] ne by (simp add: os_mkdir_def)
  finally have mk: "os_makedirs ?p fs = (fs_put ?p FDir fs1, Inr ())" .
  have "fs_wf (fs_put ?p FDir fs1)" using w1 d1 by (intro fs_wf_put) auto
  moreover have "\<forall>i \<le> length ?p. fs_get (fs_put ?p FDir fs1) (take i ?p) = Some FDir"
  proof (intro allI impI)
    fix i assume "i \<le> length ?p"
    then consider "i \<le> length xs" | "i = length ?p" by fastforce
    then show "fs_get (fs_put ?p FDir fs1) (take i ?p) = Some FDir"
      by cases (use pre1 take_ne_snoc in auto)
  qed
  moreover have "\<forall>q. (\<forall>i \<le> length ?p. q \<noteq> take i ?p) \<longrightarrow> fs_get (fs_put ?p FDir fs1) q = fs_get fs q"
  proof (intro allI impI)
    fix q assume q: "\<forall>i \<le> length ?p. q \<noteq> take i ?p"
    have "q \<noteq> ?p" using q [rule_format, of "length ?p"] by simp
    moreover have "\<forall>i \<le> length xs. q \<noteq> take i xs"
    proof (intro allI impI)
      fix i assume "i \<le> length xs"
      then show "q \<noteq> take i xs" using q [rule_format, of i] by simp
    qed
    ultimately show "fs_get (fs_put ?p FDir fs1) q = fs_get fs q" using fr1 by simp
  qed
  ultimately show ?case using mk by blast
qed


lemma find_upt_first:
  assumes "j < n" "P j" "\<And>i. i < j \<Longrightarrow> \<not> P i"
  shows "find P [0..<n] = Some j"
  using assms by (auto simp: find_Some_iff intro!: exI [of _ j])

text \<open>Resolving a path through a regular file fails with \<open>NotADirectoryError\<close>.\<close>

lemma path_walk_file:
  assumes "fs_wf fs" "j \<le> length q" "fs_get fs (take j q) = Some (FFile c)"
  shows "path_walk fs q = Inl NotADirectoryError"
proof -
  have "fs_get fs (take i q) = Some FDir" if "i < j" for i
    using fs_wf_ancestors [OF assms(1), of "take j q" i] assms(2,3) that by (simp add: min_def)
  then have "find (\<lambda>i. fs_get fs (take i q) \<noteq> Some FDir) [0..<Suc (length q)] = Some j"
    using assms(2,3) by (intro find_upt_first) auto
  then show ?thesis using assms(3) by (simp add: path_walk_def del: upt_Suc)
qed

lemma os_makedirs_notdir:
  assumes "fs_wf fs" "i < length p" "fs_get fs (take i p) = Some (FFile c)"
  shows "os_makedirs p fs = (fs, Inl NotADirectoryError)"
  using assms(2,3)
proof (induction p arbitrary: i rule: rev_induct)
  case Nil
  then show ?case by simp
next
  case (snoc x xs)
  let ?p = "xs @ [x]"
  let ?h = "\<lambda>fs. if xs \<noteq> [] \<and> \<not> os_path_exists fs xs then io_catch FileExistsError (os_makedirs xs) fs else (fs, Inr ())"
  have eq: "os_makedirs ?p fs = io_bind ?h (\<lambda>u. os_mkdir ?p) fs"
    by (subst os_makedirs.simps) (simp only: butlast_snoc)
  have f: "fs_get fs (take i xs) = Some (FFile c)" "i \<le> length xs" using snoc.prems by simp_all
  show ?case
  proof (cases "i = length xs")
    case True
    then have xs: "fs_get fs xs = Some (FFile c)" using f by simp
    then have "xs \<noteq> []" using assms(1) by (auto simp: fs_wf_iff)
    then have h: "?h fs = (fs, Inr ())" using xs by (simp add: os_path_exists_def)
    have "io_bind ?h (\<lambda>u. os_mkdir ?p) fs = os_mkdir ?p fs" by (rule io_bind_Inr) (fact h)
    then have "os_makedirs ?p fs = os_mkdir ?p fs" using eq by simp
    then show ?thesis using path_walk_file [OF assms(1) f(2)] True xs by (simp add: os_mkdir_def)
  next
    case False
    then have lt: "i < length xs" using f(2) by simp
    have "\<not> os_path_exists fs xs"
    proof
      assume "os_path_exists fs xs"
      then have "fs_get fs (take i xs) = Some FDir"
        using fs_wf_ancestors [OF assms(1) _ lt] by (simp add: os_path_exists_def)
      then show False using f(1) by simp
    qed
    moreover have "xs \<noteq> []" using lt by auto
    moreover have "os_makedirs xs fs = (fs, Inl NotADirectoryError)" using snoc.IH [OF lt f(1)] .
    ultimately have h: "?h fs = (fs, Inl NotADirectoryError)" by (simp add: io_catch_def)
    have "io_bind ?h (\<lambda>u. os_mkdir ?p) fs = (fs, Inl NotADirectoryError)" by (rule io_bind_Inl) (fact h)
    then show ?thesis using eq by simp
  qed
qed

lemma shutil_copy_into_dir:
  assumes "fs_wf fs" "os_path_isdir fs d" "fs_get fs src = Some (FFile c)" "src \<noteq> []"
    and "fs_get fs (d @ [last src]) \<noteq> Some FDir" "d @ [last src] \<noteq> src"
  shows "shutil_copy src d fs = (fs_put (d @ [last src]) (FFile c) fs, Inr ())"
proof -
  have "open_read fs src = Inr c"
    using path_walk_parent [OF assms(1,3,4)] assms(3) by (simp add: open_read_def)
  moreover have "path_walk fs d = Inr ()" using path_walk_isdir assms(1,2) by (simp add: os_path_isdir_def)
  ultimately show ?thesis using assms(2,5,6) by (simp add: shutil_copy_def open_write_def Let_def)
qed


text \<open>Lines 76--77 when no component of the path is a regular file.\<close>

lemma ensure_dir_creates:
  assumes "fs_wf fs" "\<forall>i \<le> length p. \<forall>c. fs_get fs (take i p) \<noteq> Some (FFile c)"
  shows "\<exists>fs'. ensure_dir p fs = (fs', Inr ()) \<and> fs_wf fs' \<and>
           (\<forall>i \<le> length p. fs_get fs' (take i p) = Some FDir) \<and>
           (\<forall>q. (\<forall>i \<le> length p. q \<noteq> take i p) \<longrightarrow> fs_get fs' q = fs_get fs q)"
proof (cases "os_path_exists fs p")
  case True
  then obtain n where n: "fs_get fs p = Some n" by (auto simp: os_path_exists_def)
  then have d: "fs_get fs p = Some FDir" using assms(2) [rule_format, of "length p"] by (cases n) auto
  have "\<forall>i \<le> length p. fs_get fs (take i p) = Some FDir"
  proof (intro allI impI)
    fix i assume "i \<le> length p"
    then consider "i < length p" | "i = length p" by fastforce
    then show "fs_get fs (take i p) = Some FDir"
      by cases (use fs_wf_ancestors [OF assms(1)] d in auto)
  qed
  then show ?thesis using True assms(1) by (simp add: ensure_dir_def)
next
  case False
  then show ?thesis using os_makedirs_creates [OF assms(1) False] assms(2) by (simp add: ensure_dir_def)
qed

lemma config_path_eq: "config_path = [''config.json'']"
  by (simp add: config_path_def path_of_def)

text \<open>Lines 76--77 followed by line 93, when the configuration file is there and
  no component of the output directory is a regular file.\<close>

lemma ensure_dir_copy:
  assumes "fs_wf fs" "fs_get fs config_path = Some (FFile c)" "p \<noteq> []"
    and "\<forall>i \<le> length p. \<forall>c. fs_get fs (take i p) \<noteq> Some (FFile c)"
    and "fs_get fs (p @ [''config.json'']) \<noteq> Some FDir"
  shows "\<exists>fs'. io_bind (ensure_dir p) (\<lambda>u. shutil_copy config_path p) fs = (fs', Inr ()) \<and> fs_wf fs' \<and>
           os_path_isdir fs' p \<and> fs_get fs' (p @ [''config.json'']) = Some (FFile c) \<and>
           (\<forall>q. (\<forall>i \<le> length p. q \<noteq> take i p) \<and> q \<noteq> p @ [''config.json''] \<longrightarrow> fs_get fs' q = fs_get fs q)"
proof -
  obtain fs1 where e: "ensure_dir p fs = (fs1, Inr ())" and w1: "fs_wf fs1"
    and d1: "\<forall>i \<le> length p. fs_get fs1 (take i p) = Some FDir"
    and fr1: "\<forall>q. (\<forall>i \<le> length p. q \<noteq> take i p) \<longrightarrow> fs_get fs1 q = fs_get fs q"
    using ensure_dir_creates [OF assms(1,4)] by blast
  have dp: "os_path_isdir fs1 p" using d1 [rule_format, of "length p"] by (simp add: os_path_isdir_def)
  have np: "\<forall>i \<le> length p. p @ [''config.json''] \<noteq> take i p" by (metis take_ne_snoc)
  have nc: "\<forall>i \<le> length p. [''config.json''] \<noteq> take i p"
  proof (intro allI impI notI)
    fix i assume "i \<le> length p" "[''config.json''] = take i p"
    then have "fs_get fs (take i p) = Some (FFile c)" using assms(2) by (simp add: config_path_eq)
    then show False using assms(4) \<open>i \<le> length p\<close> by blast
  qed
  have src: "fs_get fs1 [''config.json''] = Some (FFile c)" using fr1 nc assms(2) by (simp add: config_path_eq)
  have tgt: "fs_get fs1 (p @ [''config.json'']) \<noteq> Some FDir" using fr1 np assms(5) by simp
  have ne: "p @ [''config.json''] \<noteq> [''config.json'']" using assms(3) by simp
  have c: "shutil_copy config_path p fs1 = (fs_put (p @ [''config.json'']) (FFile c) fs1, Inr ())"
    using shutil_copy_into_dir [OF w1 dp src _ _ ] tgt ne by (simp add: config_path_eq)
  have "io_bind (ensure_dir p) (\<lambda>u. shutil_copy config_path p) fs = (fs_put (p @ [''config.json'']) (FFile c) fs1, Inr ())"
    using io_bind_Inr [where m = "ensure_dir p" and s = fs and f = "\<lambda>u. shutil_copy config_path p", OF e] c by simp
  moreover have "fs_wf (fs_put (p @ [''config.json'']) (FFile c) fs1)"
    using io_invD [OF shutil_copy_wf w1 c] .
  moreover have "os_path_isdir (fs_put (p @ [''config.json'']) (FFile c) fs1) p" using dp by (simp add: os_path_isdir_def)
  ultimately show ?thesis using fr1 by auto
qed


section \<open>Properties\<close>

text \<open>C17: lines 76--77 on a well-formed file system: when no component of the
  output directory's path is a regular file, afterwards the path and all its
  ancestors are directories and nothing else has changed; when a proper ancestor
  is a regular file, \<open>os.makedirs\<close> raises \<open>NotADirectoryError\<close> and nothing has
  changed; when the path itself is a regular file, the check of line 76 passes
  and nothing happens.\<close>

theorem ensure_dir_spec:
  assumes "fs_wf fs"
  shows "((\<forall>i \<le> length p. \<forall>c. fs_get fs (take i p) \<noteq> Some (FFile c)) \<longrightarrow>
           (\<exists>fs'. ensure_dir p fs = (fs', Inr ()) \<and> fs_wf fs' \<and>
              (\<forall>i \<le> length p. fs_get fs' (take i p) = Some FDir) \<and>
              (\<forall>q. (\<forall>i \<le> length p. q \<noteq> take i p) \<longrightarrow> fs_get fs' q = fs_get fs q))) \<and>
         (\<forall>i < length p. \<forall>c. fs_get fs (take i p) = Some (FFile c) \<longrightarrow>
           ensure_dir p fs = (fs, Inl NotADirectoryError)) \<and>
         (\<forall>c. fs_get fs p = Some (FFile c) \<longrightarrow> ensure_dir p fs = (fs, Inr ()))"
proof (intro conjI allI impI)
  assume "\<forall>i \<le> length p. \<forall>c. fs_get fs (take i p) \<noteq> Some (FFile c)"
  then show "\<exists>fs'. ensure_dir p fs = (fs', Inr ()) \<and> fs_wf fs' \<and>
              (\<forall>i \<le> length p. fs_get fs' (take i p) = Some FDir) \<and>
              (\<forall>q. (\<forall>i \<le> length p. q \<noteq> take i p) \<longrightarrow> fs_get fs' q = fs_get fs q)"
    by (rule ensure_dir_creates [OF assms])
next
  fix i c assume i: "i < length p" and f: "fs_get fs (take i p) = Some (FFile c)"
  have "\<not> os_path_exists fs p"
  proof
    assume "os_path_exists fs p"
    then have "fs_get fs (take i p) = Some FDir"
      using fs_wf_ancestors [OF assms _ i] by (simp add: os_path_exists_def)
    then show False using f by simp
  qed
  then show "ensure_dir p fs = (fs, Inl NotADirectoryError)"
    using os_makedirs_notdir [OF assms i f] by (simp add: ensure_dir_def)
next
  fix c assume "fs_get fs p = Some (FFile c)"
  then show "ensure_dir p fs = (fs, Inr ())" by (simp add: ensure_dir_def os_path_exists_def)
qed

theorem ensure_dir_spec_witness:
  "(\<exists>fs'. ensure_dir [''models'', ''r''] example_fs = (fs', Inr ()) \<and> os_path_isdir fs' [''models'', ''r'']) \<and>
   ensure_dir [''notes'', ''r''] example_fs = (example_fs, Inl NotADirectoryError) \<and>
   ensure_dir [''notes''] example_fs = (example_fs, Inr ())"
proof -
  have w: "fs_wf example_fs" by (simp add: fs_wf_def fs_get_def example_fs_def)
  note s1 = ensure_dir_spec [OF w, of "[''models'', ''r'']"]
  note s2 = ensure_dir_spec [OF w, of "[''notes'', ''r'']"]
  note s3 = ensure_dir_spec [OF w, of "[''notes'']"]
  have h1: "\<forall>i \<le> length [''models'', ''r'']. \<forall>c. fs_get example_fs (take i [''models'', ''r'']) \<noteq> Some (FFile c)"
  proof (intro allI impI)
    fix i c assume "i \<le> length [''models'', ''r'']"
    then consider "i = 0" | "i = 1" | "i = 2" by fastforce
    then show "fs_get example_fs (take i [''models'', ''r'']) \<noteq> Some (FFile c)"
      by cases (simp_all add: example_fs_def fs_get_def)
  qed
  obtain fs' where "ensure_dir [''models'', ''r''] example_fs = (fs', Inr ())"
    "\<forall>i \<le> length [''models'', ''r'']. fs_get fs' (take i [''models'', ''r'']) = Some FDir"
    using s1 h1 by blast
  moreover have "fs_get example_fs (take 0 [''notes'', ''r'']) \<noteq> Some (FFile ''x'')"
    by (simp add: example_fs_def fs_get_def)
  moreover have "fs_get example_fs (take 1 [''notes'', ''r'']) = Some (FFile ''x'')"
    by (simp add: example_fs_def fs_get_def)
  moreover have "fs_get example_fs [''notes''] = Some (FFile ''x'')"
    by (simp add: example_fs_def fs_get_def)
  ultimately show ?thesis using s2 s3 by (auto simp: os_path_isdir_def dest: spec [of _ 2])
qed



end
