(* ===== verification/Config.thy ===== *)
theory Config
  imports Driver OutputDir
begin

text \<open>
  The configuration of \<open>train_robust.py\<close> and the script's start-up: \<open>config =
  json.load(config_file)\<close> (lines 26--27) and every \<open>config['...']\<close> the script
  evaluates before its main loop, in the order it evaluates them (lines 30--36,
  48--75, 95), with the conversions each use of a value performs at its line:
  \<open>int(sss[0])\<close> and \<open>sss[1]\<close> of the schedule (lines 50, 52), the tensor conversion
  of the rates in \<open>piecewise_constant\<close> (line 53), the string concatenation of the
  model directory (line 75), \<open>np.linspace\<close> (line 95) and \<open>range\<close> (line 104).
  \<open>json.load\<close> returns a JSON value; an object becomes a dict in which a repeated
  key keeps its last value. A value of a JSON kind that Python would accept but the
  typed configuration of \<open>Driver\<close> cannot represent (a float
  cadence, a numeral string passed to \<open>int\<close>, the iteration of a dict, whose order
  depends on the Python version) stops the model with \<open>UnmodelledValue\<close>: the
  model makes no claim about such configurations. The start-up's two file
  operations, making the output directory (lines 76--77) and copying
  \<open>config.json\<close> into it (line 93), sit at their places in the chain; the whole
  script on a file system, \<open>run_script_io\<close>, uses those of \<open>OutputDir\<close>.
\<close>

section \<open>JSON values\<close>

datatype json =
    JNull                          \<comment> \<open>\<open>None\<close>\<close>
  | JBool bool                     \<comment> \<open>\<open>True\<close>, \<open>False\<close>\<close>
  | JInt int                       \<comment> \<open>a number without fraction or exponent: a Python \<open>int\<close>\<close>
  | JFloat real                    \<comment> \<open>any other number: a Python \<open>float\<close>\<close>
  | JStr string
  | JArr "json list"               \<comment> \<open>a Python \<open>list\<close>\<close>
  | JObj "(string \<times> json) list"   \<comment> \<open>a Python \<open>dict\<close>, its members in file order\<close>

section \<open>Python operations on JSON values\<close>

text \<open>\<open>d[k]\<close> for a string key: the last member named \<open>k\<close> of a dict; a list, a
  string, a number or \<open>None\<close> refuses a string subscript.\<close>

definition py_getitem_str :: "json \<Rightarrow> string \<Rightarrow> error + json" where
  "py_getitem_str j k =
     (case j of
        JObj kvs \<Rightarrow> (case map_of (rev kvs) k of None \<Rightarrow> Inl KeyError | Some v \<Rightarrow> Inr v)
      | _ \<Rightarrow> Inl TypeError)"

text \<open>\<open>x[i]\<close> for a literal index \<open>i \<ge> 0\<close>: an element of a list, a one-character
  string of a string; a dict has no integer keys; other values are not
  subscriptable.\<close>

fun py_getitem_nat :: "json \<Rightarrow> nat \<Rightarrow> error + json" where
  "py_getitem_nat (JArr xs) i = (if i < length xs then Inr (xs ! i) else Inl IndexError)"
| "py_getitem_nat (JStr s) i = (if i < length s then Inr (JStr [s ! i]) else Inl IndexError)"
| "py_getitem_nat (JObj kvs) i = Inl KeyError"
| "py_getitem_nat _ i = Inl TypeError"

text \<open>\<open>for x in v\<close>: the elements of a list, the characters of a string.\<close>

fun py_iter :: "json \<Rightarrow> error + json list" where
  "py_iter (JArr xs) = Inr xs"
| "py_iter (JStr s) = Inr (map (\<lambda>c. JStr [c]) s)"
| "py_iter (JObj kvs) = Inl UnmodelledValue"
| "py_iter _ = Inl TypeError"

text \<open>\<open>int(v)\<close>: integers and booleans as they are, floats truncated towards zero.\<close>

fun py_int_of :: "json \<Rightarrow> error + int" where
  "py_int_of (JInt i) = Inr i"
| "py_int_of (JBool b) = Inr (of_bool b)"
| "py_int_of (JFloat r) = Inr (py_int r)"
| "py_int_of (JStr s) = Inl UnmodelledValue"
| "py_int_of _ = Inl TypeError"

text \<open>\<open>range(v)\<close> takes an integer (a boolean is one); anything else is a
  \<open>TypeError\<close>.\<close>

fun py_range_arg :: "json \<Rightarrow> error + int" where
  "py_range_arg (JInt i) = Inr i"
| "py_range_arg (JBool b) = Inr (of_bool b)"
| "py_range_arg _ = Inl TypeError"

text \<open>\<open>str(v)\<close> of a scalar; the shortest round-trip decimal that Python prints
  for a float is the parameter \<open>fr\<close>.\<close>

fun py_str :: "(real \<Rightarrow> string) \<Rightarrow> json \<Rightarrow> error + string" where
  "py_str fr JNull = Inr ''None''"
| "py_str fr (JBool b) = Inr (if b then ''True'' else ''False'')"
| "py_str fr (JInt i) = Inr (fmt_d i)"
| "py_str fr (JFloat r) = Inr (fr r)"
| "py_str fr (JStr s) = Inr s"
| "py_str fr _ = Inl UnmodelledValue"

text \<open>A value used as a number with tensors or NumPy, as an integer count, as a
  flag and as a name.\<close>

fun json_number :: "json \<Rightarrow> error + real" where
  "json_number (JInt i) = Inr (of_int i)"
| "json_number (JFloat r) = Inr r"
| "json_number (JBool b) = Inr (of_bool b)"
| "json_number _ = Inl UnmodelledValue"

fun json_int :: "json \<Rightarrow> error + int" where
  "json_int (JInt i) = Inr i"
| "json_int (JBool b) = Inr (of_bool b)"
| "json_int _ = Inl UnmodelledValue"

fun json_bool :: "json \<Rightarrow> error + bool" where
  "json_bool (JBool b) = Inr b"
| "json_bool _ = Inl UnmodelledValue"

fun json_str :: "json \<Rightarrow> error + string" where
  "json_str (JStr s) = Inr s"
| "json_str _ = Inl UnmodelledValue"

section \<open>The learning-rate schedule from JSON (lines 50--56)\<close>

text \<open>\<open>tf.convert_to_tensor\<close> of a Python scalar: an \<open>int\<close> becomes \<open>int32\<close> when it
  fits and \<open>int64\<close> otherwise, a \<open>float\<close> \<open>float32\<close>, a \<open>bool\<close> \<open>bool\<close>; \<open>None\<close>
  is refused with \<open>ValueError\<close>.\<close>

datatype tf_dtype = DInt32 | DInt64 | DFloat32 | DBool

fun tf_scalar :: "json \<Rightarrow> error + tf_dtype \<times> real" where
  "tf_scalar JNull = Inl ValueError"
| "tf_scalar (JBool b) = Inr (DBool, of_bool b)"
| "tf_scalar (JInt i) =
     (if fits_int32 i then Inr (DInt32, of_int i)
      else if - (2 ^ 63) \<le> i \<and> i < 2 ^ 63 then Inr (DInt64, of_int i)
      else Inl UnmodelledValue)"
| "tf_scalar (JFloat r) = Inr (DFloat32, r)"
| "tf_scalar _ = Inl UnmodelledValue"

text \<open>\<open>piecewise_constant\<close> converts the rates one by one and raises \<open>ValueError\<close>
  unless they all have the dtype of the first.\<close>

definition tf_values :: "json list \<Rightarrow> error + real list" where
  "tf_values vs =
     bind_err (map_err tf_scalar vs) (\<lambda>tvs.
       if list_all (\<lambda>tv. fst tv = fst (hd tvs)) tvs then Inr (map snd tvs) else Inl ValueError)"

text \<open>Line 50 before its slice: \<open>[int(sss[0]) for sss in step_size_schedule]\<close>.\<close>

definition json_boundaries :: "json \<Rightarrow> error + int list" where
  "json_boundaries js = bind_err (py_iter js) (map_err (\<lambda>e. bind_err (py_getitem_nat e 0) py_int_of))"

text \<open>Line 52: \<open>[sss[1] for sss in step_size_schedule]\<close>.\<close>

definition json_values :: "json \<Rightarrow> error + json list" where
  "json_values js = bind_err (py_iter js) (map_err (\<lambda>e. py_getitem_nat e 1))"

text \<open>Lines 50--56: the graph of the rate, and the schedule as the typed
  configuration records it.\<close>

definition json_schedule :: "json \<Rightarrow> error + (real \<times> real) list \<times> (int \<Rightarrow> error + real)" where
  "json_schedule js =
     bind_err (json_boundaries js) (\<lambda>bs.
     bind_err (json_values js) (\<lambda>vs.
     bind_err (tf_values vs) (\<lambda>rv.
     bind_err (pc_build (drop 1 bs) rv) (\<lambda>lr_fn.
       Inr (zip (map real_of_int bs) rv, lr_fn)))))"

section \<open>The attack's constructor and the model directory\<close>

text \<open>\<open>LinfWRMAttack(model, epsilon, k, a, random_start, loss_func)\<close> (lines 66--71),
  from the specification: numbers for \<open>\<epsilon>\<close> and the step size, an integer step
  count, a boolean start flag and one of the loss names.\<close>

definition json_attack_cfg :: "json \<Rightarrow> json \<Rightarrow> json \<Rightarrow> json \<Rightarrow> json \<Rightarrow> error + attack_cfg" where
  "json_attack_cfg j_eps j_k j_a j_rs j_lf =
     bind_err (json_number j_eps) (\<lambda>eps.
     bind_err (json_int j_k) (\<lambda>k.
     bind_err (json_number j_a) (\<lambda>a.
     bind_err (json_bool j_rs) (\<lambda>rs.
     bind_err (json_str j_lf) (\<lambda>lf.
     bind_err (parse_loss_func lf) (\<lambda>loss.
       Inr \<lparr>epsilon = eps, num_steps = nat k, step_size = a, random_start = rs, loss_func = loss\<rparr>))))))"

text \<open>Line 75: \<open>config['model_dir'] + '_robust_e_' + str(config['epsilon'])\<close>; the
  first \<open>+\<close> refuses anything but a string.\<close>

definition json_model_dir :: "(real \<Rightarrow> string) \<Rightarrow> json \<Rightarrow> json \<Rightarrow> error + string" where
  "json_model_dir fr j_dir j_eps =
     (case j_dir of
        JStr base \<Rightarrow> bind_err (py_str fr j_eps) (\<lambda>e. Inr (model_dir_of base e))
      | _ \<Rightarrow> Inl TypeError)"

text \<open>The batch size (lines 36, 88, 106): a non-negative integer.\<close>

fun json_batch_size :: "json \<Rightarrow> error + nat" where
  "json_batch_size (JInt i) = (if 0 \<le> i then Inr (nat i) else Inl UnmodelledValue)"
| "json_batch_size _ = Inl UnmodelledValue"

section \<open>Start-up\<close>

text \<open>Lines 26--104 up to the loop, in the order the script evaluates them, handing
  the typed configuration and the rate graph to the continuation \<open>k\<close>, with the
  file operations of lines 76--77 (\<open>mkdirs\<close>) and 93 (\<open>copy\<close>) at their places
  as parameters on a state \<open>'s\<close> that they alone change: the keys
  read at lines 30--36 and 48--49, the schedule (50--56), the weight decay
  (57), the keys of lines 62--64, the attack's arguments and constructor
  (66--71), the model directory (75), the batch size (88), \<open>eps_step\<close> (95), the
  loop bound (104) and the cadences the loop reads.\<close>

definition config_chain ::
  "(real \<Rightarrow> string) \<Rightarrow> json \<Rightarrow> (string \<Rightarrow> ('s, unit) io) \<Rightarrow> (string \<Rightarrow> ('s, unit) io) \<Rightarrow>
   (train_config \<Rightarrow> (int \<Rightarrow> error + real) \<Rightarrow> ('s, 'a) io) \<Rightarrow> ('s, 'a) io" where
  "config_chain fr j mkdirs copy k =
     io_bind (io_lift (py_getitem_str j ''random_seed'')) (\<lambda>_.
     io_bind (io_lift (py_getitem_str j ''max_num_training_steps'')) (\<lambda>j_max.
     io_bind (io_lift (py_getitem_str j ''num_output_steps'')) (\<lambda>j_out.
     io_bind (io_lift (py_getitem_str j ''num_summary_steps'')) (\<lambda>j_sum.
     io_bind (io_lift (py_getitem_str j ''num_checkpoint_steps'')) (\<lambda>j_ckpt.
     io_bind (io_lift (py_getitem_str j ''training_batch_size'')) (\<lambda>j_bs.
     io_bind (io_lift (py_getitem_str j ''step_size_schedule'')) (\<lambda>j_sss.
     io_bind (io_lift (py_getitem_str j ''weight_decay'')) (\<lambda>j_wd.
     io_bind (io_lift (json_schedule j_sss)) (\<lambda>(sss, lr_fn).
     io_bind (io_lift (json_number j_wd)) (\<lambda>wd.
     io_bind (io_lift (py_getitem_str j ''k'')) (\<lambda>j_k.
     io_bind (io_lift (py_getitem_str j ''random_start'')) (\<lambda>j_rs.
     io_bind (io_lift (py_getitem_str j ''loss_func'')) (\<lambda>j_lf.
     io_bind (io_lift (py_getitem_str j ''epsilon'')) (\<lambda>j_eps.
     io_bind (io_lift (py_getitem_str j ''a'')) (\<lambda>j_a.
     io_bind (io_lift (json_attack_cfg j_eps j_k j_a j_rs j_lf)) (\<lambda>acfg.
     io_bind (io_lift (py_getitem_str j ''model_dir'')) (\<lambda>j_dir.
     io_bind (io_lift (json_model_dir fr j_dir j_eps)) (\<lambda>dir.
     io_bind (mkdirs dir) (\<lambda>u.
     io_bind (io_lift (json_batch_size j_bs)) (\<lambda>bs.
     io_bind (copy dir) (\<lambda>u.
     io_bind (io_lift (py_getitem_str j ''num_schedule_steps'')) (\<lambda>j_n.
     io_bind (io_lift (json_int j_n)) (\<lambda>n.
     io_bind (io_lift (linspace 0 (epsilon acfg) n)) (\<lambda>eps_step.
     io_bind (io_lift (py_range_arg j_max)) (\<lambda>mx.
     io_bind (io_lift (json_int j_out)) (\<lambda>out.
     io_bind (io_lift (json_int j_sum)) (\<lambda>summ.
     io_bind (io_lift (json_int j_ckpt)) (\<lambda>ckpt.
       k \<lparr>max_num_training_steps = mx, num_output_steps = out, num_summary_steps = summ,
          num_checkpoint_steps = ckpt, training_batch_size = bs, step_size_schedule = sss,
          weight_decay = wd, attack = acfg, model_dir = dir, num_schedule_steps = n\<rparr>
         lr_fn))))))))))))))))))))))))))))"

text \<open>The reading and converting of the options alone, with the two file
  operations elided.\<close>

definition config_read ::
  "(real \<Rightarrow> string) \<Rightarrow> json \<Rightarrow> (train_config \<Rightarrow> (int \<Rightarrow> error + real) \<Rightarrow> error + 'a) \<Rightarrow> error + 'a" where
  "config_read fr j k =
     snd (config_chain fr j (\<lambda>dir. io_return ()) (\<lambda>dir. io_return ()) (\<lambda>c f. io_lift (k c f)) ())"

text \<open>The configuration the script runs with.\<close>

definition load_config :: "(real \<Rightarrow> string) \<Rightarrow> json \<Rightarrow> error + train_config" where
  "load_config fr j = config_read fr j (\<lambda>cfg lr_fn. Inr cfg)"

text \<open>The whole script, its file operations elided: start-up, then
  \<open>for ii in range(max_num_training_steps)\<close> with the rate graph built at line 53,
  from a fresh session.\<close>

definition run_script ::
  "'p run_env \<Rightarrow> (real \<Rightarrow> string) \<Rightarrow> json \<Rightarrow> 'p \<Rightarrow> data_subset \<Rightarrow> 'p ckpt_store \<Rightarrow>
   error + 'p train_state" where
  "run_script E fr j p0 d st =
     config_read fr j (\<lambda>cfg lr_fn.
       train_loop E cfg lr_fn [0..<nat (max_num_training_steps cfg)] (init_state p0 d st))"

text \<open>TensorFlow's writers (the summary writer of line 99 and the saver of line
  144) write into \<open>model_dir\<close>; when lines 76--93 have not left a directory
  there, their failure is not modelled and the run stops with
  \<open>UnmodelledValue\<close>.\<close>

definition writers_dir :: "string \<Rightarrow> (fsys, unit) io" where
  "writers_dir dir = (\<lambda>fs. if os_path_isdir fs (path_of dir) then (fs, Inr ()) else (fs, Inl UnmodelledValue))"

text \<open>The whole script with its file system: the output directory is made at
  lines 76--77 and the configuration copied into it at line 93, effects that stay
  whatever happens later.\<close>

definition run_script_io ::
  "'p run_env \<Rightarrow> (real \<Rightarrow> string) \<Rightarrow> json \<Rightarrow> 'p \<Rightarrow> data_subset \<Rightarrow> 'p ckpt_store \<Rightarrow>
   (fsys, 'p train_state) io" where
  "run_script_io E fr j p0 d st =
     config_chain fr j (\<lambda>dir. ensure_dir (path_of dir)) (\<lambda>dir. shutil_copy config_path (path_of dir))
       (\<lambda>cfg lr_fn. io_bind (writers_dir (model_dir cfg)) (\<lambda>u.
          io_lift (train_loop E cfg lr_fn [0..<nat (max_num_training_steps cfg)] (init_state p0 d st))))"

section \<open>The schema of \<open>config.json\<close>\<close>

text \<open>The kinds of value under which the start-up reaches the loop: the script's
  own uses of each option, with the attack's arguments as the specification
  states them.\<close>

datatype jty = TAny | TInt | TNat | TNum | TBool | TStr | TLoss | TSchedule

text \<open>A schedule entry \<open>[step, rate, ...]\<close> with an integer step and a float rate.\<close>

fun sched_entry :: "json \<Rightarrow> (int \<times> real) option" where
  "sched_entry (JArr (JInt b # JFloat v # rest)) = Some (b, v)"
| "sched_entry _ = None"

fun has_type :: "json \<Rightarrow> jty \<Rightarrow> bool" where
  "has_type v TAny = True"
| "has_type v TInt = (case v of JInt i \<Rightarrow> True | _ \<Rightarrow> False)"
| "has_type v TNat = (case v of JInt i \<Rightarrow> 0 \<le> i | _ \<Rightarrow> False)"
| "has_type v TNum = (case v of JInt i \<Rightarrow> True | JFloat r \<Rightarrow> True | _ \<Rightarrow> False)"
| "has_type v TBool = (case v of JBool b \<Rightarrow> True | _ \<Rightarrow> False)"
| "has_type v TStr = (case v of JStr s \<Rightarrow> True | _ \<Rightarrow> False)"
| "has_type v TLoss = (case v of JStr s \<Rightarrow> s = ''xent'' \<or> s = ''cw'' | _ \<Rightarrow> False)"
| "has_type v TSchedule =
     (case v of
        JArr es \<Rightarrow> 2 \<le> length es \<and> list_all (\<lambda>e. sched_entry e \<noteq> None) es \<and>
                   sorted (drop 1 (map (\<lambda>e. fst (the (sched_entry e))) es)) \<and>
                   list_all fits_int32 (drop 1 (map (\<lambda>e. fst (the (sched_entry e))) es))
      | _ \<Rightarrow> False)"

definition config_schema :: "(string \<times> jty) list" where
  "config_schema =
     [(''random_seed'', TAny), (''max_num_training_steps'', TInt), (''num_output_steps'', TInt),
      (''num_summary_steps'', TInt), (''num_checkpoint_steps'', TInt), (''training_batch_size'', TNat),
      (''step_size_schedule'', TSchedule), (''weight_decay'', TNum), (''k'', TInt),
      (''random_start'', TBool), (''loss_func'', TLoss), (''epsilon'', TNum), (''a'', TNum),
      (''model_dir'', TStr), (''num_schedule_steps'', TNat)]"

definition config_typed :: "json \<Rightarrow> bool" where
  "config_typed j =
     (case j of
        JObj kvs \<Rightarrow> list_all (\<lambda>(k, t). case map_of (rev kvs) k of None \<Rightarrow> False | Some v \<Rightarrow> has_type v t)
                      config_schema
      | _ \<Rightarrow> False)"

section \<open>A concrete configuration\<close>

text \<open>A \<open>config.json\<close> for the two-iteration run of \<open>Driver\<close>, and Python's
  \<open>str\<close> of the float \<open>0.1\<close>.\<close>

definition example_json :: json where
  "example_json =
     JObj [(''random_seed'', JInt 0), (''max_num_training_steps'', JInt 2),
           (''num_output_steps'', JInt 1), (''num_summary_steps'', JInt 1),
           (''num_checkpoint_steps'', JInt 1), (''training_batch_size'', JInt 1),
           (''step_size_schedule'', JArr [JArr [JInt 0, JFloat (1/10)], JArr [JInt 100, JFloat (1/100)]]),
           (''weight_decay'', JFloat 0), (''epsilon'', JFloat (1/10)), (''k'', JInt 1),
           (''a'', JFloat (1/10)), (''random_start'', JBool False), (''loss_func'', JStr ''xent''),
           (''model_dir'', JStr ''m''), (''num_schedule_steps'', JInt 3)]"

definition example_float_repr :: "real \<Rightarrow> string" where
  "example_float_repr r = (if r = 1/10 then ''0.1'' else ''0.0'')"

section \<open>Lemmas\<close>

text \<open>With the file operations elided, the chain is the chain of its reads.\<close>

lemmas config_read_simps = config_read_def config_chain_def snd_io_bind_lift split_def

lemma py_int_of_int [simp]: "py_int (real_of_int i) = i"
  by (simp add: py_int_def)

lemma schedule_of_zip:
  assumes "length bs = length rv"
  shows "schedule_boundaries (zip (map real_of_int bs) rv) = drop 1 bs \<and>
         schedule_values (zip (map real_of_int bs) rv) = rv"
proof -
  have "map (\<lambda>e. py_int (fst e)) (zip (map real_of_int bs) rv) = bs"
    using assms
  proof (induction bs arbitrary: rv)
    case (Cons b bs)
    then show ?case by (cases rv) auto
  qed simp
  then show ?thesis using assms by (simp add: schedule_boundaries_def schedule_values_def)
qed

lemma py_iter_length:
  "py_iter js = Inr es \<Longrightarrow> map_err f es = Inr xs \<Longrightarrow> length xs = length es"
  by (rule map_err_length)

lemma tf_values_length: "tf_values vs = Inr rv \<Longrightarrow> length rv = length vs"
  by (auto simp: tf_values_def bind_err_eq_Inr split: if_splits dest: map_err_length)

text \<open>The graph the start-up builds is the schedule of the typed configuration.\<close>

lemma json_schedule_fn:
  assumes "json_schedule js = Inr (sss, f)"
  shows "schedule_fn sss = Inr f"
proof -
  obtain es bs vs rv where es: "py_iter js = Inr es"
    and bs: "map_err (\<lambda>e. bind_err (py_getitem_nat e 0) py_int_of) es = Inr bs"
    and vs: "map_err (\<lambda>e. py_getitem_nat e 1) es = Inr vs"
    and rv: "tf_values vs = Inr rv" and f: "pc_build (drop 1 bs) rv = Inr f"
    and sss: "sss = zip (map real_of_int bs) rv"
    using assms by (auto simp: json_schedule_def json_boundaries_def json_values_def bind_err_eq_Inr)
  have len: "length bs = length rv"
    using map_err_length [OF bs] map_err_length [OF vs] tf_values_length [OF rv] by simp
  then have "schedule_boundaries sss = drop 1 bs" "schedule_values sss = rv"
    using sss schedule_of_zip [OF len] by simp_all
  then show ?thesis using f by (simp add: schedule_fn_def)
qed

lemma config_read_split:
  "config_read fr j k = bind_err (config_read fr j (\<lambda>c f. Inr (c, f))) (\<lambda>(c, f). k c f)"
  by (simp add: config_read_simps bind_err_assoc prod.case_distrib [of "\<lambda>x. bind_err x _"])


lemma config_read_Inr:
  assumes "config_read fr j (\<lambda>c f. Inr (c, f)) = Inr (cfg, f)"
  shows "schedule_fn (step_size_schedule cfg) = Inr f \<and>
         (\<exists>ys. linspace 0 (epsilon (attack cfg)) (num_schedule_steps cfg) = Inr ys)"
  using assms by (auto simp: config_read_simps bind_err_eq_Inr dest!: json_schedule_fn)

lemma sched_entry_Some:
  "sched_entry e = Some (b, v) \<Longrightarrow> py_getitem_nat e 0 = Inr (JInt b) \<and> py_getitem_nat e 1 = Inr (JFloat v)"
  by (cases e rule: sched_entry.cases) auto

lemma json_schedule_typed:
  assumes "has_type js TSchedule"
  obtains sss f where "json_schedule js = Inr (sss, f)" "2 \<le> length sss"
    "sorted (schedule_boundaries sss)" "list_all fits_int32 (schedule_boundaries sss)"
proof -
  obtain es where js: "js = JArr es" using assms by (cases js) auto
  let ?b = "\<lambda>e. fst (the (sched_entry e))" and ?v = "\<lambda>e. snd (the (sched_entry e))"
  have t: "2 \<le> length es" "\<forall>e\<in>set es. sched_entry e \<noteq> None"
    "sorted (drop 1 (map ?b es))" "list_all fits_int32 (drop 1 (map ?b es))"
    using assms js by (auto simp: list_all_iff)
  have e: "\<And>e. e \<in> set es \<Longrightarrow> py_getitem_nat e 0 = Inr (JInt (?b e)) \<and> py_getitem_nat e 1 = Inr (JFloat (?v e))"
    using t(2) sched_entry_Some by fastforce
  have bs: "json_boundaries js = Inr (map ?b es)"
    using e by (auto simp: json_boundaries_def js intro!: map_err_total)
  have vs: "json_values js = Inr (map (\<lambda>e. JFloat (?v e)) es)"
    using e by (auto simp: json_values_def js intro!: map_err_total)
  have "map_err tf_scalar (map (\<lambda>e. JFloat (?v e)) es) = Inr (map (\<lambda>e. (DFloat32, ?v e)) es)"
    by (induction es) auto
  then have rv: "tf_values (map (\<lambda>e. JFloat (?v e)) es) = Inr (map ?v es)"
    using t(1) by (cases es) (auto simp: tf_values_def list_all_iff comp_def)
  have "drop 1 (map ?b es) \<noteq> []" using t(1) by simp
  then have "\<exists>f. pc_build (drop 1 (map ?b es)) (map ?v es) = Inr f"
    using t(1,4) by (simp add: pc_build_def)
  then obtain f where f: "pc_build (drop 1 (map ?b es)) (map ?v es) = Inr f" by blast
  let ?sss = "zip (map real_of_int (map ?b es)) (map ?v es)"
  have j: "json_schedule js = Inr (?sss, f)" using bs vs rv f by (simp add: json_schedule_def)
  have "schedule_boundaries ?sss = drop 1 (map ?b es)"
    using schedule_of_zip [of "map ?b es" "map ?v es"] by simp
  then show ?thesis using that [OF j] t by simp
qed


subsection \<open>Typed configurations\<close>

lemma config_typed_get:
  assumes "config_typed j" "(k, t) \<in> set config_schema"
  shows "\<exists>v. py_getitem_str j k = Inr v \<and> has_type v t"
proof -
  obtain kvs where j: "j = JObj kvs" using assms(1) by (cases j) (auto simp: config_typed_def)
  have "case map_of (rev kvs) k of None \<Rightarrow> False | Some v \<Rightarrow> has_type v t"
    using assms j by (auto simp: config_typed_def list_all_iff)
  then show ?thesis using j by (auto simp: py_getitem_str_def split: option.splits)
qed

text \<open>The values of a typed configuration, key by key.\<close>

lemma config_typed_key:
  "config_typed j \<Longrightarrow> (k, t) \<in> set config_schema \<Longrightarrow> (\<And>v. py_getitem_str j k = Inr v \<Longrightarrow> has_type v t \<Longrightarrow> P) \<Longrightarrow> P"
  using config_typed_get by blast


lemma config_read_typed:
  assumes "config_typed j"
  shows "\<exists>cfg f. config_read fr j (\<lambda>c f. Inr (c, f)) = Inr (cfg, f) \<and>
    sorted (schedule_boundaries (step_size_schedule cfg)) \<and> 2 \<le> length (step_size_schedule cfg) \<and>
    list_all fits_int32 (schedule_boundaries (step_size_schedule cfg)) \<and>
    0 \<le> num_schedule_steps cfg \<and>
    py_getitem_str j ''max_num_training_steps'' = Inr (JInt (max_num_training_steps cfg)) \<and>
    py_getitem_str j ''num_output_steps'' = Inr (JInt (num_output_steps cfg)) \<and>
    py_getitem_str j ''num_summary_steps'' = Inr (JInt (num_summary_steps cfg)) \<and>
    py_getitem_str j ''num_checkpoint_steps'' = Inr (JInt (num_checkpoint_steps cfg)) \<and>
    py_getitem_str j ''training_batch_size'' = Inr (JInt (int (training_batch_size cfg)))"
proof -
  note key = config_typed_key [OF assms]
  obtain rs where rs: "py_getitem_str j ''random_seed'' = Inr rs"
    by (rule key [of "''random_seed''" TAny]) (auto simp: config_schema_def)
  obtain mx where mx: "py_getitem_str j ''max_num_training_steps'' = Inr (JInt mx)"
    by (rule key [of "''max_num_training_steps''" TInt]) (auto simp: config_schema_def split: json.splits)
  obtain out where out: "py_getitem_str j ''num_output_steps'' = Inr (JInt out)"
    by (rule key [of "''num_output_steps''" TInt]) (auto simp: config_schema_def split: json.splits)
  obtain sm where sm: "py_getitem_str j ''num_summary_steps'' = Inr (JInt sm)"
    by (rule key [of "''num_summary_steps''" TInt]) (auto simp: config_schema_def split: json.splits)
  obtain ck where ck: "py_getitem_str j ''num_checkpoint_steps'' = Inr (JInt ck)"
    by (rule key [of "''num_checkpoint_steps''" TInt]) (auto simp: config_schema_def split: json.splits)
  obtain bs where bs: "py_getitem_str j ''training_batch_size'' = Inr (JInt bs)" "0 \<le> bs"
    by (rule key [of "''training_batch_size''" TNat]) (auto simp: config_schema_def split: json.splits)
  obtain js where js: "py_getitem_str j ''step_size_schedule'' = Inr js" "has_type js TSchedule"
    by (rule key [of "''step_size_schedule''" TSchedule]) (auto simp: config_schema_def)
  obtain jwd wd where wd: "py_getitem_str j ''weight_decay'' = Inr jwd" "json_number jwd = Inr wd"
    by (rule key [of "''weight_decay''" TNum]) (auto simp: config_schema_def split: json.splits)
  obtain k where k: "py_getitem_str j ''k'' = Inr (JInt k)"
    by (rule key [of "''k''" TInt]) (auto simp: config_schema_def split: json.splits)
  obtain b where b: "py_getitem_str j ''random_start'' = Inr (JBool b)"
    by (rule key [of "''random_start''" TBool]) (auto simp: config_schema_def split: json.splits)
  obtain lf l where lf: "py_getitem_str j ''loss_func'' = Inr (JStr lf)" "parse_loss_func lf = Inr l"
    by (rule key [of "''loss_func''" TLoss]) (auto simp: config_schema_def parse_loss_func_def split: json.splits if_splits)
  obtain jeps eps es where eps: "py_getitem_str j ''epsilon'' = Inr jeps" "json_number jeps = Inr eps"
    "py_str fr jeps = Inr es"
    by (rule key [of "''epsilon''" TNum]) (auto simp: config_schema_def split: json.splits)
  obtain ja a where a: "py_getitem_str j ''a'' = Inr ja" "json_number ja = Inr a"
    by (rule key [of "''a''" TNum]) (auto simp: config_schema_def split: json.splits)
  obtain dir where dir: "py_getitem_str j ''model_dir'' = Inr (JStr dir)"
    by (rule key [of "''model_dir''" TStr]) (auto simp: config_schema_def split: json.splits)
  obtain n where n: "py_getitem_str j ''num_schedule_steps'' = Inr (JInt n)" "0 \<le> n"
    by (rule key [of "''num_schedule_steps''" TNat]) (auto simp: config_schema_def split: json.splits)
  obtain sss f where sch: "json_schedule js = Inr (sss, f)" "2 \<le> length sss"
    "sorted (schedule_boundaries sss)" "list_all fits_int32 (schedule_boundaries sss)"
    using js(2) by (rule json_schedule_typed)
  obtain ys where ys: "linspace 0 eps n = Inr ys" using linspace_Inr [OF n(2)] by blast
  show ?thesis
    using rs mx out sm ck bs js(1) wd k b lf eps a dir n sch ys
    by (simp add: config_read_simps json_attack_cfg_def json_model_dir_def)
qed


subsection \<open>Missing keys and the dtypes of the rates\<close>

lemma config_read_keys:
  "config_read fr j (\<lambda>c f. Inr (c, f)) = Inr p \<Longrightarrow>
   list_all (\<lambda>key. \<exists>v. py_getitem_str j key = Inr v) (map fst config_schema)"
  by (auto simp: config_read_simps config_schema_def bind_err_eq_Inr)

text \<open>When every read of the start-up succeeds, the chain is its two file
  operations on the output directory, then the continuation.\<close>

lemma config_chain_reads:
  assumes "config_read fr j (\<lambda>c f. Inr (c, f)) = Inr (cfg, f)"
  shows "config_chain fr j mk cp k =
           io_bind (mk (model_dir cfg)) (\<lambda>u. io_bind (cp (model_dir cfg)) (\<lambda>u. k cfg f))"
  using assms by (auto simp: config_read_simps bind_err_eq_Inr)

lemma py_getitem_str_present:
  assumes "py_getitem_str (JObj kvs) key = Inr v"
  shows "map_of kvs key \<noteq> None"
proof -
  have "map_of (rev kvs) key = Some v"
    using assms by (simp add: py_getitem_str_def split: option.splits)
  then have "(key, v) \<in> set kvs" by (auto dest: map_of_SomeD)
  then have "key \<in> fst ` set kvs" by force
  then show ?thesis by (simp add: map_of_eq_None_iff)
qed

lemma run_script_split:
  "run_script E fr j p0 d st =
     bind_err (config_read fr j (\<lambda>c f. Inr (c, f)))
       (\<lambda>(c, f). train_loop E c f [0..<nat (max_num_training_steps c)] (init_state p0 d st))"
  unfolding run_script_def by (rule config_read_split)

lemma tf_values_dtypes:
  "map_err tf_scalar vs = Inr tvs \<Longrightarrow> d1 \<in> fst ` set tvs \<Longrightarrow> d2 \<in> fst ` set tvs \<Longrightarrow> d1 \<noteq> d2 \<Longrightarrow>
   tf_values vs = Inl ValueError"
proof -
  assume m: "map_err tf_scalar vs = Inr tvs" and d: "d1 \<in> fst ` set tvs" "d2 \<in> fst ` set tvs" "d1 \<noteq> d2"
  have "\<not> list_all (\<lambda>tv. fst tv = fst (hd tvs)) tvs"
  proof
    assume "list_all (\<lambda>tv. fst tv = fst (hd tvs)) tvs"
    then have "d1 = fst (hd tvs)" "d2 = fst (hd tvs)" using d(1,2) by (auto simp: list_all_iff)
    then show False using d(3) by simp
  qed
  then show ?thesis using m by (simp add: tf_values_def)
qed

lemma example_json_typed: "config_typed example_json"
proof -
  have "\<exists>b :: real. b * 10 = 1" "\<exists>b :: real. b * 100 = 1"
    by (rule exI [of _ "1/10"], simp) (rule exI [of _ "1/100"], simp)
  then show ?thesis by (simp add: config_typed_def config_schema_def example_json_def fits_int32_def)
qed

text \<open>The configuration the example loads, with the output directory of line 75.\<close>

lemma example_json_loads:
  "load_config example_float_repr example_json = Inr ((example_cfg 1)\<lparr>model_dir := ''m_robust_e_0.1''\<rparr>)"
  by (simp add: load_config_def config_read_simps example_json_def py_getitem_str_def json_schedule_def
     json_boundaries_def json_values_def tf_values_def pc_build_def fits_int32_def json_attack_cfg_def
     parse_loss_func_def json_model_dir_def model_dir_of_def example_float_repr_def linspace_def example_cfg_def)

lemma load_config_read:
  assumes "load_config fr j = Inr cfg"
  obtains f where "config_read fr j (\<lambda>c f. Inr (c, f)) = Inr (cfg, f)"
  using assms unfolding load_config_def by (subst (asm) config_read_split) (auto simp: bind_err_eq_Inr)

section \<open>Properties\<close>

text \<open>C9: a configuration that follows the schema (every option present, of the
  kind the script's uses need; at least two schedule entries whose steps after the
  first are sorted \<open>int32\<close> integers, with float rates) is loaded without error, into
  a configuration whose schedule meets the conditions of the rate refinement.\<close>

theorem config_typed_loads:
  assumes "config_typed j"
  shows "\<exists>cfg. load_config fr j = Inr cfg \<and> sorted (schedule_boundaries (step_size_schedule cfg)) \<and>
    2 \<le> length (step_size_schedule cfg) \<and> list_all fits_int32 (schedule_boundaries (step_size_schedule cfg)) \<and>
    0 \<le> num_schedule_steps cfg"
proof -
  obtain cfg f where c: "config_read fr j (\<lambda>c f. Inr (c, f)) = Inr (cfg, f)"
    and p: "sorted (schedule_boundaries (step_size_schedule cfg))" "2 \<le> length (step_size_schedule cfg)"
      "list_all fits_int32 (schedule_boundaries (step_size_schedule cfg))" "0 \<le> num_schedule_steps cfg"
    using config_read_typed [OF assms, of fr] by blast
  have "load_config fr j = Inr cfg"
    unfolding load_config_def by (subst config_read_split) (simp add: c)
  then show ?thesis using p by blast
qed

theorem config_typed_loads_witness:
  "\<exists>cfg. load_config example_float_repr example_json = Inr cfg \<and>
     sorted (schedule_boundaries (step_size_schedule cfg)) \<and> 2 \<le> length (step_size_schedule cfg) \<and>
     list_all fits_int32 (schedule_boundaries (step_size_schedule cfg)) \<and> 0 \<le> num_schedule_steps cfg"
  using example_json_typed by (rule config_typed_loads)

text \<open>C19: a configuration lacking any option the script reads stops the script
  before its first iteration: the error is the same whatever the model, the data
  and the checkpoint directory.\<close>

theorem config_missing_key:
  assumes "key \<in> set (map fst config_schema)" "map_of kvs key = None"
  shows "\<exists>e. \<forall>E p0 d st. run_script E fr (JObj kvs) p0 d st = Inl e"
proof (cases "config_read fr (JObj kvs) (\<lambda>c f. Inr (c, f))")
  case (Inl e)
  then show ?thesis by (auto simp: run_script_split)
next
  case (Inr p)
  then have "\<exists>v. py_getitem_str (JObj kvs) key = Inr v"
    using config_read_keys assms(1) by (fastforce simp: list_all_iff)
  then show ?thesis using assms(2) py_getitem_str_present by blast
qed

theorem config_missing_key_witness:
  "\<exists>e. \<forall>E p0 d st. run_script E example_float_repr (JObj (tl (case example_json of JObj kvs \<Rightarrow> kvs)))
     (p0 :: nat) d st = Inl e"
  using config_missing_key [of "''random_seed''" "tl (case example_json of JObj kvs \<Rightarrow> kvs)" example_float_repr]
  by (simp add: config_schema_def example_json_def)

text \<open>C22: \<open>piecewise_constant\<close> refuses, with \<open>ValueError\<close> when the graph is built,
  rates that convert to tensors of different dtypes, such as a schedule mixing the
  JSON numbers \<open>1\<close> (an \<open>int32\<close>) and \<open>0.1\<close> (a \<open>float32\<close>).\<close>

theorem schedule_mixed_rates:
  assumes "map_err tf_scalar vs = Inr tvs" "DInt32 \<in> fst ` set tvs" "DFloat32 \<in> fst ` set tvs"
  shows "tf_values vs = Inl ValueError"
  using assms by (rule tf_values_dtypes) simp

theorem schedule_mixed_rates_witness:
  "tf_values [JInt 1, JFloat (1/10)] = Inl ValueError \<and>
   json_schedule (JArr [JArr [JInt 0, JInt 1], JArr [JInt 100, JFloat (1/10)]]) = Inl ValueError"
proof -
  have "tf_values [JInt 1, JFloat (1/10)] = Inl ValueError"
    using schedule_mixed_rates [of "[JInt 1, JFloat (1/10)]" "[(DInt32, 1), (DFloat32, 1/10)]"]
    by (simp add: fits_int32_def)
  then show ?thesis by (simp add: json_schedule_def json_boundaries_def json_values_def)
qed

end
