(* ===== verification/Spec2Isabelle.thy ===== *)
theory Spec2Isabelle
  imports Config
begin

text \<open>
  \<^bold>\<open>A verification development for the robust training script of
  privacy-vs-robustness.\<close>

  \<^bold>\<open>The program.\<close> \<open>src/distributional adversarial training/Yale/train_robust.py\<close>
  trains a face classifier on the Yale dataset against an \<open>L\<infinity>\<close> projected-gradient
  adversary. Its parts: the configuration read from \<open>config.json\<close> and converted
  where it is used (lines 26--36, 48--75, 88, 95, 104); a learning-rate schedule built from \<open>step_size_schedule\<close> with
  TensorFlow's \<open>piecewise_constant\<close> on the \<open>int32\<close> cast of the \<open>int64\<close> global
  step (lines 44, 48--56); the adversary \<open>LinfWRMAttack\<close> (constructed at lines
  62--71, called at line 110); the dataset provider \<open>DataSubset\<close> (lines 41, 106);
  a checkpoint saver (lines 75, 85, 143--146); an unused epsilon schedule (line 95);
  and the main loop (lines 97--152), which per iteration fetches a batch, attacks it
  with the current parameters, prints, logs and checkpoints at configured cadences,
  and runs one Adam step on the adversarial batch, timing the attack and the update
  for its examples-per-second line. Before the loop the script makes its output
  directory (lines 76--77) and copies \<open>config.json\<close> into it (line 93). The attack and the provider live in modules
  outside the repository's sources (\<open>attack_utils\<close>, \<open>data_loader\<close>); they are
  modelled from the specification, all the rest from the source.

  \<^bold>\<open>Theories.\<close>
  \<^item> \<open>Prelude\<close>: the error type (one constructor per exception the script can raise),
    \<open>step64\<close> for the global step and its word lemmas, batches as lists of
    flattened examples with their shape, element-wise maps, \<open>np.clip\<close> as \<open>clip\<close>,
    Python's \<open>%\<close> as \<open>py_mod\<close>, and the error monad \<open>bind_err\<close>.
  \<^item> \<open>Schedule\<close> (lines 44, 48--56): \<open>schedule_boundaries\<close>, \<open>schedule_values\<close>,
    TensorFlow's \<open>piecewise_constant\<close> split into graph construction \<open>pc_build\<close>
    (its \<open>ValueError\<close> and \<open>IndexError\<close> checks) and selection by the exclusive
    \<open>tf_case\<close> over \<open>pc_preds\<close>; \<open>cast_int32\<close>, \<open>schedule_fn\<close>, \<open>learning_rate\<close>.
    The abstract contract is \<open>lr_spec\<close> (the value whose index is the number of
    boundaries strictly below the step); lemmas prove the refinement on sorted
    boundaries, characterise the errors of graph construction and those of rate
    selection, and the wrap of the cast at \<open>2^31\<close>.
  \<^item> \<open>Attack\<close> (spec section 4.1): \<open>attack_cfg\<close> (the constructor's arguments),
    \<open>init_adv\<close>, the element step \<open>step_elem\<close>, \<open>pgd_step\<close>, the \<open>k\<close>-fold
    \<open>pgd_loop\<close> and \<open>perturb\<close>. The model enters as a \<open>grad_oracle\<close>, the random
    start as an explicit noise batch. Lemmas: the output is in \<open>[0, 1]\<close>, within
    \<open>\<epsilon>\<close> of a clean batch in \<open>[0, 1]\<close>, always returned for shape-preserving
    gradients, equal to the clipped input for \<open>\<epsilon> = 0\<close>, and in closed form
    (\<open>saturated\<close>) against positive gradients.
  \<^item> \<open>Checkpoint\<close> (lines 75, 85, 143--146): decimal printing \<open>show_nat\<close>/\<open>fmt_d\<close>,
    \<open>os_path_join\<close>, \<open>checkpoint_prefix\<close> (TensorFlow's \<open>"%s-%d"\<close>), the store
    \<open>saver_save\<close> (a map from prefixes to saved state and step, nothing evicted) and,
    from the specification, resuming: \<open>saver_restore\<close> and \<open>step_of_prefix\<close>.
    Lemmas: the step parses back from any prefix; prefixes are injective in the step.
  \<^item> \<open>DataSubset\<close> (spec, with lines 41 and 106): \<open>data_subset\<close>,
    \<open>get_next_batch\<close> with the reshuffle permutation as input, successive calls
    \<open>get_batches\<close>, and the invariant \<open>ds_valid\<close>. Lemmas: the invariant is kept; a
    batch is exactly \<open>bs\<close> distinct examples with their labels; an oversized batch
    raises \<open>ValueError\<close>; within a pass the batches are consecutive slices of the
    pass's permutation, so no example is served twice.
  \<^item> \<open>EpsSchedule\<close> (line 95): NumPy's \<open>linspace\<close> and its behaviour for every count.
  \<^item> \<open>Driver\<close> (lines 26--36, 97--152): \<open>train_config\<close>, the model interface
    \<open>model_iface\<close> (gradient, accuracy, cross-entropy, Adam update), the inputs
    \<open>run_env\<close> (model, test set, noise and permutation draws, measured durations), the
    state \<open>train_state\<close> (parameters, \<open>int64\<close> global step, provider, checkpoint
    store, event log, \<open>training_time\<close>), and one operation per block of the loop body:
    \<open>output_step\<close> (with \<open>max_diff\<close> and the NumPy statistics of line 127),
    \<open>summary_step\<close> (with \<open>merged_summaries\<close>), \<open>checkpoint_step\<close>,
    \<open>train_step\<close>, composed in source order by \<open>train_iteration\<close>; \<open>train_loop\<close> runs
    a list of loop indices and \<open>run_training\<close> first builds the schedule and computes
    line 95. Lemmas: the global step counts the iterations; the checkpoint of step
    \<open>i\<close> is the state after \<open>i\<close> iterations and resumes at \<open>i\<close>; exactly the
    multiples of the cadence are saved; the examples-per-second value is the
    batch count over the measured window.
  \<^item> \<open>OutputDir\<close> (lines 76--77, 93): the file system as an association list
    from paths (lists of components) to directories and regular files, with the
    invariant \<open>fs_wf\<close>; \<open>os_mkdir\<close>, the recursive \<open>os_makedirs\<close>,
    \<open>ensure_dir\<close> (the guarded call of lines 76--77) and \<open>shutil_copy\<close>, as CPython
    implements them, over the path resolution \<open>path_walk\<close> of the system calls.
    The file operations are steps of the state-and-error type \<open>io\<close> of
    \<open>Prelude\<close>, whose effects survive a later exception. Lemmas: every operation
    keeps the invariant; \<open>ensure_dir\<close> makes exactly the missing ancestors, raises
    \<open>NotADirectoryError\<close> through a regular file, and does nothing on an existing
    regular file.
  \<^item> \<open>Config\<close> (lines 26--104): \<open>config.json\<close> as a \<open>json\<close> value, the Python
    operations the start-up applies to it (\<open>py_getitem_str\<close>, \<open>py_getitem_nat\<close>,
    \<open>py_iter\<close>, \<open>py_int_of\<close>, \<open>py_str\<close>, \<open>py_range_arg\<close>), TensorFlow's conversion
    of the rates (\<open>tf_values\<close>), and \<open>config_chain\<close>: every option read and
    converted in source order, the rate graph built at line 53, the two file
    operations at their places, handed to a continuation. \<open>config_read\<close> elides the
    file operations; \<open>load_config\<close> and \<open>run_script\<close> (the script without its file
    system) are its instances, and \<open>run_script_io\<close> is the whole script on a file
    system. A schema (\<open>has_type\<close>, \<open>config_schema\<close>, \<open>config_typed\<close>) states the
    kinds of value the start-up accepts. Lemmas: schema-conforming configurations
    load; a missing option stops the script before training; rates of mixed dtypes
    are refused; when the reads succeed the chain is its two file operations
    followed by the continuation.
  \<^item> This theory: properties spanning the components: the whole script, and the
    run of a loaded configuration, complete under stated conditions on
    configuration, data, model and timer; every iteration
    trains on the adversarial version of its batch at the scheduled rate; the
    perturbation statistics the loop prints are within \<open>[0, \<epsilon>]\<close>; the script
    on a file system ends as without it and leaves the output directory with the
    copy of the configuration, whatever its outcome; and an existing regular file
    in the directory's place is overwritten by the copy.

  \<^bold>\<open>Bounds and fuel.\<close> No fuel is needed: the attack runs exactly \<open>k\<close> steps
  (structural recursion on \<open>k\<close>), the loop runs over the finite list
  \<open>[0..<max_num_training_steps]\<close>. The global step is a 64-bit word; the checkpoint
  theorems assume at most \<open>2^63\<close> iterations, so that the step TensorFlow formats
  with \<open>%d\<close> is the loop index; the rate theorems assume steps below \<open>2^31\<close>,
  beyond which the \<open>int32\<close> cast wraps (proved as its own lemma).

  \<^bold>\<open>Not modelled.\<close> Floating point (reals are exact; NaN is absent), the layers of
  \<open>Model\<close> and Adam's arithmetic (behind \<open>model_iface\<close>), reading the \<open>.mat\<close> file,
  the JSON parser (the model starts from the parsed value) and Python's printing of
  floats (a parameter), configuration values of kinds the typed configuration
  cannot represent (they stop the model with \<open>UnmodelledValue\<close>), reading the
  dataset (lines 39--40), the files TensorFlow's writers create in the output
  directory (the summary writer of line 99 and the checkpoint files of line 144;
  checkpoints are a store keyed by their prefix, and when the output directory
  is not a directory the writers' failure is not modelled and the run stops with
  \<open>UnmodelledValue\<close>), the summary writer's file format (the merged scalars of
  lines 86--91 and their step are logged instead), symbolic links, permissions and
  \<open>..\<close> in paths, the clock itself (durations are inputs), and the random seed.
\<close>

section \<open>Properties across components\<close>

text \<open>C2: the run completes, performing every iteration, when the schedule has at
  least two entries with sorted \<open>int32\<close> boundaries after the first, every
  cadence is non-zero, the provider is well-formed with non-empty examples and
  \<open>0 < batch_size \<le> n\<close>, its reshuffles are permutations, and the model's
  gradients and the noise have the shape of their input, and the measured attack
  durations are positive and the update durations non-negative, and
  \<open>num_schedule_steps\<close> is not negative.\<close>

theorem run_training_completes:
  assumes "sorted (schedule_boundaries (step_size_schedule cfg))"
    and "2 \<le> length (step_size_schedule cfg)"
    and "list_all fits_int32 (schedule_boundaries (step_size_schedule cfg))"
    and "num_output_steps cfg \<noteq> 0" "num_summary_steps cfg \<noteq> 0" "num_checkpoint_steps cfg \<noteq> 0"
    and "ds_valid (data s0)" "0 < training_batch_size cfg"
    and "training_batch_size cfg \<le> length (ds_xs (data s0))"
    and "\<forall>e\<in>set (ds_xs (data s0)). e \<noteq> []"
    and "\<And>ii. mset (perm_of E ii) = mset [0..<length (ds_xs (data s0))]"
    and "\<And>p l u y. same_shape u (grad_of (model E) p l u y)"
    and "\<And>ii x. same_shape x (noise_of E ii x)"
    and "0 \<le> training_time s0" "\<And>ii. 0 < attack_time E ii" "\<And>ii. 0 \<le> train_time E ii"
    and "0 \<le> num_schedule_steps cfg"
  shows "\<exists>s'. run_training E cfg s0 = Inr s'"
proof -
  obtain f where f: "schedule_fn (step_size_schedule cfg) = Inr f"
    and t: "\<forall>x. f x = Inr (lr_spec x (schedule_boundaries (step_size_schedule cfg))
                                   (schedule_values (step_size_schedule cfg)))"
    using schedule_fn_total [OF assms(1-3)] by blast
  have "\<forall>x. \<exists>r. f x = Inr r" using t by blast
  then obtain s' where "train_loop E cfg f [0..<nat (max_num_training_steps cfg)] s0 = Inr s'"
    using train_loop_returns [OF _ assms(4-7) assms(11) assms(8-10) assms(12-16)] by blast
  moreover obtain ys where "linspace 0 (epsilon (attack cfg)) (num_schedule_steps cfg) = Inr ys"
    using linspace_Inr [OF assms(17)] by blast
  ultimately show ?thesis using f by (simp add: run_training_def)
qed

theorem run_training_completes_witness:
  "\<exists>s'. run_training example_env (example_cfg 1) (init_state 0 example_data Map.empty) = Inr s'"
  by (rule run_training_completes)
     (simp_all add: example_cfg_def example_env_def example_data_def init_state_def
      data_subset_new_def ds_valid_def schedule_boundaries_def py_int_def fits_int32_def
      same_shape_iff_shape upt_rec)

text \<open>C4: adversarial training as the script performs it: in a completed run whose
  schedule is well-formed, iteration \<open>i\<close> (below \<open>2^31\<close>) fetches a batch, attacks
  it with the parameters reached after \<open>i\<close> iterations, and updates those
  parameters by one Adam step on the adversarial batch (not the clean one) at the
  rate the schedule assigns to step \<open>i\<close>; the provider state moves on by that
  batch.\<close>

theorem run_training_adversarial_update:
  assumes run: "run_training E cfg s0 = Inr s'" and gs0: "global_step s0 = 0"
    and sch: "sorted (schedule_boundaries (step_size_schedule cfg))"
      "2 \<le> length (step_size_schedule cfg)"
      "list_all fits_int32 (schedule_boundaries (step_size_schedule cfg))"
    and i: "i < nat (max_num_training_steps cfg)" "i < 2 ^ 31"
  shows "\<exists>f si si1 xb yb d' xadv. schedule_fn (step_size_schedule cfg) = Inr f \<and>
    train_loop E cfg f [0..<i] s0 = Inr si \<and> train_loop E cfg f [0..<Suc i] s0 = Inr si1 \<and>
    get_next_batch (training_batch_size cfg) (perm_of E i) (data si) = Inr (xb, yb, d') \<and>
    perturb (attack cfg) (grad_of (model E) (params si)) xb yb (noise_of E i xb) = Inr xadv \<and>
    params si1 = adam_step (model E) (params si)
      (lr_spec (int i) (schedule_boundaries (step_size_schedule cfg))
                       (schedule_values (step_size_schedule cfg)))
      (weight_decay cfg) xadv yb \<and>
    data si1 = d'"
proof -
  let ?n = "nat (max_num_training_steps cfg)"
  obtain f where f: "schedule_fn (step_size_schedule cfg) = Inr f"
    and lp: "train_loop E cfg f [0..<?n] s0 = Inr s'"
    using run by (auto simp: run_training_def bind_err_eq_Inr)
  have t: "\<forall>x. f x = Inr (lr_spec x (schedule_boundaries (step_size_schedule cfg))
                                   (schedule_values (step_size_schedule cfg)))"
    using schedule_fn_total [OF sch] f by auto
  have "[0..<?n] = [0..<i] @ [i] @ [Suc i..<?n]"
    using upt_add_eq_append [of 0 i "?n - i"] i(1) by (simp add: upt_conv_Cons)
  then obtain si s1 where lpi: "train_loop E cfg f [0..<i] s0 = Inr si"
    and it: "train_iteration E cfg f i si = Inr s1"
    using lp by (auto simp: train_loop_append_Inr bind_err_eq_Inr)
  have "global_step si = of_nat i" using train_loop_global_step [OF lpi] gs0 by simp
  moreover have "unat (of_nat i :: step64) = i" using i(2) by (intro unat_of_nat_small) simp
  ultimately have c: "cast_int32 (global_step si) = int i" using i(2) by (simp add: cast_int32_small)
  have lp1: "train_loop E cfg f [0..<Suc i] s0 = Inr s1"
    using lpi it by (simp add: train_loop_append_Inr)
  show ?thesis using train_iteration_update [OF it] f lpi lp1 t c by auto
qed

theorem run_training_adversarial_update_witness:
  "\<exists>s' f si si1 xb yb d' xadv.
    run_training example_env (example_cfg 1) (init_state 0 example_data Map.empty) = Inr s' \<and>
    schedule_fn (step_size_schedule (example_cfg 1)) = Inr f \<and>
    train_loop example_env (example_cfg 1) f [0..<1] (init_state 0 example_data Map.empty) = Inr si \<and>
    train_loop example_env (example_cfg 1) f [0..<2] (init_state 0 example_data Map.empty) = Inr si1 \<and>
    get_next_batch 1 [0, 1] (data si) = Inr (xb, yb, d') \<and>
    perturb (attack (example_cfg 1)) (grad_of (model example_env) (params si)) xb yb xb = Inr xadv \<and>
    params si1 = adam_step (model example_env) (params si) (1/10) 0 xadv yb \<and> data si1 = d'"
proof -
  obtain s' where r: "run_training example_env (example_cfg 1) (init_state 0 example_data Map.empty) = Inr s'"
    by (simp add: run_eval_defs)
  have "\<exists>f si si1 xb yb d' xadv. schedule_fn (step_size_schedule (example_cfg 1)) = Inr f \<and>
    train_loop example_env (example_cfg 1) f [0..<1] (init_state 0 example_data Map.empty) = Inr si \<and>
    train_loop example_env (example_cfg 1) f [0..<Suc 1] (init_state 0 example_data Map.empty) = Inr si1 \<and>
    get_next_batch (training_batch_size (example_cfg 1)) (perm_of example_env 1) (data si) = Inr (xb, yb, d') \<and>
    perturb (attack (example_cfg 1)) (grad_of (model example_env) (params si)) xb yb
      (noise_of example_env 1 xb) = Inr xadv \<and>
    params si1 = adam_step (model example_env) (params si)
      (lr_spec (int 1) (schedule_boundaries (step_size_schedule (example_cfg 1)))
                       (schedule_values (step_size_schedule (example_cfg 1))))
      (weight_decay (example_cfg 1)) xadv yb \<and> data si1 = d'"
    by (rule run_training_adversarial_update [OF r])
       (simp_all add: init_state_def example_cfg_def schedule_boundaries_def py_int_def fits_int32_def)
  then show ?thesis using r
    by (simp add: example_cfg_def example_env_def lr_spec_def schedule_boundaries_def
        schedule_values_def py_int_def numeral_2_eq_2)
qed

text \<open>C3: in a completed run over clean data in \<open>[0, 1]\<close>, with \<open>\<epsilon> \<ge> 0\<close>,
  random-start noise within \<open>[-\<epsilon>, \<epsilon>]\<close> and permutations for the reshuffles,
  every perturbation line the loop prints (lines 126--127) reports a maximum of
  the per-example perturbation sizes at most \<open>\<epsilon>\<close>, and a minimum, median and mean
  between 0 and that maximum.\<close>

theorem logged_perturbation_within:
  assumes run: "run_training E cfg s0 = Inr s'"
    and "ds_valid (data s0)" "\<And>ii. mset (perm_of E ii) = mset [0..<length (ds_xs (data s0))]"
    and "all_elems (\<lambda>r. 0 \<le> r \<and> r \<le> 1) (ds_xs (data s0))" "0 \<le> epsilon (attack cfg)"
    and "\<And>ii x. random_start (attack cfg) \<Longrightarrow>
           all_elems (\<lambda>r. \<bar>r\<bar> \<le> epsilon (attack cfg)) (noise_of E ii x)"
    and "list_all (md_within (epsilon (attack cfg))) (log s0)"
  shows "list_all (md_within (epsilon (attack cfg))) (log s')"
proof -
  obtain f where "train_loop E cfg f [0..<nat (max_num_training_steps cfg)] s0 = Inr s'"
    using run by (auto simp: run_training_def bind_err_eq_Inr)
  then show ?thesis using train_loop_within assms(2-7) by blast
qed

theorem logged_perturbation_within_witness:
  "\<exists>s'. run_training example_env (example_cfg 1) (init_state 0 example_data Map.empty) = Inr s' \<and>
        list_all (md_within (1/10)) (log s')"
proof -
  obtain s' where r: "run_training example_env (example_cfg 1) (init_state 0 example_data Map.empty) = Inr s'"
    by (simp add: run_eval_defs)
  have "list_all (md_within (epsilon (attack (example_cfg 1)))) (log s')"
    by (rule logged_perturbation_within [OF r])
       (simp_all add: example_cfg_def example_env_def example_data_def init_state_def
        data_subset_new_def ds_valid_def all_elems_def upt_rec)
  then show ?thesis using r by (auto simp: example_cfg_def)
qed


text \<open>C1: the whole script, from its \<open>config.json\<close> to the end of its loop, completes
  when the configuration follows the schema with non-zero cadences and a batch size
  between 1 and the number of examples, the provider is well-formed over non-empty
  examples and reshuffles by permutations, the model's gradients and the noise keep
  the shape of their input, and the measured attack durations are positive and the
  update durations non-negative.\<close>

theorem run_script_completes:
  assumes typed: "config_typed j"
    and cad: "py_getitem_str j ''num_output_steps'' \<noteq> Inr (JInt 0)"
      "py_getitem_str j ''num_summary_steps'' \<noteq> Inr (JInt 0)"
      "py_getitem_str j ''num_checkpoint_steps'' \<noteq> Inr (JInt 0)"
    and bs: "py_getitem_str j ''training_batch_size'' = Inr (JInt b)" "0 < b" "nat b \<le> length (ds_xs d)"
    and v: "ds_valid d" "\<forall>e\<in>set (ds_xs d). e \<noteq> []"
      "\<And>ii. mset (perm_of E ii) = mset [0..<length (ds_xs d)]"
    and g: "\<And>p l u y. same_shape u (grad_of (model E) p l u y)"
    and n: "\<And>ii x. same_shape x (noise_of E ii x)"
    and tm: "\<And>ii. 0 < attack_time E ii" "\<And>ii. 0 \<le> train_time E ii"
  shows "\<exists>s'. run_script E fr j p0 d st = Inr s'"
proof -
  obtain cfg f where c: "config_read fr j (\<lambda>c f. Inr (c, f)) = Inr (cfg, f)"
    and sch: "sorted (schedule_boundaries (step_size_schedule cfg))" "2 \<le> length (step_size_schedule cfg)"
      "list_all fits_int32 (schedule_boundaries (step_size_schedule cfg))"
    and lk: "py_getitem_str j ''num_output_steps'' = Inr (JInt (num_output_steps cfg))"
      "py_getitem_str j ''num_summary_steps'' = Inr (JInt (num_summary_steps cfg))"
      "py_getitem_str j ''num_checkpoint_steps'' = Inr (JInt (num_checkpoint_steps cfg))"
      "py_getitem_str j ''training_batch_size'' = Inr (JInt (int (training_batch_size cfg)))"
    using config_read_typed [OF typed, of fr] by blast
  have cz: "num_output_steps cfg \<noteq> 0" "num_summary_steps cfg \<noteq> 0" "num_checkpoint_steps cfg \<noteq> 0"
    using cad lk(1-3) by auto
  have b: "0 < training_batch_size cfg" "training_batch_size cfg \<le> length (ds_xs (data (init_state p0 d st)))"
    using bs lk(4) by (auto simp: init_state_def)
  obtain f' where "schedule_fn (step_size_schedule cfg) = Inr f'"
    and t: "\<forall>x. f' x = Inr (lr_spec x (schedule_boundaries (step_size_schedule cfg))
                                    (schedule_values (step_size_schedule cfg)))"
    using schedule_fn_total [OF sch] by blast
  moreover have "schedule_fn (step_size_schedule cfg) = Inr f" using config_read_Inr [OF c] by blast
  ultimately have ft: "\<forall>x. \<exists>r. f x = Inr r" by auto
  have s0: "ds_valid (data (init_state p0 d st))" "\<forall>e\<in>set (ds_xs (data (init_state p0 d st))). e \<noteq> []"
    "\<And>ii. mset (perm_of E ii) = mset [0..<length (ds_xs (data (init_state p0 d st)))]"
    "0 \<le> training_time (init_state p0 d st)"
    using v by (simp_all add: init_state_def)
  have "\<exists>s'. train_loop E cfg f [0..<nat (max_num_training_steps cfg)] (init_state p0 d st) = Inr s'"
    using ft cz s0 b g n tm by (intro train_loop_returns) auto
  then obtain s' where
    "train_loop E cfg f [0..<nat (max_num_training_steps cfg)] (init_state p0 d st) = Inr s'" by blast
  then show ?thesis using c by (simp add: run_script_split)
qed

theorem run_script_completes_witness:
  "\<exists>s'. run_script example_env example_float_repr example_json 0 example_data Map.empty = Inr s'"
  using example_json_typed
  by (rule run_script_completes [where b = 1])
     (simp_all add: example_json_def py_getitem_str_def example_env_def example_data_def
      data_subset_new_def ds_valid_def same_shape_iff_shape upt_rec)


text \<open>C5: the whole script with its file system. When the configuration loads,
  \<open>config.json\<close> is a regular file, and no component of the output directory's
  path is a regular file, the script ends as \<open>run_script\<close> does (a completed
  run or the same exception), and whatever that outcome, the file system it leaves
  is well-formed, has the output directory, holds a copy of \<open>config.json\<close> in it,
  and is unchanged elsewhere.\<close>

theorem run_script_io_output:
  assumes load: "load_config fr j = Inr cfg"
    and fs: "fs_wf fs" "fs_get fs config_path = Some (FFile c)"
    and dir: "path_of (model_dir cfg) \<noteq> []"
      "\<forall>i \<le> length (path_of (model_dir cfg)). \<forall>c. fs_get fs (take i (path_of (model_dir cfg))) \<noteq> Some (FFile c)"
      "fs_get fs (path_of (model_dir cfg) @ [''config.json'']) \<noteq> Some FDir"
  shows "\<exists>fs'. run_script_io E fr j p0 d st fs = (fs', run_script E fr j p0 d st) \<and> fs_wf fs' \<and>
           os_path_isdir fs' (path_of (model_dir cfg)) \<and>
           fs_get fs' (path_of (model_dir cfg) @ [''config.json'']) = Some (FFile c) \<and>
           (\<forall>q. (\<forall>i \<le> length (path_of (model_dir cfg)). q \<noteq> take i (path_of (model_dir cfg))) \<and>
                q \<noteq> path_of (model_dir cfg) @ [''config.json''] \<longrightarrow> fs_get fs' q = fs_get fs q)"
proof -
  let ?p = "path_of (model_dir cfg)"
  obtain f where rd: "config_read fr j (\<lambda>c f. Inr (c, f)) = Inr (cfg, f)"
    using load by (rule load_config_read)
  let ?loop = "train_loop E cfg f [0..<nat (max_num_training_steps cfg)] (init_state p0 d st)"
  obtain fs' where e: "io_bind (ensure_dir ?p) (\<lambda>u. shutil_copy config_path ?p) fs = (fs', Inr ())"
    and w: "fs_wf fs'" and dp: "os_path_isdir fs' ?p"
    and cp: "fs_get fs' (?p @ [''config.json'']) = Some (FFile c)"
    and fr: "\<forall>q. (\<forall>i \<le> length ?p. q \<noteq> take i ?p) \<and> q \<noteq> ?p @ [''config.json''] \<longrightarrow> fs_get fs' q = fs_get fs q"
    using ensure_dir_copy [OF fs dir] by blast
  have "run_script_io E fr j p0 d st =
     io_bind (ensure_dir ?p) (\<lambda>u. io_bind (shutil_copy config_path ?p) (\<lambda>u.
       io_bind (writers_dir (model_dir cfg)) (\<lambda>u. io_lift ?loop)))"
    unfolding run_script_io_def by (rule config_chain_reads [OF rd])
  also have "\<dots> = io_bind (io_bind (ensure_dir ?p) (\<lambda>u. shutil_copy config_path ?p))
       (\<lambda>u. io_bind (writers_dir (model_dir cfg)) (\<lambda>u. io_lift ?loop))"
    by (simp add: io_bind_assoc)
  finally have "run_script_io E fr j p0 d st fs =
      io_bind (io_bind (ensure_dir ?p) (\<lambda>u. shutil_copy config_path ?p))
       (\<lambda>u. io_bind (writers_dir (model_dir cfg)) (\<lambda>u. io_lift ?loop)) fs" by simp
  also have "\<dots> = io_bind (writers_dir (model_dir cfg)) (\<lambda>u. io_lift ?loop) fs'"
    by (rule io_bind_Inr) (fact e)
  also have "\<dots> = (fs', ?loop)" using dp by (simp add: io_bind_def writers_dir_def)
  finally have "run_script_io E fr j p0 d st fs = (fs', run_script E fr j p0 d st)"
    using rd by (simp add: run_script_split)
  then show ?thesis using w dp cp fr by blast
qed

theorem run_script_io_output_witness:
  "\<exists>fs'. run_script_io example_env example_float_repr example_json 0 example_data Map.empty example_fs =
          (fs', run_script example_env example_float_repr example_json 0 example_data Map.empty) \<and>
        os_path_isdir fs' [''m_robust_e_0.1''] \<and> fs_get fs' [''m_robust_e_0.1'', ''config.json''] = Some (FFile ''{}'')"
proof -
  have p: "path_of ''m_robust_e_0.1'' = [''m_robust_e_0.1'']" by (simp add: path_of_def)
  have "\<forall>i \<le> length [''m_robust_e_0.1'']. \<forall>c. fs_get example_fs (take i [''m_robust_e_0.1'']) \<noteq> Some (FFile c)"
  proof (intro allI impI)
    fix i c assume "i \<le> length [''m_robust_e_0.1'']"
    then consider "i = 0" | "i = 1" by fastforce
    then show "fs_get example_fs (take i [''m_robust_e_0.1'']) \<noteq> Some (FFile c)"
      by cases (simp_all add: example_fs_def fs_get_def)
  qed
  then show ?thesis
    using run_script_io_output [OF example_json_loads, of example_fs "''{}''" example_env 0 example_data Map.empty]
    by (simp add: p fs_wf_def fs_get_def example_fs_def config_path_eq) blast
qed

text \<open>C24: the check of line 76 is \<open>os.path.exists\<close>, not \<open>os.path.isdir\<close>: when
  the output directory's path names an existing regular file, lines 76--77 leave it,
  line 93 overwrites it with the configuration, and no output directory exists,
  whatever the script does afterwards.\<close>

theorem run_script_io_file_clobbered:
  assumes load: "load_config fr j = Inr cfg"
    and fs: "fs_wf fs" "fs_get fs config_path = Some (FFile c)"
    and mf: "fs_get fs (path_of (model_dir cfg)) = Some (FFile x)" "path_of (model_dir cfg) \<noteq> config_path"
  shows "fst (run_script_io E fr j p0 d st fs) = fs_put (path_of (model_dir cfg)) (FFile c) fs \<and>
         \<not> os_path_isdir (fst (run_script_io E fr j p0 d st fs)) (path_of (model_dir cfg))"
proof -
  let ?p = "path_of (model_dir cfg)"
  obtain f where rd: "config_read fr j (\<lambda>c f. Inr (c, f)) = Inr (cfg, f)"
    using load by (rule load_config_read)
  have ne: "?p \<noteq> []" using mf(1) fs(1) by (auto simp: fs_wf_iff)
  have e: "ensure_dir ?p fs = (fs, Inr ())" using mf(1) by (simp add: ensure_dir_def os_path_exists_def)
  have r: "open_read fs config_path = Inr c"
    using path_walk_parent [OF fs(1) fs(2)] fs(2) by (simp add: open_read_def config_path_eq)
  have w: "path_walk fs (butlast ?p) = Inr ()" using path_walk_parent [OF fs(1) mf(1) ne] .
  have cp: "shutil_copy config_path ?p fs = (fs_put ?p (FFile c) fs, Inr ())"
    using r w mf by (simp add: shutil_copy_def open_write_def os_path_isdir_def Let_def)
  have "run_script_io E fr j p0 d st fs =
     io_bind (ensure_dir ?p) (\<lambda>u. io_bind (shutil_copy config_path ?p) (\<lambda>u.
       io_bind (writers_dir (model_dir cfg)) (\<lambda>u. io_lift (train_loop E cfg f [0..<nat (max_num_training_steps cfg)]
         (init_state p0 d st))))) fs"
    unfolding run_script_io_def by (simp only: config_chain_reads [OF rd])
  also have "\<dots> = (fs_put ?p (FFile c) fs, Inl UnmodelledValue)"
    by (simp add: io_bind_def writers_dir_def os_path_isdir_def e cp)
  finally show ?thesis by (simp add: os_path_isdir_def)
qed

theorem run_script_io_file_clobbered_witness:
  "fst (run_script_io example_env example_float_repr example_json 0 example_data Map.empty
          (example_fs @ [([''m_robust_e_0.1''], FFile ''old'')])) =
     fs_put [''m_robust_e_0.1''] (FFile ''{}'') (example_fs @ [([''m_robust_e_0.1''], FFile ''old'')])"
proof -
  have p: "path_of ''m_robust_e_0.1'' = [''m_robust_e_0.1'']" by (simp add: path_of_def)
  show ?thesis
    using run_script_io_file_clobbered [OF example_json_loads,
        of "example_fs @ [([''m_robust_e_0.1''], FFile ''old'')]" "''{}''" "''old''" example_env 0 example_data Map.empty]
    by (simp add: p fs_wf_def fs_get_def example_fs_def config_path_eq)
qed

end
